theory Spec2Isabelle
  imports Complex_Main
begin

section \<open>Python values: exceptions, floats, slices\<close>

text \<open>
  The simulator is Python. Its integers are unbounded (\<open>int\<close>; the unsigned values a
  contract call returns are \<open>nat\<close>). An exception is a value: \<open>exn\<close> holds the classes
  below \<open>Exception\<close> the code can meet, each with the message that \<open>str(e)\<close> returns,
  and \<open>base_exn\<close> adds \<open>KeyboardInterrupt\<close>, which \<open>except Exception\<close> does not catch.
\<close>

datatype exn =
    Exception string
  | ZeroDivisionError string
  | IndexError string
  | ValueError string
  | TypeError string

datatype base_exn = Exc exn | KeyboardInterrupt

fun str_exn :: "exn \<Rightarrow> string" where
  "str_exn (Exception m) = m"
| "str_exn (ZeroDivisionError m) = m"
| "str_exn (IndexError m) = m"
| "str_exn (ValueError m) = m"
| "str_exn (TypeError m) = m"

subsection \<open>Floats\<close>

text \<open>
  A Python \<open>float\<close> is an IEEE 754 binary64 number. A finite one is a real number with
  a 53-bit significand, and every arithmetic operation returns the exact result rounded
  to the nearest such number, ties to the even significand. \<open>fl\<close> is that rounding;
  the exponent range is not bounded here. So \<open>fl\<close> agrees with binary64 on results of
  magnitude from \<open>2 ** -1022\<close> up to \<open>2 ** 1024\<close> (and on 0): infinities, NaN and the
  subnormal numbers are outside the model, and so are the \<open>OverflowError\<close> of \<open>int(inf)\<close>
  and of converting an \<open>int\<close> beyond the range. The quantities below are unsigned 256-bit
  token amounts and reserves, their ratios, and ratios between 0 and 1; a statement
  about a float parameter that the code does not bound carries the bound as a
  hypothesis.
\<close>

definition expo :: "real \<Rightarrow> int" where
  "expo x = \<lfloor>log 2 \<bar>x\<bar>\<rfloor>"

definition round_half_even :: "real \<Rightarrow> int" where
  "round_half_even x =
     (let f = \<lfloor>x\<rfloor>; d = x - of_int f
      in if d < 1 / 2 then f
         else if 1 / 2 < d then f + 1
         else if even f then f else f + 1)"

definition fl :: "real \<Rightarrow> real" where
  "fl x = (if x = 0 then 0
           else of_int (round_half_even (x / 2 powi (expo x - 52))) * 2 powi (expo x - 52))"

definition float_of_int :: "int \<Rightarrow> real" where
  "float_of_int n = fl (of_int n)"

definition fadd :: "real \<Rightarrow> real \<Rightarrow> real" where
  "fadd x y = fl (x + y)"

definition fsub :: "real \<Rightarrow> real \<Rightarrow> real" where
  "fsub x y = fl (x - y)"

definition fmul :: "real \<Rightarrow> real \<Rightarrow> real" where
  "fmul x y = fl (x * y)"

definition fdiv :: "real \<Rightarrow> real \<Rightarrow> exn + real" where
  "fdiv x y = (if y = 0 then Inl (ZeroDivisionError ''float division by zero'')
               else Inr (fl (x / y)))"

text \<open>\<open>a / b\<close> on two Python ints: the correctly rounded quotient.\<close>

definition int_truediv :: "int \<Rightarrow> int \<Rightarrow> exn + real" where
  "int_truediv a b = (if b = 0 then Inl (ZeroDivisionError ''division by zero'')
                      else Inr (fl (of_int a / of_int b)))"

definition fsqrt :: "real \<Rightarrow> exn + real" where
  "fsqrt x = (if x < 0 then Inl (ValueError ''math domain error'') else Inr (fl (sqrt x)))"

text \<open>\<open>int(x)\<close> truncates towards zero.\<close>

definition int_of_float :: "real \<Rightarrow> int" where
  "int_of_float x = (if 0 \<le> x then \<lfloor>x\<rfloor> else \<lceil>x\<rceil>)"

subsection \<open>Numbers of mixed type\<close>

text \<open>
  A balance in the dictionary of \<open>get_all_balances\<close> is an \<open>int\<close>, a \<open>float\<close> or a
  \<open>decimal.Decimal\<close>; a number read from the JSON configuration is an \<open>int\<close> or a
  \<open>float\<close>.
\<close>

datatype number = PyInt int | PyFloat real | PyDecimal real

datatype config_number = ConfigInt int | ConfigFloat real

subsection \<open>Slices\<close>

text \<open>\<open>xs[i:]\<close>: a negative start counts from the end and is clamped at the front.\<close>

definition slice_from :: "'a list \<Rightarrow> int \<Rightarrow> 'a list" where
  "slice_from xs i =
     (let n = int (length xs);
          j = (if i < 0 then max 0 (n + i) else min i n)
      in drop (nat j) xs)"

section \<open>The ledger interface\<close>

text \<open>
  Every agent talks to the chain through \<open>web3\<close>. The chain is outside the
  repository, so it is a parameter: a state \<open>'w\<close> and the calls the simulator makes on
  it, each of which may raise. A read returns a value; a submission also returns the
  next state. \<open>send_raw_transaction\<close> stands for signing the transaction and
  sending the signed bytes; \<open>getReserves\<close>, \<open>getAmountOut\<close> and \<open>balanceOf\<close> are the
  contract calls, the contract's address first.
\<close>

type_synonym address = string

datatype contract_call =
    Approve address address int
  | Transfer address address int
  | AddLiquidity int int int int address
  | RemoveLiquidity int int int address
  | SwapExactTokensForTokens int int address address

record transaction =
  tx_call :: contract_call
  tx_from :: address
  tx_nonce :: nat
  tx_gas :: nat
  tx_gasPrice :: nat
  tx_chainId :: nat

record receipt =
  status :: nat
  gasUsed :: nat

record 'w web3 =
  chain_id :: "'w \<Rightarrow> exn + nat"
  build_transaction :: "contract_call \<Rightarrow> 'w \<Rightarrow> exn + transaction"
  send_raw_transaction :: "transaction \<Rightarrow> 'w \<Rightarrow> (exn + string) \<times> 'w"
  wait_for_transaction_receipt :: "string \<Rightarrow> 'w \<Rightarrow> (exn + receipt) \<times> 'w"
  get_balance :: "address \<Rightarrow> 'w \<Rightarrow> exn + nat"
  get_transaction_count :: "address \<Rightarrow> 'w \<Rightarrow> exn + nat"
  balanceOf :: "address \<Rightarrow> address \<Rightarrow> 'w \<Rightarrow> exn + nat"
  decimals :: "address \<Rightarrow> 'w \<Rightarrow> exn + nat"
  getReserves :: "address \<Rightarrow> 'w \<Rightarrow> exn + nat \<times> nat"
  getAmountOut :: "address \<Rightarrow> nat \<Rightarrow> nat \<Rightarrow> nat \<Rightarrow> 'w \<Rightarrow> exn + nat"
  block_timestamp :: "'w \<Rightarrow> exn + nat"
  block_number :: "'w \<Rightarrow> exn + nat"
  token_contracts :: "(string \<times> address) list"

section \<open>Agents\<close>

subsection \<open>AgentBase\<close>

text \<open>
  \<open>self.random\<close> is a \<open>random.Random\<close>: \<open>random_draws\<close> is the sequence of floats in
  \<open>[0, 1)\<close> that its \<open>random()\<close> returns, \<open>random_pos\<close> how many have been drawn.
\<close>

datatype trade_details =
    AddLiquidityTrade int int string
  | RemoveLiquidityTrade int string
  | SwapTrade int address address int string

record trade_record =
  trade_timestamp :: nat
  trade_block_number :: nat
  trade_agent_id :: string
  trade_type :: string
  trade_details :: trade_details

record agent_base =
  agent_id :: string
  address :: address
  random_draws :: "nat \<Rightarrow> real"
  random_pos :: nat
  nonce :: nat
  gas_limit :: nat
  gas_price :: nat
  pnl :: real
  total_gas_used :: nat
  transaction_count :: nat
  trade_history :: "trade_record list"
  initial_balances :: "(string \<times> config_number) list"

definition random_random :: "'a agent_base_scheme \<Rightarrow> real \<times> 'a agent_base_scheme" where
  "random_random a = (random_draws a (random_pos a), a\<lparr>random_pos := random_pos a + 1\<rparr>)"

definition get_token_balance :: "'w web3 \<Rightarrow> 'a agent_base_scheme \<Rightarrow> address \<Rightarrow> 'w \<Rightarrow> nat" where
  "get_token_balance env a token_address w =
     (case balanceOf env token_address (address a) w of
        Inl e \<Rightarrow> 0
      | Inr b \<Rightarrow> b)"

text \<open>
  \<open>send_transaction\<close>: the counters move in the three statements that follow the
  receipt check; every failure before them leaves the \<open>try\<close> block through
  \<open>except ... raise\<close>.
\<close>

definition send_transaction ::
  "'w web3 \<Rightarrow> 'a agent_base_scheme \<Rightarrow> transaction \<Rightarrow> 'w
     \<Rightarrow> (exn + string) \<times> 'a agent_base_scheme \<times> 'w"
where
  "send_transaction env a transaction w =
     (case chain_id env w of
        Inl e \<Rightarrow> (Inl e, a, w)
      | Inr cid \<Rightarrow>
          let tx = transaction\<lparr>tx_from := address a, tx_nonce := nonce a, tx_gas := gas_limit a,
                               tx_gasPrice := gas_price a, tx_chainId := cid\<rparr>
          in (case send_raw_transaction env tx w of
                (Inl e, w1) \<Rightarrow> (Inl e, a, w1)
              | (Inr tx_hash, w1) \<Rightarrow>
                  (case wait_for_transaction_receipt env tx_hash w1 of
                     (Inl e, w2) \<Rightarrow> (Inl e, a, w2)
                   | (Inr receipt, w2) \<Rightarrow>
                       if status receipt = 0
                       then (Inl (Exception ''Transaction failed''), a, w2)
                       else (Inr tx_hash,
                             a\<lparr>nonce := nonce a + 1,
                               transaction_count := transaction_count a + 1,
                               total_gas_used := total_gas_used a + gasUsed receipt\<rparr>,
                             w2))))"

definition approve_token_spending ::
  "'w web3 \<Rightarrow> 'a agent_base_scheme \<Rightarrow> address \<Rightarrow> address \<Rightarrow> int \<Rightarrow> 'w
     \<Rightarrow> (exn + string) \<times> 'a agent_base_scheme \<times> 'w"
where
  "approve_token_spending env a token_address spender amount w =
     (case build_transaction env (Approve token_address spender amount) w of
        Inl e \<Rightarrow> (Inl e, a, w)
      | Inr transaction \<Rightarrow> send_transaction env a transaction w)"

definition log_trade ::
  "'w web3 \<Rightarrow> 'a agent_base_scheme \<Rightarrow> string \<Rightarrow> trade_details \<Rightarrow> 'w
     \<Rightarrow> exn + 'a agent_base_scheme"
where
  "log_trade env a ttype details w =
     (case block_timestamp env w of
        Inl e \<Rightarrow> Inl e
      | Inr ts \<Rightarrow>
          (case block_number env w of
             Inl e \<Rightarrow> Inl e
           | Inr bn \<Rightarrow>
               Inr (a\<lparr>trade_history := trade_history a @
                      [\<lparr>trade_timestamp = ts, trade_block_number = bn,
                        trade_agent_id = agent_id a, trade_type = ttype,
                        trade_details = details\<rparr>]\<rparr>)))"


text \<open>
  \<open>get_performance_stats\<close> and what it calls. The ETH balance is read outside any
  \<open>try\<close>; each token read has its own. \<open>token_contracts\<close> of the ledger interface
  holds the entries of \<open>self.contracts\<close> that pass the name test of
  \<open>get_all_balances\<close> (\<open>'ERC20' in name or name in ['TEST', 'USDC']\<close>).

  \<open>get_eth_balance\<close> returns what \<open>from_wei(balance_wei, 'ether')\<close> of the web3 library
  returns: the \<open>int\<close> 0 for 0, \<open>ValueError\<close> above \<open>2**256 - 1\<close>, and otherwise a
  \<open>Decimal\<close>, the quotient by \<open>10**18\<close> (exact at the 999 digits the library computes
  with). A token balance is the \<open>float\<close> quotient of two ints.
\<close>

record performance_stats =
  stats_agent_id :: string
  stats_address :: address
  stats_pnl :: real
  stats_total_gas_used :: nat
  stats_transaction_count :: nat
  stats_avg_gas_per_tx :: real
  stats_current_balances :: "(string \<times> number) list"
  stats_trade_count :: nat

definition from_wei_ether :: "nat \<Rightarrow> exn + number" where
  "from_wei_ether n =
     (if n = 0 then Inr (PyInt 0)
      else if n > 2 ^ 256 - 1 then Inl (ValueError ''value must be between 1 and 2**256 - 1'')
      else Inr (PyDecimal (real n / 10 ^ 18)))"

definition get_eth_balance :: "'w web3 \<Rightarrow> 'a agent_base_scheme \<Rightarrow> 'w \<Rightarrow> exn + number" where
  "get_eth_balance env a w =
     (case get_balance env (address a) w of
        Inl e \<Rightarrow> Inl e
      | Inr balance_wei \<Rightarrow> from_wei_ether balance_wei)"

definition get_token_decimals :: "'w web3 \<Rightarrow> address \<Rightarrow> 'w \<Rightarrow> nat" where
  "get_token_decimals env token_address w =
     (case decimals env token_address w of
        Inl e \<Rightarrow> 18
      | Inr d \<Rightarrow> d)"

definition get_all_balances ::
  "'w web3 \<Rightarrow> 'a agent_base_scheme \<Rightarrow> 'w \<Rightarrow> exn + (string \<times> number) list"
where
  "get_all_balances env a w =
     (case get_eth_balance env a w of
        Inl e \<Rightarrow> Inl e
      | Inr eth \<Rightarrow>
          Inr ((''ETH'', eth) #
               map (\<lambda>(name, token_address).
                      (name,
                       (case int_truediv (int (get_token_balance env a token_address w))
                               (10 ^ get_token_decimals env token_address w) of
                          Inl e \<Rightarrow> PyFloat 0
                        | Inr v \<Rightarrow> PyFloat v)))
                   (token_contracts env)))"

text \<open>
  \<open>calculate_pnl\<close>. \<open>pnl_term\<close> is one round of its loop,
  \<open>pnl += (current_balance - initial_balance)\<close>, on a \<open>float\<close> accumulator: an \<open>int\<close>
  meeting a \<open>float\<close> is converted; a \<open>Decimal\<close> and a \<open>float\<close> do not combine, so a
  \<open>Decimal\<close> balance raises \<open>TypeError\<close>, in the subtraction against a \<open>float\<close>, and
  against an \<open>int\<close> in the addition of the \<open>Decimal\<close> difference to the accumulator
  (the messages are Python's, without their quotation marks). \<open>self.pnl\<close> is set after
  the loop.
\<close>

fun pnl_term :: "real \<Rightarrow> number \<Rightarrow> config_number \<Rightarrow> exn + real" where
  "pnl_term acc (PyFloat c) (ConfigFloat i) = Inr (fadd acc (fsub c i))"
| "pnl_term acc (PyFloat c) (ConfigInt i) = Inr (fadd acc (fsub c (float_of_int i)))"
| "pnl_term acc (PyInt c) (ConfigFloat i) = Inr (fadd acc (fsub (float_of_int c) i))"
| "pnl_term acc (PyInt c) (ConfigInt i) = Inr (fadd acc (float_of_int (c - i)))"
| "pnl_term acc (PyDecimal c) (ConfigFloat i) =
     Inl (TypeError ''unsupported operand type(s) for -: decimal.Decimal and float'')"
| "pnl_term acc (PyDecimal c) (ConfigInt i) =
     Inl (TypeError ''unsupported operand type(s) for +=: float and decimal.Decimal'')"

fun pnl_loop ::
  "(string \<times> number) list \<Rightarrow> real \<Rightarrow> (string \<times> config_number) list \<Rightarrow> exn + real"
where
  "pnl_loop current_balances acc [] = Inr acc"
| "pnl_loop current_balances acc ((token, initial_balance) # rest) =
     (case pnl_term acc
             (case map_of current_balances token of
                None \<Rightarrow> PyFloat 0
              | Some b \<Rightarrow> b)
             initial_balance of
        Inl e \<Rightarrow> Inl e
      | Inr acc' \<Rightarrow> pnl_loop current_balances acc' rest)"

definition calculate_pnl ::
  "'w web3 \<Rightarrow> 'a agent_base_scheme \<Rightarrow> 'w \<Rightarrow> (exn + real) \<times> 'a agent_base_scheme"
where
  "calculate_pnl env a w =
     (case get_all_balances env a w of
        Inl e \<Rightarrow> (Inl e, a)
      | Inr current_balances \<Rightarrow>
          (case pnl_loop current_balances 0 (initial_balances a) of
             Inl e \<Rightarrow> (Inl e, a)
           | Inr p \<Rightarrow> (Inr p, a\<lparr>pnl := p\<rparr>)))"

definition get_performance_stats ::
  "'w web3 \<Rightarrow> 'a agent_base_scheme \<Rightarrow> 'w \<Rightarrow> (exn + performance_stats) \<times> 'a agent_base_scheme"
where
  "get_performance_stats env a w =
     (case calculate_pnl env a w of
        (Inl e, a1) \<Rightarrow> (Inl e, a1)
      | (Inr p, a1) \<Rightarrow>
          (case get_all_balances env a1 w of
             Inl e \<Rightarrow> (Inl e, a1)
           | Inr current_balances \<Rightarrow>
               (Inr \<lparr>stats_agent_id = agent_id a1, stats_address = address a1, stats_pnl = p,
                     stats_total_gas_used = total_gas_used a1,
                     stats_transaction_count = transaction_count a1,
                     stats_avg_gas_per_tx =
                       fl (real (total_gas_used a1) / real (max 1 (transaction_count a1))),
                     stats_current_balances = current_balances,
                     stats_trade_count = length (trade_history a1)\<rparr>,
                a1)))"

text \<open>
  \<open>MarketMaker\<close> and \<open>Trader\<close> both keep the pool's address and the two token
  addresses; the three fields are declared once here and both records extend them.
\<close>

record amm_agent = agent_base +
  amm_address :: address
  token_a_address :: address
  token_b_address :: address

subsection \<open>Action reports\<close>

datatype action =
    AddInitialLiquidity int int string
  | RebalanceRemove int string
  | MomentumBuyA real int string
  | MomentumSellA real int string
  | OtherAction string

record mm_performance =
  perf_lp_balance :: nat
  perf_impermanent_loss :: real
  perf_fees_collected :: real

record action_report =
  report_agent_id :: string
  report_agent_type :: string
  actions_taken :: "action list"
  report_performance :: "mm_performance option"
  report_momentum :: "real option"
  report_price_history_length :: "nat option"
  report_error :: "string option"

subsection \<open>Trader and MomentumTrader\<close>

record trader = amm_agent +
  slippage_tolerance :: real
  min_trade_size :: int
  max_trade_size_ratio :: real
  successful_trades :: nat
  failed_trades :: nat
  total_volume :: real
  total_slippage :: real

text \<open>
  \<open>calculate_swap_output\<close> asks the contract for the quote and returns \<open>0\<close> when the
  call fails. \<open>execute_swap\<close> counts a failed trade for every exception.
\<close>

definition calculate_swap_output ::
  "'w web3 \<Rightarrow> 'a trader_scheme \<Rightarrow> int \<Rightarrow> address \<Rightarrow> 'w \<Rightarrow> nat"
where
  "calculate_swap_output env t amount_in token_in w =
     (case getReserves env (amm_address t) w of
        Inl e \<Rightarrow> 0
      | Inr (reserve_a, reserve_b) \<Rightarrow>
          if amount_in < 0 then 0
          else
            (case (if token_in = token_a_address t
                   then getAmountOut env (amm_address t) (nat amount_in) reserve_a reserve_b w
                   else getAmountOut env (amm_address t) (nat amount_in) reserve_b reserve_a w) of
               Inl e \<Rightarrow> 0
             | Inr out \<Rightarrow> out))"

definition execute_swap ::
  "'w web3 \<Rightarrow> 'a trader_scheme \<Rightarrow> int \<Rightarrow> address \<Rightarrow> 'w
     \<Rightarrow> string option \<times> 'a trader_scheme \<times> 'w"
where
  "execute_swap env t amount_in token_in w =
     (let expected_output = calculate_swap_output env t amount_in token_in w;
          min_amount_out = int_of_float
            (fmul (float_of_int (int expected_output)) (fsub 1 (slippage_tolerance t)))
      in (case approve_token_spending env t token_in (amm_address t) amount_in w of
            (Inl e, t1, w1) \<Rightarrow> (None, t1\<lparr>failed_trades := failed_trades t1 + 1\<rparr>, w1)
          | (Inr h, t1, w1) \<Rightarrow>
              (case build_transaction env
                      (SwapExactTokensForTokens amount_in min_amount_out token_in (address t1)) w1 of
                 Inl e \<Rightarrow> (None, t1\<lparr>failed_trades := failed_trades t1 + 1\<rparr>, w1)
               | Inr transaction \<Rightarrow>
                   (case send_transaction env t1 transaction w1 of
                      (Inl e, t2, w2) \<Rightarrow> (None, t2\<lparr>failed_trades := failed_trades t2 + 1\<rparr>, w2)
                    | (Inr tx_hash, t2, w2) \<Rightarrow>
                        let token_out = (if token_in = token_a_address t2
                                         then token_b_address t2 else token_a_address t2)
                        in (case log_trade env t2 ''SWAP''
                                   (SwapTrade amount_in token_in token_out min_amount_out tx_hash) w2 of
                              Inl e \<Rightarrow> (None, t2\<lparr>failed_trades := failed_trades t2 + 1\<rparr>, w2)
                            | Inr t3 \<Rightarrow>
                                (Some tx_hash,
                                 t3\<lparr>successful_trades := successful_trades t3 + 1,
                                    total_volume := fadd (total_volume t3) (float_of_int amount_in)\<rparr>,
                                 w2))))))"

record momentum_trader = trader +
  lookback_periods :: int
  momentum_threshold :: real
  trade_frequency :: real
  price_history :: "real list"

definition get_pool_price :: "'w web3 \<Rightarrow> 'a trader_scheme \<Rightarrow> 'w \<Rightarrow> real" where
  "get_pool_price env t w =
     (case getReserves env (amm_address t) w of
        Inl e \<Rightarrow> 0
      | Inr (reserve_a, reserve_b) \<Rightarrow>
          if reserve_b = 0 then 0
          else (case int_truediv (int reserve_a) (int reserve_b) of
                  Inl e \<Rightarrow> 0
                | Inr p \<Rightarrow> p))"

definition calculate_momentum :: "'a momentum_trader_scheme \<Rightarrow> exn + real" where
  "calculate_momentum t =
     (if int (length (price_history t)) < lookback_periods t then Inr 0
      else
        let recent_prices = slice_from (price_history t) (- lookback_periods t)
        in (case recent_prices of
              [] \<Rightarrow> Inl (IndexError ''list index out of range'')
            | oldest # rest \<Rightarrow>
                if oldest = 0 then Inr 0
                else fdiv (fsub (last recent_prices) oldest) oldest))"

text \<open>
  \<open>MomentumTrader.should_act\<close>: the price is read from the pool now, appended to the
  history, the history cut back when it has grown past twice the lookback, and the
  random draw made only when the momentum signal is off (\<open>or\<close> is lazy). The
  \<open>market_data\<close> argument is not used.
\<close>

definition momentum_should_act ::
  "'w web3 \<Rightarrow> 'a momentum_trader_scheme \<Rightarrow> 'md \<Rightarrow> 'w \<Rightarrow> (exn + bool) \<times> 'a momentum_trader_scheme"
where
  "momentum_should_act env t market_data w =
     (let current_price = get_pool_price env t w;
          t1 = t\<lparr>price_history := price_history t @ [current_price]\<rparr>;
          t2 = (if int (length (price_history t1)) > lookback_periods t1 * 2
                then t1\<lparr>price_history := slice_from (price_history t1) (- lookback_periods t1)\<rparr>
                else t1)
      in (case calculate_momentum t2 of
            Inl e \<Rightarrow> (Inl e, t2)
          | Inr momentum \<Rightarrow>
              if \<bar>momentum\<bar> > momentum_threshold t2 then (Inr True, t2)
              else (let (r, t3) = random_random t2
                    in (Inr (r < trade_frequency t3), t3))))"


text \<open>\<open>MomentumTrader.step\<close>, with the same \<open>try\<close> around its body.\<close>

definition momentum_report :: "'a momentum_trader_scheme \<Rightarrow> action list \<Rightarrow> action_report" where
  "momentum_report t acts =
     \<lparr>report_agent_id = agent_id t, report_agent_type = ''momentum_trader'',
      actions_taken = acts, report_performance = None, report_momentum = None,
      report_price_history_length = None, report_error = None\<rparr>"

definition momentum_finish ::
  "'a momentum_trader_scheme \<Rightarrow> action list \<Rightarrow> real \<Rightarrow> action_report" where
  "momentum_finish t acts momentum =
     (momentum_report t acts)
       \<lparr>report_momentum := Some momentum,
        report_price_history_length := Some (length (price_history t))\<rparr>"

definition momentum_step ::
  "'w web3 \<Rightarrow> 'a momentum_trader_scheme \<Rightarrow> 'md \<Rightarrow> 'w
     \<Rightarrow> action_report \<times> 'a momentum_trader_scheme \<times> 'w"
where
  "momentum_step env t market_data w =
     (case calculate_momentum t of
        Inl e \<Rightarrow> ((momentum_report t [])\<lparr>report_error := Some (str_exn e)\<rparr>, t, w)
      | Inr momentum \<Rightarrow>
          let balance_a = get_token_balance env t (token_a_address t) w;
              balance_b = get_token_balance env t (token_b_address t) w
          in if momentum > momentum_threshold t \<and> int balance_b > min_trade_size t then
               (let trade_amount = int_of_float
                      (fmul (float_of_int (int balance_b)) (max_trade_size_ratio t))
                in (case execute_swap env t trade_amount (token_b_address t) w of
                      (None, t1, w1) \<Rightarrow> (momentum_finish t1 [] momentum, t1, w1)
                    | (Some tx_hash, t1, w1) \<Rightarrow>
                        (momentum_finish t1
                           (if tx_hash \<noteq> [] then [MomentumBuyA momentum trade_amount tx_hash] else [])
                           momentum,
                         t1, w1)))
             else if momentum < - momentum_threshold t \<and> int balance_a > min_trade_size t then
               (let trade_amount = int_of_float
                      (fmul (float_of_int (int balance_a)) (max_trade_size_ratio t))
                in (case execute_swap env t trade_amount (token_a_address t) w of
                      (None, t1, w1) \<Rightarrow> (momentum_finish t1 [] momentum, t1, w1)
                    | (Some tx_hash, t1, w1) \<Rightarrow>
                        (momentum_finish t1
                           (if tx_hash \<noteq> [] then [MomentumSellA momentum trade_amount tx_hash] else [])
                           momentum,
                         t1, w1)))
             else (momentum_finish t [] momentum, t, w))"

subsection \<open>MarketMaker\<close>

record market_maker = amm_agent +
  target_ratio :: real
  rebalance_threshold :: real
  lp_token_balance :: nat
  initial_reserves :: "(nat \<times> nat) option"
  fees_collected :: real
  impermanent_loss :: real
  min_liquidity_ratio :: real
  max_liquidity_ratio :: real
  fee_collection_threshold :: real

definition get_lp_balance ::
  "'w web3 \<Rightarrow> 'a market_maker_scheme \<Rightarrow> 'w \<Rightarrow> nat \<times> 'a market_maker_scheme"
where
  "get_lp_balance env m w =
     (case balanceOf env (amm_address m) (address m) w of
        Inl e \<Rightarrow> (0, m)
      | Inr b \<Rightarrow> (b, m\<lparr>lp_token_balance := b\<rparr>))"

definition get_pool_reserves :: "'w web3 \<Rightarrow> 'a amm_agent_scheme \<Rightarrow> 'w \<Rightarrow> nat \<times> nat" where
  "get_pool_reserves env m w =
     (case getReserves env (amm_address m) w of
        Inl e \<Rightarrow> (0, 0)
      | Inr r \<Rightarrow> r)"

text \<open>
  \<open>calculate_optimal_liquidity_amounts\<close>. The available amounts are token balances
  (unsigned); an \<open>int\<close> meeting a \<open>float\<close> in an operation is converted first. The
  function has no \<open>try\<close>: a division by zero leaves it as \<open>ZeroDivisionError\<close>.
\<close>

definition calculate_optimal_liquidity_amounts ::
  "'w web3 \<Rightarrow> 'a market_maker_scheme \<Rightarrow> nat \<Rightarrow> nat \<Rightarrow> 'w \<Rightarrow> exn + int \<times> int"
where
  "calculate_optimal_liquidity_amounts env m available_a available_b w =
     (let (reserve_a, reserve_b) = get_pool_reserves env m w
      in if reserve_a = 0 \<or> reserve_b = 0 then
           (case fdiv (fmul (float_of_int (int available_b)) (target_ratio m))
                      (fsub 1 (target_ratio m)) of
              Inl e \<Rightarrow> Inl e
            | Inr q \<Rightarrow>
                let total_value_a = fadd (float_of_int (int available_a)) q;
                    amount_a = int_of_float
                      (fmul (fmul total_value_a (target_ratio m)) (max_liquidity_ratio m))
                in (case fdiv (fmul (float_of_int amount_a) (fsub 1 (target_ratio m)))
                              (target_ratio m) of
                      Inl e \<Rightarrow> Inl e
                    | Inr r \<Rightarrow>
                        let amount_b = int_of_float r
                        in Inr (min amount_a (int available_a), min amount_b (int available_b))))
         else
           (case (if reserve_b > 0 then int_truediv (int reserve_a) (int reserve_b) else Inr 1) of
              Inl e \<Rightarrow> Inl e
            | Inr pool_ratio \<Rightarrow>
                let amount_a = int_of_float
                      (fmul (float_of_int (int available_a)) (max_liquidity_ratio m))
                in (case fdiv (float_of_int amount_a) pool_ratio of
                      Inl e \<Rightarrow> Inl e
                    | Inr rb \<Rightarrow>
                        let required_b = int_of_float rb
                        in if required_b \<le> int available_b then Inr (amount_a, required_b)
                           else
                             let amount_b = int_of_float
                                   (fmul (float_of_int (int available_b)) (max_liquidity_ratio m));
                                 required_a = int_of_float (fmul (float_of_int amount_b) pool_ratio)
                             in if required_a \<le> int available_a then Inr (required_a, amount_b)
                                else
                                  (case int_truediv (int available_a) required_a of
                                     Inl e \<Rightarrow> Inl e
                                   | Inr sa \<Rightarrow>
                                       (case int_truediv (int available_b) required_b of
                                          Inl e \<Rightarrow> Inl e
                                        | Inr sb \<Rightarrow>
                                            let scale_factor = min sa sb
                                            in Inr (int_of_float (fmul (float_of_int required_a) scale_factor),
                                                    int_of_float (fmul (float_of_int required_b) scale_factor)))))))"

text \<open>
  \<open>add_liquidity\<close> and \<open>remove_liquidity\<close> catch every exception and return \<open>None\<close>;
  what was submitted before the failure stays submitted.
\<close>

definition add_liquidity ::
  "'w web3 \<Rightarrow> 'a market_maker_scheme \<Rightarrow> int \<Rightarrow> int \<Rightarrow> 'w
     \<Rightarrow> string option \<times> 'a market_maker_scheme \<times> 'w"
where
  "add_liquidity env m amount_a amount_b w =
     (case approve_token_spending env m (token_a_address m) (amm_address m) amount_a w of
        (Inl e, m1, w1) \<Rightarrow> (None, m1, w1)
      | (Inr h1, m1, w1) \<Rightarrow>
          (case approve_token_spending env m1 (token_b_address m1) (amm_address m1) amount_b w1 of
             (Inl e, m2, w2) \<Rightarrow> (None, m2, w2)
           | (Inr h2, m2, w2) \<Rightarrow>
               let amount_a_min = int_of_float (fmul (float_of_int amount_a) (fl (95 / 100)));
                   amount_b_min = int_of_float (fmul (float_of_int amount_b) (fl (95 / 100)))
               in (case build_transaction env
                          (AddLiquidity amount_a amount_b amount_a_min amount_b_min (address m2)) w2 of
                     Inl e \<Rightarrow> (None, m2, w2)
                   | Inr transaction \<Rightarrow>
                       (case send_transaction env m2 transaction w2 of
                          (Inl e, m3, w3) \<Rightarrow> (None, m3, w3)
                        | (Inr tx_hash, m3, w3) \<Rightarrow>
                            (case log_trade env m3 ''ADD_LIQUIDITY''
                                    (AddLiquidityTrade amount_a amount_b tx_hash) w3 of
                               Inl e \<Rightarrow> (None, m3, w3)
                             | Inr m4 \<Rightarrow>
                                 let m5 = (if initial_reserves m4 = None
                                           then m4\<lparr>initial_reserves := Some (get_pool_reserves env m4 w3)\<rparr>
                                           else m4)
                                 in (Some tx_hash, m5, w3))))))"

definition remove_liquidity ::
  "'w web3 \<Rightarrow> 'a market_maker_scheme \<Rightarrow> int \<Rightarrow> int \<Rightarrow> int \<Rightarrow> 'w
     \<Rightarrow> string option \<times> 'a market_maker_scheme \<times> 'w"
where
  "remove_liquidity env m lp_amount min_amount_a min_amount_b w =
     (case build_transaction env
            (RemoveLiquidity lp_amount min_amount_a min_amount_b (address m)) w of
        Inl e \<Rightarrow> (None, m, w)
      | Inr transaction \<Rightarrow>
          (case send_transaction env m transaction w of
             (Inl e, m1, w1) \<Rightarrow> (None, m1, w1)
           | (Inr tx_hash, m1, w1) \<Rightarrow>
               (case log_trade env m1 ''REMOVE_LIQUIDITY'' (RemoveLiquidityTrade lp_amount tx_hash) w1 of
                  Inl e \<Rightarrow> (None, m1, w1)
                | Inr m2 \<Rightarrow> (Some tx_hash, m2, w1))))"

text \<open>
  \<open>calculate_impermanent_loss\<close>: the value it returns, and the agent with
  \<open>self.impermanent_loss\<close> set where the code sets it.
\<close>

definition calculate_impermanent_loss ::
  "'w web3 \<Rightarrow> 'a market_maker_scheme \<Rightarrow> 'w \<Rightarrow> (exn + real) \<times> 'a market_maker_scheme"
where
  "calculate_impermanent_loss env m w =
     (case initial_reserves m of
        None \<Rightarrow> (Inr 0, m)
      | Some (initial_a, initial_b) \<Rightarrow>
          let (current_a, current_b) = get_pool_reserves env m w
          in if initial_a = 0 \<or> initial_b = 0 \<or> current_a = 0 \<or> current_b = 0 then (Inr 0, m)
             else
               (case int_truediv (int initial_a) (int initial_b) of
                  Inl e \<Rightarrow> (Inl e, m)
                | Inr initial_ratio \<Rightarrow>
                    (case int_truediv (int current_a) (int current_b) of
                       Inl e \<Rightarrow> (Inl e, m)
                     | Inr current_ratio \<Rightarrow>
                         if initial_ratio = 0 then (Inr 0, m)
                         else
                           (case fdiv current_ratio initial_ratio of
                              Inl e \<Rightarrow> (Inl e, m)
                            | Inr ratio_change \<Rightarrow>
                                (case fsqrt ratio_change of
                                   Inl e \<Rightarrow> (Inl e, m)
                                 | Inr sqrt_ratio \<Rightarrow>
                                     (case fdiv (fmul 2 sqrt_ratio) (fadd 1 ratio_change) of
                                        Inl e \<Rightarrow> (Inl e, m)
                                      | Inr q \<Rightarrow>
                                          let il = fsub q 1
                                          in (Inr il, m\<lparr>impermanent_loss := il\<rparr>)))))))"

text \<open>
  \<open>should_rebalance\<close>: the division is by the sum of two positive reserves. The
  \<open>market_data\<close> argument is not used.
\<close>

definition should_rebalance :: "'w web3 \<Rightarrow> 'a market_maker_scheme \<Rightarrow> 'md \<Rightarrow> 'w \<Rightarrow> bool" where
  "should_rebalance env m market_data w =
     (let (current_a, current_b) = get_pool_reserves env m w
      in if current_a = 0 \<or> current_b = 0 then False
         else
           let total_value = current_a + current_b;
               current_ratio = fl (real current_a / real total_value);
               ratio_deviation = \<bar>fsub current_ratio (target_ratio m)\<bar>
           in ratio_deviation > rebalance_threshold m)"

text \<open>\<open>MarketMaker.should_act\<close>: balances and reserves are read from the ledger now.\<close>

definition market_maker_should_act ::
  "'w web3 \<Rightarrow> 'a market_maker_scheme \<Rightarrow> 'md \<Rightarrow> 'w \<Rightarrow> bool \<times> 'a market_maker_scheme"
where
  "market_maker_should_act env m market_data w =
     (let balance_a = get_token_balance env m (token_a_address m) w;
          balance_b = get_token_balance env m (token_b_address m) w;
          (lp_balance, m1) = get_lp_balance env m w
      in if lp_balance = 0 \<and> (balance_a > 0 \<or> balance_b > 0) then (True, m1)
         else if should_rebalance env m1 market_data w then (True, m1)
         else (let (r, m2) = random_random m1 in (r < fl (1 / 10), m2)))"

text \<open>
  \<open>MarketMaker.step\<close>. The report is created before the \<open>try\<close> and returned after it;
  an exception inside sets \<open>actions['error'] = str(e)\<close> on the report as it stands.
  The body ends with the impermanent loss and the performance entry.
\<close>

definition market_maker_report :: "'a market_maker_scheme \<Rightarrow> action list \<Rightarrow> action_report" where
  "market_maker_report m acts =
     \<lparr>report_agent_id = agent_id m, report_agent_type = ''market_maker'',
      actions_taken = acts, report_performance = None, report_momentum = None,
      report_price_history_length = None, report_error = None\<rparr>"

definition market_maker_finish ::
  "'w web3 \<Rightarrow> 'a market_maker_scheme \<Rightarrow> action list \<Rightarrow> nat \<Rightarrow> 'w
     \<Rightarrow> action_report \<times> 'a market_maker_scheme \<times> 'w"
where
  "market_maker_finish env m acts lp_balance w =
     (case calculate_impermanent_loss env m w of
        (Inl e, m1) \<Rightarrow> ((market_maker_report m1 acts)\<lparr>report_error := Some (str_exn e)\<rparr>, m1, w)
      | (Inr il, m1) \<Rightarrow>
          ((market_maker_report m1 acts)
             \<lparr>report_performance :=
                Some \<lparr>perf_lp_balance = lp_balance,
                      perf_impermanent_loss = impermanent_loss m1,
                      perf_fees_collected = fees_collected m1\<rparr>\<rparr>,
           m1, w))"

definition market_maker_step ::
  "'w web3 \<Rightarrow> 'a market_maker_scheme \<Rightarrow> 'md \<Rightarrow> 'w
     \<Rightarrow> action_report \<times> 'a market_maker_scheme \<times> 'w"
where
  "market_maker_step env m market_data w =
     (let balance_a = get_token_balance env m (token_a_address m) w;
          balance_b = get_token_balance env m (token_b_address m) w;
          (lp_balance, m1) = get_lp_balance env m w
      in if lp_balance = 0 \<and> (balance_a > 0 \<or> balance_b > 0) then
           (case calculate_optimal_liquidity_amounts env m1 balance_a balance_b w of
              Inl e \<Rightarrow> ((market_maker_report m1 [])\<lparr>report_error := Some (str_exn e)\<rparr>, m1, w)
            | Inr (amount_a, amount_b) \<Rightarrow>
                if amount_a > 0 \<and> amount_b > 0 then
                  (case add_liquidity env m1 amount_a amount_b w of
                     (None, m2, w2) \<Rightarrow> market_maker_finish env m2 [] lp_balance w2
                   | (Some tx_hash, m2, w2) \<Rightarrow>
                       market_maker_finish env m2
                         (if tx_hash \<noteq> [] then [AddInitialLiquidity amount_a amount_b tx_hash] else [])
                         lp_balance w2)
                else market_maker_finish env m1 [] lp_balance w)
         else if should_rebalance env m1 market_data w then
           (let rebalance_amount = int_of_float (fmul (float_of_int (int lp_balance)) (fl (1 / 10)))
            in if rebalance_amount > 0 then
                 (case remove_liquidity env m1 rebalance_amount 0 0 w of
                    (None, m2, w2) \<Rightarrow> market_maker_finish env m2 [] lp_balance w2
                  | (Some tx_hash, m2, w2) \<Rightarrow>
                      market_maker_finish env m2
                        (if tx_hash \<noteq> [] then [RebalanceRemove rebalance_amount tx_hash] else [])
                        lp_balance w2)
               else market_maker_finish env m1 [] lp_balance w)
         else market_maker_finish env m1 [] lp_balance w)"

section \<open>The scheduler\<close>

text \<open>
  \<open>SimulationRunner\<close> holds a list of \<open>AgentBase\<close> objects and calls their methods by
  dynamic dispatch. \<open>agent_methods\<close> is that dispatch: for an agent object of type
  \<open>'a\<close>, what each method returns or raises and the object and the chain afterwards.
  \<open>MetricsCalculator\<close> (\<open>metrics.py\<close>) and the file system are outside the sources:
  \<open>externals\<close> holds the calls the runner makes on them, each of which may raise, and
  for every value whose type is theirs (the configuration, the market state, the step
  and overall metrics) the exception \<open>json.dump\<close> raises on it, if any.
  \<open>open_results_file\<close> is the file system's answer to opening the results file and to
  the writes on it. The wall-clock fields of a step result and of the report
  (\<open>timestamp\<close>, \<open>execution_time\<close>, \<open>total_time\<close>, \<open>avg_step_time\<close>) and the
  sleep between two ticks are left out.
\<close>

record ('a, 'w, 'md) agent_methods =
  agent_id_of :: "'a \<Rightarrow> string"
  address_of :: "'a \<Rightarrow> address"
  transaction_count_of :: "'a \<Rightarrow> nat"
  total_gas_used_of :: "'a \<Rightarrow> nat"
  should_act :: "'a \<Rightarrow> 'md \<Rightarrow> 'w \<Rightarrow> (base_exn + bool) \<times> 'a \<times> 'w"
  step :: "'a \<Rightarrow> 'md \<Rightarrow> 'w \<Rightarrow> (base_exn + action_report) \<times> 'a \<times> 'w"
  performance_stats :: "'a \<Rightarrow> 'w \<Rightarrow> (base_exn + performance_stats) \<times> 'a"

record ('md, 'sm) step_result =
  result_step :: int
  result_block_number :: nat
  result_market_data :: 'md
  result_agent_actions :: "action_report list"
  result_step_metrics :: 'sm
  result_agent_performance :: "(string \<times> performance_stats) list"

record execution_summary =
  total_steps :: int
  total_transactions :: nat
  summary_total_gas_used :: nat

record ('cfg, 'md, 'sm, 'om) simulation_results =
  simulation_config :: 'cfg
  execution_summary :: execution_summary
  overall_metrics :: 'om
  final_agent_performance :: "(string \<times> performance_stats) list"
  recent_step_results :: "('md, 'sm) step_result list"

record ('cfg, 'w, 'md, 'sm, 'om) externals =
  get_current_market_state :: "'w \<Rightarrow> base_exn + 'md"
  calculate_step_metrics :: "int \<Rightarrow> action_report list \<Rightarrow> 'md \<Rightarrow> 'w \<Rightarrow> base_exn + 'sm"
  calculate_overall_metrics :: "('md, 'sm) step_result list \<Rightarrow> 'w \<Rightarrow> base_exn + 'om"
  open_results_file :: "base_exn + unit"
  json_config :: "'cfg \<Rightarrow> exn option"
  json_market_data :: "'md \<Rightarrow> exn option"
  json_step_metrics :: "'sm \<Rightarrow> exn option"
  json_overall_metrics :: "'om \<Rightarrow> exn option"

record ('cfg, 'a, 'w, 'md, 'sm) simulation_runner =
  config :: 'cfg
  agents :: "'a list"
  world :: 'w
  current_step :: int
  max_steps :: int
  step_results :: "('md, 'sm) step_result list"
  error_log :: "(string \<times> exn) list"

text \<open>
  The agent loop of \<open>run_step\<close>. \<open>try\<close> covers \<open>should_act\<close> and \<open>step\<close> together;
  \<open>except Exception\<close> writes a log line and goes on to the next agent. The result is
  the exception that left the loop if one did, the agents and the chain afterwards,
  \<open>agent_actions\<close>, and the log lines as (agent id, exception).
\<close>

fun run_agents ::
  "('a, 'w, 'md) agent_methods \<Rightarrow> 'md \<Rightarrow> 'a list \<Rightarrow> 'w
     \<Rightarrow> base_exn option \<times> 'a list \<times> 'w \<times> action_report list \<times> (string \<times> exn) list"
where
  "run_agents cls market_data [] w = (None, [], w, [], [])"
| "run_agents cls market_data (a # rest) w =
     (case should_act cls a market_data w of
        (Inl KeyboardInterrupt, a1, w1) \<Rightarrow> (Some KeyboardInterrupt, a1 # rest, w1, [], [])
      | (Inl (Exc e), a1, w1) \<Rightarrow>
          (case run_agents cls market_data rest w1 of
             (r, rest', w', actions, lg) \<Rightarrow>
               (r, a1 # rest', w', actions, (agent_id_of cls a1, e) # lg))
      | (Inr False, a1, w1) \<Rightarrow>
          (case run_agents cls market_data rest w1 of
             (r, rest', w', actions, lg) \<Rightarrow> (r, a1 # rest', w', actions, lg))
      | (Inr True, a1, w1) \<Rightarrow>
          (case step cls a1 market_data w1 of
             (Inl KeyboardInterrupt, a2, w2) \<Rightarrow> (Some KeyboardInterrupt, a2 # rest, w2, [], [])
           | (Inl (Exc e), a2, w2) \<Rightarrow>
               (case run_agents cls market_data rest w2 of
                  (r, rest', w', actions, lg) \<Rightarrow>
                    (r, a2 # rest', w', actions, (agent_id_of cls a2, e) # lg))
           | (Inr report, a2, w2) \<Rightarrow>
               (case run_agents cls market_data rest w2 of
                  (r, rest', w', actions, lg) \<Rightarrow>
                    (r, a2 # rest', w', report # actions, lg))))"

text \<open>The loop that collects \<open>get_performance_stats\<close> of every agent; it has no \<open>try\<close>.\<close>

fun collect_performance ::
  "('a, 'w, 'md) agent_methods \<Rightarrow> 'a list \<Rightarrow> 'w
     \<Rightarrow> (base_exn + (string \<times> performance_stats) list) \<times> 'a list"
where
  "collect_performance cls [] w = (Inr [], [])"
| "collect_performance cls (a # rest) w =
     (case performance_stats cls a w of
        (Inl e, a1) \<Rightarrow> (Inl e, a1 # rest)
      | (Inr p, a1) \<Rightarrow>
          (case collect_performance cls rest w of
             (Inl e, rest') \<Rightarrow> (Inl e, a1 # rest')
           | (Inr ps, rest') \<Rightarrow> (Inr ((agent_id_of cls a1, p) # ps), a1 # rest')))"

text \<open>
  \<open>run_step\<close>: one read of the market state, the agent loop, the step metrics, the
  performance of every agent, the block number. \<open>_advance_blockchain\<close> only reads the
  latest block inside its own \<open>try\<close> and changes nothing. The step result is appended
  to \<open>step_results\<close> last; an exception before that leaves the method.
\<close>

definition run_step ::
  "'w web3 \<Rightarrow> ('a, 'w, 'md) agent_methods \<Rightarrow> ('cfg, 'w, 'md, 'sm, 'om) externals
     \<Rightarrow> ('cfg, 'a, 'w, 'md, 'sm) simulation_runner
     \<Rightarrow> (base_exn + ('md, 'sm) step_result) \<times> ('cfg, 'a, 'w, 'md, 'sm) simulation_runner"
where
  "run_step env cls ext r =
     (case get_current_market_state ext (world r) of
        Inl e \<Rightarrow> (Inl e, r)
      | Inr market_data \<Rightarrow>
          (case run_agents cls market_data (agents r) (world r) of
             (Some e, ags, w, agent_actions, lg) \<Rightarrow>
               (Inl e, r\<lparr>agents := ags, world := w, error_log := error_log r @ lg\<rparr>)
           | (None, ags, w, agent_actions, lg) \<Rightarrow>
               let r1 = r\<lparr>agents := ags, world := w, error_log := error_log r @ lg\<rparr>
               in (case calculate_step_metrics ext (current_step r1) agent_actions market_data w of
                     Inl e \<Rightarrow> (Inl e, r1)
                   | Inr step_metrics \<Rightarrow>
                       (case collect_performance cls ags w of
                          (Inl e, ags2) \<Rightarrow> (Inl e, r1\<lparr>agents := ags2\<rparr>)
                        | (Inr agent_performance, ags2) \<Rightarrow>
                            let r2 = r1\<lparr>agents := ags2\<rparr>
                            in (case block_number env w of
                                  Inl e \<Rightarrow> (Inl (Exc e), r2)
                                | Inr bn \<Rightarrow>
                                    let step_result =
                                          \<lparr>result_step = current_step r2,
                                           result_block_number = bn,
                                           result_market_data = market_data,
                                           result_agent_actions = agent_actions,
                                           result_step_metrics = step_metrics,
                                           result_agent_performance = agent_performance\<rparr>
                                    in (Inr step_result,
                                        r2\<lparr>step_results := step_results r2 @ [step_result]\<rparr>))))))"

text \<open>
  \<open>_distribute_initial_tokens\<close>: two transfers from the deployer to every agent, each
  in its own \<open>try\<close> whose \<open>except\<close> only logs. The receipt's status is not read.
\<close>

definition deployer_transfer ::
  "'w web3 \<Rightarrow> address \<Rightarrow> address \<Rightarrow> address \<Rightarrow> int \<Rightarrow> 'w \<Rightarrow> 'w"
where
  "deployer_transfer env deployer token_address to amount w =
     (case build_transaction env (Transfer token_address to amount) w of
        Inl e \<Rightarrow> w
      | Inr transaction \<Rightarrow>
          (case get_transaction_count env deployer w of
             Inl e \<Rightarrow> w
           | Inr n \<Rightarrow>
               (case send_raw_transaction env
                       (transaction\<lparr>tx_from := deployer, tx_nonce := n, tx_gas := 100000,
                                    tx_gasPrice := 20000000000\<rparr>) w of
                  (Inl e, w1) \<Rightarrow> w1
                | (Inr tx_hash, w1) \<Rightarrow>
                    (case wait_for_transaction_receipt env tx_hash w1 of
                       (r, w2) \<Rightarrow> w2))))"

fun distribute_initial_tokens ::
  "'w web3 \<Rightarrow> address \<Rightarrow> address \<Rightarrow> address \<Rightarrow> address list \<Rightarrow> 'w \<Rightarrow> 'w"
where
  "distribute_initial_tokens env deployer test_token usdc_token [] w = w"
| "distribute_initial_tokens env deployer test_token usdc_token (to # rest) w =
     distribute_initial_tokens env deployer test_token usdc_token rest
       (deployer_transfer env deployer usdc_token to (10000 * 10 ^ 6)
          (deployer_transfer env deployer test_token to (10000 * 10 ^ 18) w))"

text \<open>\<open>for step in range(self.max_steps)\<close>, up to the first exception.\<close>

fun run_steps ::
  "'w web3 \<Rightarrow> ('a, 'w, 'md) agent_methods \<Rightarrow> ('cfg, 'w, 'md, 'sm, 'om) externals
     \<Rightarrow> int list \<Rightarrow> ('cfg, 'a, 'w, 'md, 'sm) simulation_runner
     \<Rightarrow> base_exn option \<times> ('cfg, 'a, 'w, 'md, 'sm) simulation_runner"
where
  "run_steps env cls ext [] r = (None, r)"
| "run_steps env cls ext (s # rest) r =
     (case run_step env cls ext (r\<lparr>current_step := s\<rparr>) of
        (Inl e, r1) \<Rightarrow> (Some e, r1)
      | (Inr step_result, r1) \<Rightarrow> run_steps env cls ext rest r1)"

text \<open>
  \<open>_save_results\<close>: \<open>json.dump\<close> of the results into a new file, then
  \<open>_save_csv_metrics\<close>, whose body is one \<open>try\<close> that logs every exception, so that it
  never raises one. \<open>json.dump\<close> walks the dictionary in the order of its keys and raises
  \<open>TypeError\<close> at the first value it cannot encode: ints, floats, strings, lists and
  dictionaries are encoded, a \<open>Decimal\<close> is not. An action report holds strings, ints
  and floats only.
\<close>

fun first_error :: "exn option list \<Rightarrow> exn option" where
  "first_error [] = None"
| "first_error (None # rest) = first_error rest"
| "first_error (Some e # rest) = Some e"

definition json_number :: "number \<Rightarrow> exn option" where
  "json_number b =
     (case b of
        PyDecimal d \<Rightarrow> Some (TypeError ''Object of type Decimal is not JSON serializable'')
      | _ \<Rightarrow> None)"

definition json_stats :: "performance_stats \<Rightarrow> exn option" where
  "json_stats p = first_error (map (\<lambda>(name, b). json_number b) (stats_current_balances p))"

definition json_step_result ::
  "('cfg, 'w, 'md, 'sm, 'om) externals \<Rightarrow> ('md, 'sm) step_result \<Rightarrow> exn option" where
  "json_step_result ext sr =
     first_error
       [json_market_data ext (result_market_data sr),
        json_step_metrics ext (result_step_metrics sr),
        first_error (map (\<lambda>(name, p). json_stats p) (result_agent_performance sr))]"

definition json_dump ::
  "('cfg, 'w, 'md, 'sm, 'om) externals \<Rightarrow> ('cfg, 'md, 'sm, 'om) simulation_results \<Rightarrow> exn option"
where
  "json_dump ext results =
     first_error
       [json_config ext (simulation_config results),
        json_overall_metrics ext (overall_metrics results),
        first_error (map (\<lambda>(name, p). json_stats p) (final_agent_performance results)),
        first_error (map (json_step_result ext) (recent_step_results results))]"

definition save_results ::
  "('cfg, 'w, 'md, 'sm, 'om) externals \<Rightarrow> ('cfg, 'md, 'sm, 'om) simulation_results
     \<Rightarrow> base_exn + unit"
where
  "save_results ext results =
     (case open_results_file ext of
        Inl e \<Rightarrow> Inl e
      | Inr u \<Rightarrow>
          (case json_dump ext results of
             Some e \<Rightarrow> Inl (Exc e)
           | None \<Rightarrow> Inr ()))"

definition generate_final_report ::
  "('a, 'w, 'md) agent_methods \<Rightarrow> ('cfg, 'w, 'md, 'sm, 'om) externals
     \<Rightarrow> ('cfg, 'a, 'w, 'md, 'sm) simulation_runner
     \<Rightarrow> (base_exn + ('cfg, 'md, 'sm, 'om) simulation_results)
         \<times> ('cfg, 'a, 'w, 'md, 'sm) simulation_runner"
where
  "generate_final_report cls ext r =
     (case calculate_overall_metrics ext (step_results r) (world r) of
        Inl e \<Rightarrow> (Inl e, r)
      | Inr om \<Rightarrow>
          (case collect_performance cls (agents r) (world r) of
             (Inl e, ags) \<Rightarrow> (Inl e, r\<lparr>agents := ags\<rparr>)
           | (Inr perf, ags) \<Rightarrow>
               let r1 = r\<lparr>agents := ags\<rparr>;
                   simulation_results =
                     \<lparr>simulation_config = config r1,
                      execution_summary =
                        \<lparr>total_steps = current_step r1 + 1,
                         total_transactions = sum_list (map (transaction_count_of cls) ags),
                         summary_total_gas_used = sum_list (map (total_gas_used_of cls) ags)\<rparr>,
                      overall_metrics = om,
                      final_agent_performance = perf,
                      recent_step_results = slice_from (step_results r1) (- 10)\<rparr>
               in (case save_results ext simulation_results of
                     Inl e \<Rightarrow> (Inl e, r1)
                   | Inr u \<Rightarrow> (Inr simulation_results, r1))))"

text \<open>
  \<open>run_simulation\<close>: \<open>except KeyboardInterrupt\<close> logs and falls through to the
  report; \<open>except Exception\<close> logs and raises again.
\<close>

definition run_simulation ::
  "'w web3 \<Rightarrow> ('a, 'w, 'md) agent_methods \<Rightarrow> ('cfg, 'w, 'md, 'sm, 'om) externals
     \<Rightarrow> address \<Rightarrow> address \<Rightarrow> address
     \<Rightarrow> ('cfg, 'a, 'w, 'md, 'sm) simulation_runner
     \<Rightarrow> (base_exn + ('cfg, 'md, 'sm, 'om) simulation_results)
         \<times> ('cfg, 'a, 'w, 'md, 'sm) simulation_runner"
where
  "run_simulation env cls ext deployer test_token usdc_token r =
     (let r0 = r\<lparr>world := distribute_initial_tokens env deployer test_token usdc_token
                             (map (address_of cls) (agents r)) (world r)\<rparr>
      in (case run_steps env cls ext (map int [0..<nat (max_steps r0)]) r0 of
            (Some (Exc e), r1) \<Rightarrow> (Inl (Exc e), r1)
          | (Some KeyboardInterrupt, r1) \<Rightarrow> generate_final_report cls ext r1
          | (None, r1) \<Rightarrow> generate_final_report cls ext r1))"

text \<open>
  The dispatch for the agent classes modelled above. Their \<open>step\<close> returns a report
  in every case, and only \<open>MomentumTrader.should_act\<close> can raise.
\<close>

datatype agent = MarketMakerAgent market_maker | MomentumTraderAgent momentum_trader

definition lift_exn :: "exn + 'b \<Rightarrow> base_exn + 'b" where
  "lift_exn r = (case r of Inl e \<Rightarrow> Inl (Exc e) | Inr v \<Rightarrow> Inr v)"

definition simulator_agents :: "'w web3 \<Rightarrow> (agent, 'w, 'md) agent_methods" where
  "simulator_agents env =
     \<lparr>agent_id_of = (\<lambda>a. case a of MarketMakerAgent m \<Rightarrow> agent_id m
                                  | MomentumTraderAgent t \<Rightarrow> agent_id t),
      address_of = (\<lambda>a. case a of MarketMakerAgent m \<Rightarrow> address m
                                 | MomentumTraderAgent t \<Rightarrow> address t),
      transaction_count_of = (\<lambda>a. case a of MarketMakerAgent m \<Rightarrow> transaction_count m
                                           | MomentumTraderAgent t \<Rightarrow> transaction_count t),
      total_gas_used_of = (\<lambda>a. case a of MarketMakerAgent m \<Rightarrow> total_gas_used m
                                        | MomentumTraderAgent t \<Rightarrow> total_gas_used t),
      should_act = (\<lambda>a market_data w.
         case a of
           MarketMakerAgent m \<Rightarrow>
             (case market_maker_should_act env m market_data w of
                (b, m1) \<Rightarrow> (Inr b, MarketMakerAgent m1, w))
         | MomentumTraderAgent t \<Rightarrow>
             (case momentum_should_act env t market_data w of
                (r, t1) \<Rightarrow> (lift_exn r, MomentumTraderAgent t1, w))),
      step = (\<lambda>a market_data w.
         case a of
           MarketMakerAgent m \<Rightarrow>
             (case market_maker_step env m market_data w of
                (report, m1, w1) \<Rightarrow> (Inr report, MarketMakerAgent m1, w1))
         | MomentumTraderAgent t \<Rightarrow>
             (case momentum_step env t market_data w of
                (report, t1, w1) \<Rightarrow> (Inr report, MomentumTraderAgent t1, w1))),
      performance_stats = (\<lambda>a w.
         case a of
           MarketMakerAgent m \<Rightarrow>
             (case get_performance_stats env m w of
                (r, m1) \<Rightarrow> (lift_exn r, MarketMakerAgent m1))
         | MomentumTraderAgent t \<Rightarrow>
             (case get_performance_stats env t w of
                (r, t1) \<Rightarrow> (lift_exn r, MomentumTraderAgent t1)))\<rparr>"

section \<open>Pool math of the contract\<close>

text \<open>
  Modelled from the spec: \<open>getAmountOut\<close> of the AMM contract (\<open>AMM.sol\<close> is compiled
  and deployed by \<open>deploy.py\<close> but is not among the sources; the simulator only calls
  it, in \<open>Trader.calculate_swap_output\<close>). The spec's \<open>quoteOut\<close>: the constant-product
  formula on unsigned integers with the fee, \<open>feeBps\<close> of the pool state in basis
  points, taken off the input, and \<open>InvalidReserves\<close> when a reserve is zero.
\<close>

datatype pool_error = InvalidReserves

definition quoteOut :: "nat \<Rightarrow> nat \<Rightarrow> nat \<Rightarrow> nat \<Rightarrow> pool_error + nat" where
  "quoteOut fee_bps amount_in reserve_in reserve_out =
     (if reserve_in = 0 \<or> reserve_out = 0 then Inl InvalidReserves
      else
        let amount_in_with_fee = amount_in * (10000 - fee_bps)
        in Inr (amount_in_with_fee * reserve_out div (reserve_in * 10000 + amount_in_with_fee)))"

section \<open>A ledger to run the simulator on\<close>

text \<open>
  A small chain for the concrete runs below: one pool of the tokens \<open>0xTEST\<close> and
  \<open>0xUSDC\<close> at \<open>0xAMM\<close>, balances per (token, owner) with the pool's own LP token
  under \<open>0xAMM\<close>, and a block counter. Every call succeeds; adding liquidity moves the
  amounts into the reserves and mints LP tokens, a swap follows \<open>quoteOut\<close> with a fee
  of 30 basis points. Gas is not charged and no account holds ether.
\<close>

record ledger =
  pool_reserves :: "nat \<times> nat"
  balances :: "address \<times> address \<Rightarrow> nat"
  blocks :: nat

definition ledger_apply :: "contract_call \<Rightarrow> address \<Rightarrow> ledger \<Rightarrow> ledger" where
  "ledger_apply c sender w =
     (case c of
        AddLiquidity a b a_min b_min to \<Rightarrow>
          w\<lparr>pool_reserves := (fst (pool_reserves w) + nat a, snd (pool_reserves w) + nat b),
            balances := (balances w)
              ((''0xTEST'', sender) := balances w (''0xTEST'', sender) - nat a,
               (''0xUSDC'', sender) := balances w (''0xUSDC'', sender) - nat b,
               (''0xAMM'', to) := balances w (''0xAMM'', to) + nat a)\<rparr>
      | SwapExactTokensForTokens amount_in min_out token_in to \<Rightarrow>
          (let (ra, rb) = pool_reserves w
           in if token_in = ''0xTEST'' then
                (case quoteOut 30 (nat amount_in) ra rb of
                   Inl e \<Rightarrow> w
                 | Inr out \<Rightarrow>
                     w\<lparr>pool_reserves := (ra + nat amount_in, rb - out),
                       balances := (balances w)
                         ((''0xTEST'', sender) := balances w (''0xTEST'', sender) - nat amount_in,
                          (''0xUSDC'', to) := balances w (''0xUSDC'', to) + out)\<rparr>)
              else
                (case quoteOut 30 (nat amount_in) rb ra of
                   Inl e \<Rightarrow> w
                 | Inr out \<Rightarrow>
                     w\<lparr>pool_reserves := (ra - out, rb + nat amount_in),
                       balances := (balances w)
                         ((''0xUSDC'', sender) := balances w (''0xUSDC'', sender) - nat amount_in,
                          (''0xTEST'', to) := balances w (''0xTEST'', to) + out)\<rparr>))
      | Transfer token to amount \<Rightarrow>
          w\<lparr>balances := (balances w)
              ((token, sender) := balances w (token, sender) - nat amount,
               (token, to) := balances w (token, to) + nat amount)\<rparr>
      | _ \<Rightarrow> w)"

definition ledger_web3 :: "ledger web3" where
  "ledger_web3 =
     \<lparr>chain_id = (\<lambda>w. Inr 1337),
      build_transaction = (\<lambda>c w. Inr \<lparr>tx_call = c, tx_from = [], tx_nonce = 0, tx_gas = 0,
                                       tx_gasPrice = 0, tx_chainId = 0\<rparr>),
      send_raw_transaction = (\<lambda>tx w.
         (Inr ''0x01'', (ledger_apply (tx_call tx) (tx_from tx) w)\<lparr>blocks := blocks w + 1\<rparr>)),
      wait_for_transaction_receipt = (\<lambda>h w. (Inr \<lparr>status = 1, gasUsed = 21000\<rparr>, w)),
      get_balance = (\<lambda>a w. Inr 0),
      get_transaction_count = (\<lambda>a w. Inr (blocks w)),
      balanceOf = (\<lambda>token owner w. Inr (balances w (token, owner))),
      decimals = (\<lambda>token w. Inr 18),
      getReserves = (\<lambda>amm w. Inr (pool_reserves w)),
      getAmountOut = (\<lambda>amm amount_in reserve_in reserve_out w.
         case quoteOut 30 amount_in reserve_in reserve_out of
           Inl e \<Rightarrow> Inl (Exception ''InvalidReserves'')
         | Inr out \<Rightarrow> Inr out),
      block_timestamp = (\<lambda>w. Inr (blocks w)),
      block_number = (\<lambda>w. Inr (blocks w)),
      token_contracts = [(''ERC20Token'', ''0xTEST''), (''USDC'', ''0xUSDC'')]\<rparr>"

text \<open>The agents of the concrete runs, with the constructors' default parameters.\<close>

definition new_momentum_trader :: "string \<Rightarrow> address \<Rightarrow> real list \<Rightarrow> momentum_trader" where
  "new_momentum_trader name addr history =
     \<lparr>agent_id = name, address = addr,
      random_draws = (\<lambda>n. 1 / 2), random_pos = 0, nonce = 0, gas_limit = 500000,
      gas_price = 20000000000, pnl = 0, total_gas_used = 0, transaction_count = 0,
      trade_history = [], initial_balances = [],
      amm_address = ''0xAMM'', token_a_address = ''0xTEST'', token_b_address = ''0xUSDC'',
      slippage_tolerance = fl (5 / 100), min_trade_size = 1000,
      max_trade_size_ratio = fl (1 / 10), successful_trades = 0, failed_trades = 0,
      total_volume = 0, total_slippage = 0,
      lookback_periods = 5, momentum_threshold = fl (2 / 100), trade_frequency = fl (2 / 10),
      price_history = history\<rparr>"

definition new_market_maker :: "string \<Rightarrow> address \<Rightarrow> real \<Rightarrow> market_maker" where
  "new_market_maker name addr ratio =
     \<lparr>agent_id = name, address = addr,
      random_draws = (\<lambda>n. 1 / 2), random_pos = 0, nonce = 0, gas_limit = 500000,
      gas_price = 20000000000, pnl = 0, total_gas_used = 0, transaction_count = 0,
      trade_history = [], initial_balances = [],
      amm_address = ''0xAMM'', token_a_address = ''0xTEST'', token_b_address = ''0xUSDC'',
      target_ratio = ratio, rebalance_threshold = fl (5 / 100), lp_token_balance = 0,
      initial_reserves = None, fees_collected = 0, impermanent_loss = 0,
      min_liquidity_ratio = fl (1 / 10), max_liquidity_ratio = fl (9 / 10),
      fee_collection_threshold = fl (1 / 100)\<rparr>"

text \<open>The test ledger with receipts that report failure (status 0).\<close>

definition failing_receipt_web3 :: "ledger web3" where
  "failing_receipt_web3 =
     ledger_web3\<lparr>wait_for_transaction_receipt := (\<lambda>h w. (Inr \<lparr>status = 0, gasUsed = 21000\<rparr>, w))\<rparr>"


text \<open>The test ledger with 1000 ether on every account, as the test chain is started.\<close>

definition ether_web3 :: "ledger web3" where
  "ether_web3 = ledger_web3\<lparr>get_balance := (\<lambda>a w. Inr (1000 * 10 ^ 18))\<rparr>"

text \<open>
  A metrics calculator for the concrete runs: the market state is the pool's reserves
  as read, the step metrics are the number of reports of the tick, the overall metrics
  the number of step results; all of them are encoded by \<open>json.dump\<close>, and the results
  file can be written. The second one cannot read the market state.
\<close>

definition reserves_externals :: "('cfg, ledger, nat \<times> nat, nat, nat) externals" where
  "reserves_externals =
     \<lparr>get_current_market_state = (\<lambda>w. Inr (pool_reserves w)),
      calculate_step_metrics = (\<lambda>s actions market_data w. Inr (length actions)),
      calculate_overall_metrics = (\<lambda>results w. Inr (length results)),
      open_results_file = Inr (),
      json_config = (\<lambda>c. None),
      json_market_data = (\<lambda>md. None),
      json_step_metrics = (\<lambda>m. None),
      json_overall_metrics = (\<lambda>m. None)\<rparr>"


text \<open>
  An agent class next to the strategies of the repository, for the scheduler's own
  handler: agents named by a string that always want to act; \<open>step\<close> of an agent
  whose name starts with \<open>faulty\<close> raises, every other returns what the base
  \<open>Trader.step\<close> returns.
\<close>

definition trader_report :: "string \<Rightarrow> action_report" where
  "trader_report name =
     \<lparr>report_agent_id = name, report_agent_type = ''trader'', actions_taken = [],
      report_performance = None, report_momentum = None,
      report_price_history_length = None, report_error = None\<rparr>"

definition idle_stats :: "string \<Rightarrow> performance_stats" where
  "idle_stats name =
     \<lparr>stats_agent_id = name, stats_address = name, stats_pnl = 0, stats_total_gas_used = 0,
      stats_transaction_count = 0, stats_avg_gas_per_tx = 0, stats_current_balances = [],
      stats_trade_count = 0\<rparr>"

definition faulty_agents :: "(string, 'w, 'md) agent_methods" where
  "faulty_agents =
     \<lparr>agent_id_of = (\<lambda>a. a),
      address_of = (\<lambda>a. a),
      transaction_count_of = (\<lambda>a. 0),
      total_gas_used_of = (\<lambda>a. 0),
      should_act = (\<lambda>a market_data w. (Inr True, a, w)),
      step = (\<lambda>a market_data w.
         if take 6 a = ''faulty'' then (Inl (Exc (Exception ''boom'')), a, w)
         else (Inr (trader_report a), a, w)),
      performance_stats = (\<lambda>a w. (Inr (idle_stats a), a))\<rparr>"

definition new_runner ::
  "'a list \<Rightarrow> 'w \<Rightarrow> int \<Rightarrow> (unit, 'a, 'w, 'md, 'sm) simulation_runner" where
  "new_runner ags w steps =
     \<lparr>config = (), agents = ags, world = w, current_step = 0, max_steps = steps,
      step_results = [], error_log = []\<rparr>"

text \<open>
  Two states of the test ledger: an empty pool with 1000 of each token for everybody and no
  LP tokens, and the same ledger after the market maker at \<open>0xM0\<close> has approved both
  tokens and added (900, 900).
\<close>

definition funded_ledger :: ledger where
  "funded_ledger =
     \<lparr>pool_reserves = (0, 0), balances = (\<lambda>k. if fst k = ''0xAMM'' then 0 else 1000), blocks = 0\<rparr>"

definition traded_ledger :: ledger where
  "traded_ledger =
     \<lparr>pool_reserves = (900, 900),
      balances = (\<lambda>k. if fst k = ''0xAMM'' then 0 else 1000)
        ((''0xTEST'', ''0xM0'') := 100, (''0xUSDC'', ''0xM0'') := 100,
         (''0xAMM'', ''0xM0'') := 900),
      blocks = 3\<rparr>"

section \<open>Configuration and agent set-up\<close>

text \<open>
  \<open>_setup_agents\<close>: one agent per entry of \<open>config['agents']\<close>, in order, an entry of
  unknown type skipped. Entry \<open>i\<close> gets the id \<open>type_i\<close>, the \<open>i mod 10\<close>-th default
  key and the seed \<open>config.get('random_seed', 42) + i\<close>. \<open>agent_setup\<close> is the
  constructor call made for it.
\<close>

record agent_config =
  cfg_type :: string
  cfg_initial_balance :: "(string \<times> config_number) list"
  cfg_trade_frequency :: "real option"
  cfg_lookback_periods :: "int option"
  cfg_momentum_threshold :: "real option"
  cfg_min_profit_threshold :: "real option"

record simulation_config =
  cfg_max_steps :: "int option"
  cfg_step_delay :: "real option"
  cfg_random_seed :: "int option"
  cfg_agents :: "agent_config list"

datatype strategy =
    MarketMakerStrategy
  | RandomTraderStrategy real
  | MomentumTraderStrategy int real
  | ArbitrageTraderStrategy real

record agent_setup =
  setup_agent_id :: string
  setup_private_key :: nat
  setup_strategy :: strategy
  setup_initial_balance :: "(string \<times> config_number) list"
  setup_random_seed :: int

function string_of_nat :: "nat \<Rightarrow> string" where
  "string_of_nat n =
     (if n < 10 then [''0123456789'' ! n]
      else string_of_nat (n div 10) @ [''0123456789'' ! (n mod 10)])"
  by pat_completeness auto
termination
  by (relation "measure id") auto

definition get_or :: "'v option \<Rightarrow> 'v \<Rightarrow> 'v" where
  "get_or v d = (case v of None \<Rightarrow> d | Some x \<Rightarrow> x)"

definition strategy_of :: "agent_config \<Rightarrow> strategy option" where
  "strategy_of c =
     (if cfg_type c = ''market_maker'' then Some MarketMakerStrategy
      else if cfg_type c = ''random_trader''
        then Some (RandomTraderStrategy (get_or (cfg_trade_frequency c) (fl (1 / 10))))
      else if cfg_type c = ''momentum_trader''
        then Some (MomentumTraderStrategy (get_or (cfg_lookback_periods c) 5)
                     (get_or (cfg_momentum_threshold c) (fl (2 / 100))))
      else if cfg_type c = ''arbitrage_trader''
        then Some (ArbitrageTraderStrategy (get_or (cfg_min_profit_threshold c) (fl (1 / 100))))
      else None)"

fun setup_agents_from :: "int \<Rightarrow> nat \<Rightarrow> agent_config list \<Rightarrow> agent_setup list" where
  "setup_agents_from seed i [] = []"
| "setup_agents_from seed i (c # rest) =
     (case strategy_of c of
        None \<Rightarrow> setup_agents_from seed (i + 1) rest
      | Some st \<Rightarrow>
          \<lparr>setup_agent_id = cfg_type c @ ''_'' @ string_of_nat i,
           setup_private_key = i mod 10,
           setup_strategy = st,
           setup_initial_balance = cfg_initial_balance c,
           setup_random_seed = seed + int i\<rparr>
          # setup_agents_from seed (i + 1) rest)"

definition setup_agents :: "simulation_config \<Rightarrow> agent_setup list" where
  "setup_agents cfg = setup_agents_from (get_or (cfg_random_seed cfg) 42) 0 (cfg_agents cfg)"


text \<open>
  The configuration \<open>main\<close> falls back to when no file is given: a market maker, a
  random trader and a momentum trader, with \<open>random_seed\<close> 42.
\<close>

definition default_config :: simulation_config where
  "default_config =
     \<lparr>cfg_max_steps = Some 50, cfg_step_delay = Some 1, cfg_random_seed = Some 42,
      cfg_agents =
        [\<lparr>cfg_type = ''market_maker'', cfg_initial_balance = [(''TEST'', ConfigInt 50000), (''USDC'', ConfigInt 50000)],
          cfg_trade_frequency = None, cfg_lookback_periods = None,
          cfg_momentum_threshold = None, cfg_min_profit_threshold = None\<rparr>,
         \<lparr>cfg_type = ''random_trader'', cfg_initial_balance = [(''TEST'', ConfigInt 10000), (''USDC'', ConfigInt 10000)],
          cfg_trade_frequency = Some (fl (2 / 10)), cfg_lookback_periods = None,
          cfg_momentum_threshold = None, cfg_min_profit_threshold = None\<rparr>,
         \<lparr>cfg_type = ''momentum_trader'', cfg_initial_balance = [(''TEST'', ConfigInt 10000), (''USDC'', ConfigInt 10000)],
          cfg_trade_frequency = None, cfg_lookback_periods = Some 5,
          cfg_momentum_threshold = Some (fl (2 / 100)), cfg_min_profit_threshold = None\<rparr>]\<rparr>"


section \<open>Facts about the float rounding\<close>

lemma two_powr_int: "(2::real) powr real_of_int k = 2 powi k"
  by (rule powr_real_of_int') simp_all

lemma expo_iff:
  assumes "x \<noteq> 0"
  shows "expo x = e \<longleftrightarrow> 2 powi e \<le> \<bar>x\<bar> \<and> \<bar>x\<bar> < 2 powi (e + 1)"
proof -
  have pos: "0 < \<bar>x\<bar>" using assms by simp
  show ?thesis
    unfolding expo_def floor_log_eq_powr_iff[OF pos, of 2 e, simplified] two_powr_int[symmetric]
    by simp
qed

lemma expo_eqI:
  assumes "2 powi e \<le> \<bar>x\<bar>" and "\<bar>x\<bar> < 2 powi (e + 1)"
  shows "expo x = e"
proof -
  have "x \<noteq> 0" using assms(1) by (smt (verit) zero_less_power_int abs_zero)
  then show ?thesis using assms expo_iff by blast
qed

lemma expo_bounds:
  assumes "x \<noteq> 0"
  shows "2 powi (expo x) \<le> \<bar>x\<bar>" and "\<bar>x\<bar> < 2 powi (expo x + 1)"
  using expo_iff[OF assms, of "expo x"] by simp_all

text \<open>How a concrete number is rounded, once its binade \<open>e\<close> is known.\<close>

lemma fl_eval:
  "2 powi e \<le> \<bar>x\<bar> \<Longrightarrow> \<bar>x\<bar> < 2 powi (e + 1) \<Longrightarrow>
   fl x = of_int (round_half_even (x / 2 powi (e - 52))) * 2 powi (e - 52)"
  using expo_eqI[of e x] by (auto simp: fl_def round_half_even_def)

lemma round_half_even_ge: "of_int n \<le> x \<Longrightarrow> n \<le> round_half_even x"
  unfolding round_half_even_def Let_def by (auto simp: le_floor_iff) linarith

lemma round_half_even_le: "x \<le> of_int n \<Longrightarrow> round_half_even x \<le> n"
proof -
  assume a: "x \<le> of_int n"
  have f: "\<lfloor>x\<rfloor> \<le> n" using a by (simp add: floor_le_iff)
  show ?thesis
  proof (cases "\<lfloor>x\<rfloor> = n")
    case True
    then have "x = of_int n" using a by (metis of_int_floor_le order_antisym)
    then show ?thesis by (simp add: round_half_even_def)
  next
    case False
    then have "\<lfloor>x\<rfloor> + 1 \<le> n" using f by simp
    then show ?thesis unfolding round_half_even_def Let_def by auto
  qed
qed

lemma fl_zero [simp]: "fl 0 = 0"
  by (simp add: fl_def)

lemma fl_eq_0_iff [simp]: "fl x = 0 \<longleftrightarrow> x = 0"
proof
  assume z: "fl x = 0"
  show "x = 0"
  proof (rule ccontr)
    assume nz: "x \<noteq> 0"
    define u :: real where "u = 2 powi (expo x - 52)"
    have upos: "0 < u" by (simp add: u_def)
    have u52: "u * 2 ^ 52 = 2 powi (expo x)"
      by (simp add: u_def power_int_diff)
    have lo: "2 ^ 52 \<le> \<bar>x\<bar> / u"
      using expo_bounds(1)[OF nz] upos u52 by (simp add: pos_le_divide_eq mult.commute)
    have "round_half_even (x / u) \<noteq> 0"
    proof (cases "0 < x")
      case True
      then have "of_int (2 ^ 52) \<le> x / u" using lo by simp
      then have "2 ^ 52 \<le> round_half_even (x / u)" by (rule round_half_even_ge)
      then show ?thesis by simp
    next
      case False
      then have "x / u \<le> of_int (- (2 ^ 52))" using lo nz by (simp add: abs_if divide_simps split: if_splits)
      then have "round_half_even (x / u) \<le> - (2 ^ 52)" by (rule round_half_even_le)
      then show ?thesis by simp
    qed
    then show False using z nz upos by (simp add: fl_def u_def)
  qed
qed simp

lemma fl_one [simp]: "fl 1 = 1"
  using fl_eval[of 0 1] by (simp add: round_half_even_def power_int_minus)

lemma fl_two [simp]: "fl 2 = 2"
  using fl_eval[of 1 2] by (simp add: round_half_even_def power_int_minus)

lemma fl_13_10: "fl (13 / 10) = 5854679515581645 / 4503599627370496"
  using fl_eval[of 0 "13 / 10"] by (simp add: round_half_even_def power_int_minus)

lemma fl_3_10: "fl (3 / 10) = 5404319552844595 / 18014398509481984"
  using fl_eval[of "-2" "3 / 10"] by (simp add: round_half_even_def power_int_minus)

lemma fl_1_50: "fl (1 / 50) = 5764607523034235 / 288230376151711744"
  using fl_eval[of "-6" "1 / 50"] by (simp add: round_half_even_def power_int_minus)

lemma fl_momentum: "fl (1351079888211149 / 4503599627370496) = 1351079888211149 / 4503599627370496"
  using fl_eval[of "-2" "1351079888211149 / 4503599627370496"]
  by (simp add: round_half_even_def power_int_minus)

lemma slice_from_window:
  assumes "0 < k" and "k \<le> int (length xs)"
  shows "slice_from xs (- k) = drop (length xs - nat k) xs"
  using assms by (simp add: slice_from_def Let_def nat_diff_distrib' max_def)

lemma calculate_momentum_scenario:
  "calculate_momentum (t\<lparr>price_history := [1, 1, 1, 1, fl (13 / 10)], lookback_periods := 5\<rparr>)
     = Inr (1351079888211149 / 4503599627370496)"
  by (simp add: calculate_momentum_def slice_from_def fdiv_def fsub_def fl_13_10 fl_momentum)

lemma get_pool_price_update [simp]:
  "get_pool_price env (t\<lparr>price_history := h\<rparr>) w = get_pool_price env t w"
  "get_pool_price env (t\<lparr>lookback_periods := k\<rparr>) w = get_pool_price env t w"
  "get_pool_price env (t\<lparr>momentum_threshold := x\<rparr>) w = get_pool_price env t w"
  by (simp_all add: get_pool_price_def)

lemma momentum_should_act_scenario:
  assumes "get_pool_price env t w = fl (13 / 10)"
    and "h = [1, 1, 1, 1] \<or> h = [1, 1, 1, 1, fl (13 / 10)]"
  shows "fst (momentum_should_act env
            (t\<lparr>price_history := h, lookback_periods := 5, momentum_threshold := fl (2 / 100)\<rparr>)
            md w) = Inr True"
proof -
  have p: "get_pool_price env t w = 5854679515581645 / 4503599627370496"
    using assms(1) by (simp add: fl_13_10)
  show ?thesis
    using assms(2)
    by (auto simp: momentum_should_act_def p Let_def calculate_momentum_def slice_from_def
        fdiv_def fsub_def fl_13_10 fl_momentum fl_1_50)
qed

lemma ledger_pool_price:
  "get_pool_price ledger_web3 t \<lparr>pool_reserves = (13, 10), balances = (\<lambda>k. 0), blocks = 0\<rparr>
     = fl (13 / 10)"
  by (simp add: get_pool_price_def ledger_web3_def int_truediv_def)

lemma round_half_even_of_int [simp]: "round_half_even (of_int k) = k"
  by (simp add: round_half_even_def)

lemma fl_nonneg: "0 \<le> x \<Longrightarrow> 0 \<le> fl x"
proof -
  assume a: "0 \<le> x"
  have "of_int 0 \<le> x / 2 powi (expo x - 52)" using a by simp
  then have "0 \<le> round_half_even (x / 2 powi (expo x - 52))" by (rule round_half_even_ge)
  then show ?thesis by (simp add: fl_def)
qed

lemma fl_pos: "0 < x \<Longrightarrow> 0 < fl x"
  using fl_nonneg[of x] fl_eq_0_iff[of x] by (simp add: less_le)

lemma calculate_impermanent_loss_total:
  "\<exists>v. fst (calculate_impermanent_loss env m w) = Inr v"
proof (cases "initial_reserves m")
  case None
  then show ?thesis by (simp add: calculate_impermanent_loss_def)
next
  case (Some p)
  obtain ia ib where p: "p = (ia, ib)" by (cases p)
  obtain ca cb where c: "get_pool_reserves env m w = (ca, cb)" by (cases "get_pool_reserves env m w")
  show ?thesis
  proof (cases "ia = 0 \<or> ib = 0 \<or> ca = 0 \<or> cb = 0")
    case True
    then show ?thesis using Some p c by (auto simp: calculate_impermanent_loss_def)
  next
    case False
    then have pos: "0 < real ca / real cb" "0 < real ia / real ib" by simp_all
    define r where "r = fl (fl (real ca / real cb) / fl (real ia / real ib))"
    have "0 < fl (real ca / real cb)" "0 < fl (real ia / real ib)"
      using pos by (simp_all add: fl_pos)
    then have r: "0 < r" unfolding r_def by (simp add: fl_pos)
    have "0 < 1 + r" using r by simp
    then have d: "fl (1 + r) \<noteq> 0" by simp
    show ?thesis using Some p c False r d pos
      by (simp add: calculate_impermanent_loss_def int_truediv_def fdiv_def fsqrt_def fadd_def
          fmul_def fsub_def r_def[symmetric] Let_def)
  qed
qed

lemma calculate_impermanent_loss_formula:
  "fst (calculate_impermanent_loss env m w) =
     (case initial_reserves m of
        None \<Rightarrow> Inr 0
      | Some (initial_a, initial_b) \<Rightarrow>
          (case get_pool_reserves env m w of
             (current_a, current_b) \<Rightarrow>
               if initial_a = 0 \<or> initial_b = 0 \<or> current_a = 0 \<or> current_b = 0
                  \<or> fl (real initial_a / real initial_b) = 0
               then Inr 0
               else
                 let r = fl (fl (real current_a / real current_b) / fl (real initial_a / real initial_b))
                 in Inr (fl (fl (fl (2 * fl (sqrt r)) / fl (1 + r)) - 1))))"
proof (cases "initial_reserves m")
  case None
  then show ?thesis by (simp add: calculate_impermanent_loss_def)
next
  case (Some p)
  obtain ia ib where p: "p = (ia, ib)" by (cases p)
  obtain ca cb where c: "get_pool_reserves env m w = (ca, cb)" by (cases "get_pool_reserves env m w")
  show ?thesis
  proof (cases "ia = 0 \<or> ib = 0 \<or> ca = 0 \<or> cb = 0")
    case True
    then show ?thesis using Some p c by (auto simp: calculate_impermanent_loss_def)
  next
    case False
    then have pos: "0 < real ca / real cb" "0 < real ia / real ib" by simp_all
    define r where "r = fl (fl (real ca / real cb) / fl (real ia / real ib))"
    have "0 < fl (real ca / real cb)" "0 < fl (real ia / real ib)"
      using pos by (simp_all add: fl_pos)
    then have r: "0 < r" unfolding r_def by (simp add: fl_pos)
    have "0 < 1 + r" using r by simp
    then have d: "fl (1 + r) \<noteq> 0" by simp
    show ?thesis using Some p c False r d pos
      by (simp add: calculate_impermanent_loss_def int_truediv_def fdiv_def fsqrt_def fadd_def
          fmul_def fsub_def r_def[symmetric] Let_def)
  qed
qed

lemma calculate_impermanent_loss_same:
  assumes "initial_reserves m = Some (get_pool_reserves env m w)"
  shows "fst (calculate_impermanent_loss env m w) = Inr 0"
proof -
  obtain ca cb where c: "get_pool_reserves env m w = (ca, cb)" by (cases "get_pool_reserves env m w")
  show ?thesis
  proof (cases "ca = 0 \<or> cb = 0")
    case True
    then show ?thesis using assms c by (auto simp: calculate_impermanent_loss_formula)
  next
    case False
    then have "real ca / real cb \<noteq> 0" by simp
    then have "fl (real ca / real cb) \<noteq> 0" by simp
    then show ?thesis using assms c False by (simp add: calculate_impermanent_loss_formula)
  qed
qed

lemma calculate_optimal_liquidity_amounts_empty:
  assumes "fst (get_pool_reserves env m w) = 0 \<or> snd (get_pool_reserves env m w) = 0"
  shows "calculate_optimal_liquidity_amounts env m available_a available_b w =
    (if target_ratio m = 1 \<or> target_ratio m = 0
     then Inl (ZeroDivisionError ''float division by zero'')
     else
       let total_value_a = fl (fl (real available_a)
                               + fl (fl (fl (real available_b) * target_ratio m) / fl (1 - target_ratio m)));
           amount_a = int_of_float (fl (fl (total_value_a * target_ratio m) * max_liquidity_ratio m));
           amount_b = int_of_float (fl (fl (fl (real_of_int amount_a) * fl (1 - target_ratio m)) / target_ratio m))
       in Inr (min amount_a (int available_a), min amount_b (int available_b)))"
proof -
  obtain ra rb where r: "get_pool_reserves env m w = (ra, rb)" by (cases "get_pool_reserves env m w")
  have z: "ra = 0 \<or> rb = 0" using assms r by simp
  show ?thesis
    using z r
    by (auto simp: calculate_optimal_liquidity_amounts_def fdiv_def fsub_def fmul_def fadd_def
        float_of_int_def Let_def)
qed

lemma fl_1000 [simp]: "fl 1000 = 1000"
  using fl_eval[of 9 1000] by (simp add: round_half_even_def power_int_minus)
lemma fl_2000 [simp]: "fl 2000 = 2000"
  using fl_eval[of 10 2000] by (simp add: round_half_even_def power_int_minus)
lemma fl_500 [simp]: "fl 500 = 500"
  using fl_eval[of 8 500] by (simp add: round_half_even_def power_int_minus)
lemma fl_900 [simp]: "fl 900 = 900"
  using fl_eval[of 9 900] by (simp add: round_half_even_def power_int_minus)
lemma fl_450 [simp]: "fl 450 = 450"
  using fl_eval[of 8 450] by (simp add: round_half_even_def power_int_minus)
lemma fl_half [simp]: "fl (1 / 2) = 1 / 2"
  using fl_eval[of "-1" "1 / 2"] by (simp add: round_half_even_def power_int_minus)
lemma fl_9_10: "fl (9 / 10) = 8106479329266893 / 9007199254740992"
  using fl_eval[of "-1" "9 / 10"] by (simp add: round_half_even_def power_int_minus)
lemma fl_1000_9_10: "fl (1013309916158361625 / 1125899906842624) = 900"
  using fl_eval[of 9 "1013309916158361625 / 1125899906842624"]
  by (simp add: round_half_even_def power_int_minus)

lemma calculate_optimal_liquidity_amounts_scenario:
  assumes "fst (get_pool_reserves env m w) = 0 \<or> snd (get_pool_reserves env m w) = 0"
    and "target_ratio m = fl (5 / 10)" and "max_liquidity_ratio m = fl (9 / 10)"
  shows "calculate_optimal_liquidity_amounts env m 1000 1000 w = Inr (900, 900)"
proof -
  have tr: "target_ratio m = 1 / 2" using assms(2) by simp
  have mlr: "max_liquidity_ratio m = 8106479329266893 / 9007199254740992"
    using assms(3) by (simp add: fl_9_10)
  show ?thesis
    by (simp add: calculate_optimal_liquidity_amounts_empty[OF assms(1)] tr mlr fl_1000_9_10 int_of_float_def Let_def)
qed


lemma quote_lt:
  assumes "0 < reserve_in" "0 < reserve_out"
  shows "y * reserve_out div (reserve_in * 10000 + y) < (reserve_out::nat)"
proof -
  have "y * reserve_out < reserve_out * (reserve_in * 10000 + y)"
    using assms by (simp add: algebra_simps)
  then show ?thesis
    using assms by (simp add: less_mult_imp_div_less)
qed

lemma quote_mono:
  assumes "y \<le> (y'::nat)" "0 < d"
  shows "y * r div (d + y) \<le> y' * r div (d + y')"
proof -
  have "real (y * r) / real (d + y) \<le> real (y' * r) / real (d + y')"
  proof -
    have "real y * real r * (real d + real y') \<le> real y' * real r * (real d + real y)"
    proof -
      have "real y * real r * real d \<le> real y' * real r * real d"
        using assms by (simp add: mult_right_mono)
      then show ?thesis by (simp add: algebra_simps)
    qed
    then show ?thesis using assms by (simp add: divide_simps)
  qed
  then have "\<lfloor>real (y * r) / real (d + y)\<rfloor> \<le> \<lfloor>real (y' * r) / real (d + y')\<rfloor>"
    by (rule floor_mono)
  then show ?thesis by (simp only: floor_divide_of_nat_eq)
qed

lemma quote_product:
  assumes "0 < (d::nat)"
  shows "d * r \<le> (d + y) * (r - y * r div (d + y))"
proof -
  let ?q = "y * r div (d + y)"
  have q: "?q * (d + y) \<le> y * r" by simp
  have qr: "?q \<le> r"
    by (metis assms add_gr_0 div_le_mono div_mult_self_is_m le_add2 mult.commute mult_le_mono1)
  have "d * r + ?q * (d + y) \<le> (d + y) * r" using q by (simp add: algebra_simps)
  then have "d * r \<le> (d + y) * r - ?q * (d + y)" by simp
  also have "\<dots> = (d + y) * (r - ?q)" by (simp add: algebra_simps diff_mult_distrib2)
  finally show ?thesis .
qed


lemma run_agents_append:
  "run_agents cls md (xs @ ys) w =
     (case run_agents cls md xs w of
        (Some e, xs', w1, actions1, log1) \<Rightarrow> (Some e, xs' @ ys, w1, actions1, log1)
      | (None, xs', w1, actions1, log1) \<Rightarrow>
          (case run_agents cls md ys w1 of
             (r, ys', w2, actions2, log2) \<Rightarrow>
               (r, xs' @ ys', w2, actions1 @ actions2, log1 @ log2)))"
proof (induction xs arbitrary: w)
  case Nil
  then show ?case by (simp split: prod.splits)
next
  case (Cons a xs)
  show ?case
    by (auto split: prod.splits sum.splits base_exn.splits bool.splits option.splits simp: Cons.IH)
qed

lemma send_transaction_agent_id:
  "send_transaction env a tx w = (r, a', w') \<Longrightarrow> agent_id a' = agent_id a"
  by (auto simp: send_transaction_def Let_def split: sum.splits prod.splits if_splits)

lemma approve_token_spending_agent_id:
  "approve_token_spending env a t s n w = (r, a', w') \<Longrightarrow> agent_id a' = agent_id a"
  by (auto simp: approve_token_spending_def split: sum.splits dest: send_transaction_agent_id)

lemma log_trade_agent_id:
  "log_trade env a ty d w = Inr a' \<Longrightarrow> agent_id a' = agent_id a"
  by (auto simp: log_trade_def split: sum.splits)

lemma add_liquidity_agent_id:
  "add_liquidity env m x y w = (r, m', w') \<Longrightarrow> agent_id m' = agent_id m"
  unfolding add_liquidity_def Let_def
  by (auto split: sum.splits prod.splits if_splits
      dest!: send_transaction_agent_id approve_token_spending_agent_id log_trade_agent_id)

lemma remove_liquidity_agent_id:
  "remove_liquidity env m x y z w = (r, m', w') \<Longrightarrow> agent_id m' = agent_id m"
  unfolding remove_liquidity_def
  by (auto split: sum.splits prod.splits
      dest!: send_transaction_agent_id log_trade_agent_id)

lemma calculate_impermanent_loss_agent_id:
  "calculate_impermanent_loss env m w = (r, m') \<Longrightarrow> agent_id m' = agent_id m"
  unfolding calculate_impermanent_loss_def Let_def
  by (auto split: option.splits sum.splits prod.splits if_splits)

lemma get_lp_balance_agent_id:
  "get_lp_balance env m w = (lp, m') \<Longrightarrow> agent_id m' = agent_id m"
  by (auto simp: get_lp_balance_def split: sum.splits)

lemma market_maker_finish_report:
  "market_maker_finish env m acts lp w = (report, m', w') \<Longrightarrow>
     report_error report = None \<and> report_agent_id report = agent_id m \<and> actions_taken report = acts"
  using calculate_impermanent_loss_total[of env m w]
  by (auto simp: market_maker_finish_def market_maker_report_def split: prod.splits sum.splits
      dest: calculate_impermanent_loss_agent_id)

lemma market_maker_step_report:
  fixes m :: "'a market_maker_scheme"
  shows "report_agent_id (fst (market_maker_step env m md w)) = agent_id m \<and>
   report_error (fst (market_maker_step env m md w)) =
     (case get_lp_balance env m w of
        (lp_balance, m1) \<Rightarrow>
          if lp_balance = 0 \<and>
             (get_token_balance env m (token_a_address m) w > 0 \<or>
              get_token_balance env m (token_b_address m) w > 0)
          then (case calculate_optimal_liquidity_amounts env m1
                       (get_token_balance env m (token_a_address m) w)
                       (get_token_balance env m (token_b_address m) w) w of
                  Inl e \<Rightarrow> Some (str_exn e)
                | Inr amounts \<Rightarrow> None)
          else None)"
proof -
  obtain lp m1 where lp: "get_lp_balance env m w = (lp, m1)" by (cases "get_lp_balance env m w")
  have id1: "agent_id m1 = agent_id m" using lp by (rule get_lp_balance_agent_id)
  let ?ba = "get_token_balance env m (token_a_address m) w"
  let ?bb = "get_token_balance env m (token_b_address m) w"
  have fin: "report_error (fst (market_maker_finish env m2 acts lp w2)) = None \<and>
             report_agent_id (fst (market_maker_finish env m2 acts lp w2)) = agent_id m2"
    for m2 :: "'a market_maker_scheme" and acts w2
    using market_maker_finish_report[of env m2 acts lp w2]
    by (cases "market_maker_finish env m2 acts lp w2") auto
  show ?thesis
  proof (cases "lp = 0 \<and> (?ba > 0 \<or> ?bb > 0)")
    case True
    show ?thesis
    proof (cases "calculate_optimal_liquidity_amounts env m1 ?ba ?bb w")
      case (Inl e)
      then show ?thesis using True lp id1
        by (simp add: market_maker_step_def market_maker_report_def)
    next
      case (Inr amounts)
      obtain x y where xy: "amounts = (x, y)" by (cases amounts)
      show ?thesis
      proof (cases "x > 0 \<and> y > 0")
        case False
        show ?thesis using True lp id1 Inr xy fin[of m1 "[]" w]
          by (simp add: market_maker_step_def False)
      next
        case pos: True
        obtain h m2 w2 where al: "add_liquidity env m1 x y w = (h, m2, w2)"
          by (cases "add_liquidity env m1 x y w")
        have id2: "agent_id m2 = agent_id m" using add_liquidity_agent_id[OF al] id1 by simp
        show ?thesis using True lp Inr xy pos al id2 fin[of m2 _ w2]
          by (cases h) (simp_all add: market_maker_step_def)
      qed
    qed
  next
    case False
    show ?thesis
    proof (cases "should_rebalance env m1 md w")
      case nr: False
      show ?thesis using lp id1 fin[of m1 "[]" w]
        by (simp add: market_maker_step_def False nr)
    next
      case rb: True
      let ?amt = "int_of_float (fmul (float_of_int (int lp)) (fl (1 / 10)))"
      show ?thesis
      proof (cases "?amt > 0")
        case z: False
        show ?thesis using rb lp id1 fin[of m1 "[]" w]
          by (simp add: market_maker_step_def Let_def False z)
      next
        case p: True
        obtain h m2 w2 where rl: "remove_liquidity env m1 ?amt 0 0 w = (h, m2, w2)"
          by (cases "remove_liquidity env m1 ?amt 0 0 w")
        have id2: "agent_id m2 = agent_id m" using remove_liquidity_agent_id[OF rl] id1 by simp
        show ?thesis using rb lp p rl id2 fin[of m2 _ w2]
          by (cases h) (simp_all add: market_maker_step_def Let_def False)
      qed
    qed
  qed
qed


lemma fl_19_20: "fl (19 / 20) = 4278419646001971 / 4503599627370496"
  using fl_eval[of "-1" "19 / 20"] by (simp add: round_half_even_def power_int_minus)

lemma fl_900_19_20: "fl (962644420350443475 / 1125899906842624) = 855"
  using fl_eval[of 9 "962644420350443475 / 1125899906842624"]
  by (simp add: round_half_even_def power_int_minus)

lemma fl_1_5: "fl (1 / 5) = 3602879701896397 / 18014398509481984"
  using fl_eval[of "-3" "1 / 5"] by (simp add: round_half_even_def power_int_minus)

lemma market_maker_should_act_funded:
  "market_maker_should_act ledger_web3 (new_market_maker ''market_maker_0'' ''0xM0'' (1 / 2)) md
     funded_ledger
   = (True, (new_market_maker ''market_maker_0'' ''0xM0'' (1 / 2))\<lparr>lp_token_balance := 0\<rparr>)"
  by (simp add: market_maker_should_act_def get_token_balance_def get_lp_balance_def ledger_web3_def
      funded_ledger_def new_market_maker_def)

lemma market_maker_finish_world:
  "snd (snd (market_maker_finish env m acts lp w)) = w"
  by (simp add: market_maker_finish_def split: prod.splits sum.splits)

lemma funded_ledger_reserves:
  "fst (get_pool_reserves ledger_web3 m funded_ledger) = 0 \<or>
   snd (get_pool_reserves ledger_web3 m funded_ledger) = 0"
  by (simp add: get_pool_reserves_def ledger_web3_def funded_ledger_def)

lemma calculate_optimal_liquidity_amounts_funded:
  "calculate_optimal_liquidity_amounts ledger_web3
     ((new_market_maker ''market_maker_0'' ''0xM0'' (1 / 2))\<lparr>lp_token_balance := 0\<rparr>)
     1000 1000 funded_ledger = Inr (900, 900)"
  by (rule calculate_optimal_liquidity_amounts_scenario[OF funded_ledger_reserves])
     (simp_all add: new_market_maker_def)

lemma market_maker_step_funded:
  "\<exists>report m1.
     market_maker_step ledger_web3
       ((new_market_maker ''market_maker_0'' ''0xM0'' (1 / 2))\<lparr>lp_token_balance := 0\<rparr>)
       md funded_ledger
     = (report, m1,
        \<lparr>pool_reserves = (900, 900),
         balances = (\<lambda>k. if fst k = ''0xAMM'' then 0 else 1000)
           ((''0xTEST'', ''0xM0'') := 100, (''0xUSDC'', ''0xM0'') := 100,
            (''0xAMM'', ''0xM0'') := 900),
         blocks = 3\<rparr>)"
proof -
  let ?m = "(new_market_maker ''market_maker_0'' ''0xM0'' (1 / 2))\<lparr>lp_token_balance := 0\<rparr>"
  have bal: "get_token_balance ledger_web3 ?m (token_a_address ?m) funded_ledger = 1000"
            "get_token_balance ledger_web3 ?m (token_b_address ?m) funded_ledger = 1000"
    by (simp_all add: get_token_balance_def ledger_web3_def funded_ledger_def new_market_maker_def)
  have lp: "get_lp_balance ledger_web3 ?m funded_ledger = (0, ?m)"
    by (simp add: get_lp_balance_def ledger_web3_def funded_ledger_def new_market_maker_def)
  obtain m2 where add: "add_liquidity ledger_web3 ?m 900 900 funded_ledger
       = (Some ''0x01'', m2,
        \<lparr>pool_reserves = (900, 900),
         balances = (\<lambda>k. if fst k = ''0xAMM'' then 0 else 1000)
           ((''0xTEST'', ''0xM0'') := 100, (''0xUSDC'', ''0xM0'') := 100,
            (''0xAMM'', ''0xM0'') := 900),
         blocks = 3\<rparr>)"
    by (simp add: add_liquidity_def approve_token_spending_def send_transaction_def log_trade_def
      ledger_web3_def ledger_apply_def funded_ledger_def new_market_maker_def Let_def
      get_pool_reserves_def fmul_def float_of_int_def fl_19_20 fl_900_19_20 int_of_float_def
      numeral_3_eq_3)
  obtain rep m3 where fin: "market_maker_finish ledger_web3 m2 [AddInitialLiquidity 900 900 ''0x01''] 0
       \<lparr>pool_reserves = (900, 900),
         balances = (\<lambda>k. if fst k = ''0xAMM'' then 0 else 1000)
           ((''0xTEST'', ''0xM0'') := 100, (''0xUSDC'', ''0xM0'') := 100,
            (''0xAMM'', ''0xM0'') := 900),
         blocks = 3\<rparr> = (rep, m3,
       \<lparr>pool_reserves = (900, 900),
         balances = (\<lambda>k. if fst k = ''0xAMM'' then 0 else 1000)
           ((''0xTEST'', ''0xM0'') := 100, (''0xUSDC'', ''0xM0'') := 100,
            (''0xAMM'', ''0xM0'') := 900),
         blocks = 3\<rparr>)"
    using market_maker_finish_world[of ledger_web3 m2 "[AddInitialLiquidity 900 900 ''0x01'']" 0]
    by (metis prod.collapse)
  show ?thesis
    unfolding market_maker_step_def Let_def bal lp
    by (simp add: calculate_optimal_liquidity_amounts_funded add fin)
qed


lemma momentum_should_act_traded:
  "momentum_should_act ledger_web3 (new_momentum_trader ''momentum_trader_1'' ''0xT1'' []) md
     traded_ledger
   = (Inr False,
      (new_momentum_trader ''momentum_trader_1'' ''0xT1'' [])\<lparr>price_history := [1], random_pos := 1\<rparr>)"
  by (simp add: momentum_should_act_def get_pool_price_def ledger_web3_def traded_ledger_def
      new_momentum_trader_def int_truediv_def calculate_momentum_def random_random_def
      fl_1_50 fl_1_5 Let_def)

lemma pnl_term_encodable:
  "json_number b = None \<Longrightarrow> \<exists>p. pnl_term acc b i = Inr p"
  by (cases b; cases i) (simp_all add: json_number_def)

lemma pnl_loop_encodable:
  assumes "\<And>name b. (name, b) \<in> set current \<Longrightarrow> json_number b = None"
  shows "\<exists>p. pnl_loop current acc initial = Inr p"
proof (induction initial arbitrary: acc)
  case Nil
  then show ?case by simp
next
  case (Cons x initial)
  obtain token i where x: "x = (token, i)" by (cases x)
  define b where "b = (case map_of current token of None \<Rightarrow> PyFloat 0 | Some b \<Rightarrow> b)"
  have "json_number b = None"
    using assms by (auto simp: b_def json_number_def split: option.splits dest: map_of_SomeD)
  then obtain p where p: "pnl_term acc b i = Inr p" using pnl_term_encodable by blast
  obtain q where "pnl_loop current p initial = Inr q" using Cons[of p] by blast
  then show ?case using p by (simp add: x b_def)
qed

lemma first_error_None:
  "first_error xs = None \<longleftrightarrow> (\<forall>x \<in> set xs. x = None)"
  by (induction xs rule: first_error.induct) auto

lemma json_stats_None:
  "json_stats p = None \<longleftrightarrow> (\<forall>(name, b) \<in> set (stats_current_balances p). json_number b = None)"
  by (auto simp: json_stats_def first_error_None)

lemma ledger_balances:
  "\<exists>bs. get_all_balances ledger_web3 a w = Inr bs \<and>
        (\<forall>(name, b) \<in> set bs. json_number b = None)"
  by (simp add: get_all_balances_def get_eth_balance_def from_wei_ether_def ledger_web3_def
      json_number_def split: sum.splits)

lemma ledger_performance:
  "\<exists>p. get_performance_stats ledger_web3 a w = (Inr p, a\<lparr>pnl := stats_pnl p\<rparr>) \<and>
       json_stats p = None"
proof -
  obtain bs where bs: "get_all_balances ledger_web3 a w = Inr bs"
    and enc: "\<forall>(name, b) \<in> set bs. json_number b = None"
    using ledger_balances by blast
  obtain p where p: "pnl_loop bs 0 (initial_balances a) = Inr p"
    using pnl_loop_encodable[of bs 0 "initial_balances a"] enc by blast
  have "get_all_balances ledger_web3 (a\<lparr>pnl := p\<rparr>) w = get_all_balances ledger_web3 a w"
    by (simp add: get_all_balances_def get_eth_balance_def get_token_balance_def
        cong: sum.case_cong)
  then have bs': "get_all_balances ledger_web3 (a\<lparr>pnl := p\<rparr>) w = Inr bs"
    using bs by simp
  show ?thesis
    using enc by (simp add: get_performance_stats_def calculate_pnl_def bs p bs' json_stats_None)
qed


lemma funded_run_agents:
  "\<exists>report m1.
     run_agents (simulator_agents ledger_web3) md
       [MarketMakerAgent (new_market_maker ''market_maker_0'' ''0xM0'' (1 / 2)),
        MomentumTraderAgent (new_momentum_trader ''momentum_trader_1'' ''0xT1'' [])]
       funded_ledger
     = (None,
        [MarketMakerAgent m1,
         MomentumTraderAgent ((new_momentum_trader ''momentum_trader_1'' ''0xT1'' [])
                                \<lparr>price_history := [1], random_pos := 1\<rparr>)],
        traded_ledger, [report], [])"
proof -
  obtain report m1 where st:
    "market_maker_step ledger_web3
       ((new_market_maker ''market_maker_0'' ''0xM0'' (1 / 2))\<lparr>lp_token_balance := 0\<rparr>)
       md funded_ledger = (report, m1, traded_ledger)"
    using market_maker_step_funded[of md] unfolding traded_ledger_def by blast
  have "run_agents (simulator_agents ledger_web3) md
       [MarketMakerAgent (new_market_maker ''market_maker_0'' ''0xM0'' (1 / 2)),
        MomentumTraderAgent (new_momentum_trader ''momentum_trader_1'' ''0xT1'' [])]
       funded_ledger
     = (None,
        [MarketMakerAgent m1,
         MomentumTraderAgent ((new_momentum_trader ''momentum_trader_1'' ''0xT1'' [])
                                \<lparr>price_history := [1], random_pos := 1\<rparr>)],
        traded_ledger, [report], [])"
    by (simp add: simulator_agents_def market_maker_should_act_funded st momentum_should_act_traded lift_exn_def)
  then show ?thesis by blast
qed

lemma ledger_collect_performance:
  "\<exists>perf m1' t1'.
     collect_performance (simulator_agents ledger_web3)
       [MarketMakerAgent m1, MomentumTraderAgent t1] w
     = (Inr perf, [MarketMakerAgent m1', MomentumTraderAgent t1']) \<and>
     price_history t1' = price_history t1"
proof -
  obtain p1 where a: "get_performance_stats ledger_web3 m1 w = (Inr p1, m1\<lparr>pnl := stats_pnl p1\<rparr>)"
    using ledger_performance[of m1 w] by blast
  obtain p2 where b: "get_performance_stats ledger_web3 t1 w = (Inr p2, t1\<lparr>pnl := stats_pnl p2\<rparr>)"
    using ledger_performance[of t1 w] by blast
  show ?thesis
    by (simp add: simulator_agents_def a b lift_exn_def)
qed

lemma funded_run_step:
  "\<exists>res r' m t.
     run_step ledger_web3 (simulator_agents ledger_web3) reserves_externals
       (new_runner
          [MarketMakerAgent (new_market_maker ''market_maker_0'' ''0xM0'' (1 / 2)),
           MomentumTraderAgent (new_momentum_trader ''momentum_trader_1'' ''0xT1'' [])]
          funded_ledger 5)
       = (Inr res, r') \<and>
     result_market_data res = (0, 0) \<and>
     agents r' = [MarketMakerAgent m, MomentumTraderAgent t] \<and>
     price_history t = [1] \<and>
     get_pool_price ledger_web3 (new_momentum_trader ''momentum_trader_1'' ''0xT1'' [])
       funded_ledger = 0"
proof -
  let ?mt = "(new_momentum_trader ''momentum_trader_1'' ''0xT1'' [])
               \<lparr>price_history := [1], random_pos := 1\<rparr>"
  obtain report m1 where ra:
    "run_agents (simulator_agents ledger_web3) (0::nat, 0::nat)
       [MarketMakerAgent (new_market_maker ''market_maker_0'' ''0xM0'' (1 / 2)),
        MomentumTraderAgent (new_momentum_trader ''momentum_trader_1'' ''0xT1'' [])]
       funded_ledger
     = (None, [MarketMakerAgent m1, MomentumTraderAgent ?mt], traded_ledger, [report], [])"
    using funded_run_agents[of "(0::nat, 0::nat)"] by blast
  obtain perf m1' t1' where cp:
    "collect_performance (simulator_agents ledger_web3 :: (agent, ledger, nat \<times> nat) agent_methods)
       [MarketMakerAgent m1, MomentumTraderAgent ?mt] traded_ledger
     = (Inr perf, [MarketMakerAgent m1', MomentumTraderAgent t1'])"
    and ph: "price_history t1' = price_history ?mt"
    using ledger_collect_performance[of m1 ?mt traded_ledger] by blast
  have ms: "get_current_market_state reserves_externals funded_ledger = Inr (0, 0)"
    by (simp add: reserves_externals_def funded_ledger_def)
  have bn: "block_number ledger_web3 traded_ledger = Inr 3"
    by (simp add: ledger_web3_def traded_ledger_def)
  have price: "get_pool_price ledger_web3 (new_momentum_trader ''momentum_trader_1'' ''0xT1'' [])
       funded_ledger = 0"
    by (simp add: get_pool_price_def ledger_web3_def funded_ledger_def)
  have ph1: "price_history t1' = [1]" using ph by simp
  show ?thesis
  proof -
    have cs: "calculate_step_metrics reserves_externals s acts mdata wrld = Inr (length acts)"
      for s acts and mdata :: "nat \<times> nat" and wrld
      by (simp add: reserves_externals_def)
    show ?thesis
      using ph1 price
      by (simp add: run_step_def new_runner_def ms ra Let_def cs cp bn
          del: One_nat_def run_agents.simps collect_performance.simps)
  qed
qed


lemma slice_from_last:
  assumes "0 < k" and "xs \<noteq> []"
  shows "last (slice_from xs (- k)) = last xs"
proof -
  have "nat (max 0 (int (length xs) - k)) < length xs" using assms by (cases xs) auto
  then show ?thesis using assms by (simp add: slice_from_def Let_def)
qed

lemma momentum_should_act_last:
  assumes "0 < lookback_periods t"
  shows "last (price_history (snd (momentum_should_act env t md w))) = get_pool_price env t w"
  using assms slice_from_last[of "lookback_periods t" "price_history t @ [get_pool_price env t w]"]
  by (auto simp: momentum_should_act_def Let_def random_random_def get_pool_price_def
      split: sum.splits prod.splits)




lemma collect_performance_encodable:
  assumes "\<And>a w. \<exists>p a'. performance_stats cls a w = (Inr p, a') \<and> json_stats p = None"
  shows "\<exists>perf ags'. collect_performance cls ags w = (Inr perf, ags') \<and>
           length perf = length ags \<and> length ags' = length ags \<and>
           first_error (map (\<lambda>(name, p). json_stats p) perf) = None"
proof (induction ags)
  case Nil
  then show ?case by simp
next
  case (Cons a ags)
  obtain p a' where p: "performance_stats cls a w = (Inr p, a')" "json_stats p = None"
    using assms by blast
  from Cons obtain perf ags' where c: "collect_performance cls ags w = (Inr perf, ags')"
    "length perf = length ags" "length ags' = length ags"
    "first_error (map (\<lambda>(name, p). json_stats p) perf) = None" by blast
  show ?case using p c by simp
qed










lemma simulator_agents_performance:
  "\<exists>p a'. performance_stats (simulator_agents ledger_web3) a w = (Inr p, a') \<and> json_stats p = None"
proof (cases a)
  case (MarketMakerAgent m)
  obtain p where "get_performance_stats ledger_web3 m w = (Inr p, m\<lparr>pnl := stats_pnl p\<rparr>)"
    "json_stats p = None"
    using ledger_performance[of m w] by blast
  then show ?thesis using MarketMakerAgent by (simp add: simulator_agents_def lift_exn_def)
next
  case (MomentumTraderAgent t)
  obtain p where "get_performance_stats ledger_web3 t w = (Inr p, t\<lparr>pnl := stats_pnl p\<rparr>)"
    "json_stats p = None"
    using ledger_performance[of t w] by blast
  then show ?thesis using MomentumTraderAgent by (simp add: simulator_agents_def lift_exn_def)
qed

lemma execute_swap_agent_id:
  "execute_swap env t n tok w = (r, t', w') \<Longrightarrow> agent_id t' = agent_id t"
  unfolding execute_swap_def Let_def
  by (auto split: sum.splits prod.splits if_splits
      dest!: send_transaction_agent_id approve_token_spending_agent_id log_trade_agent_id)

lemma momentum_step_report:
  fixes t :: "'a momentum_trader_scheme"
  shows "report_agent_id (fst (momentum_step env t md w)) = agent_id t \<and>
         report_error (fst (momentum_step env t md w)) =
           (case calculate_momentum t of Inl e \<Rightarrow> Some (str_exn e) | Inr x \<Rightarrow> None)"
proof (cases "calculate_momentum t")
  case (Inl e)
  then show ?thesis by (simp add: momentum_step_def momentum_report_def)
next
  case (Inr x)
  have fin: "report_agent_id (momentum_finish t1 acts x) = agent_id t1 \<and>
             report_error (momentum_finish t1 acts x) = None"
    for t1 :: "'a momentum_trader_scheme" and acts
    by (simp add: momentum_finish_def momentum_report_def)
  show ?thesis
    using Inr fin
    by (auto simp: momentum_step_def Let_def split: prod.splits option.splits
        dest: execute_swap_agent_id)
qed

lemma run_step_record:
  assumes ms: "get_current_market_state ext (world r) = Inr md"
    and ra: "run_agents cls md (agents r) (world r) = (None, ags, w', acts, lg)"
    and sm: "\<And>acts. \<exists>metrics. calculate_step_metrics ext (current_step r) acts md w' = Inr metrics"
    and cp: "collect_performance cls ags w' = (Inr perf, ags2)"
    and bn: "block_number env w' = Inr n"
  shows "\<exists>res r'. run_step env cls ext r = (Inr res, r') \<and>
           result_agent_actions res = acts \<and> result_agent_performance res = perf \<and>
           result_market_data res = md \<and>
           error_log r' = error_log r @ lg \<and> step_results r' = step_results r @ [res]"
proof -
  obtain metrics where m: "calculate_step_metrics ext (current_step r) acts md w' = Inr metrics"
    using sm by blast
  show ?thesis
    by (simp add: run_step_def ms ra m cp bn Let_def)
qed


lemma momentum_should_act_negative_lookback:
  "momentum_should_act ledger_web3
     ((new_momentum_trader ''momentum_trader_1'' ''0xT1'' [])\<lparr>lookback_periods := - 1\<rparr>)
     md funded_ledger
   = (Inl (IndexError ''list index out of range''),
      (new_momentum_trader ''momentum_trader_1'' ''0xT1'' [])
        \<lparr>lookback_periods := - 1, price_history := []\<rparr>)"
  by (simp add: momentum_should_act_def get_pool_price_def ledger_web3_def funded_ledger_def
      new_momentum_trader_def calculate_momentum_def slice_from_def Let_def)

lemma market_maker_step_unit_ratio:
  "market_maker_step ledger_web3
     ((new_market_maker ''market_maker_0'' ''0xM0'' 1)\<lparr>lp_token_balance := 0\<rparr>) md funded_ledger
   = ((market_maker_report (new_market_maker ''market_maker_0'' ''0xM0'' 1) [])
        \<lparr>report_error := Some ''float division by zero''\<rparr>,
      (new_market_maker ''market_maker_0'' ''0xM0'' 1)\<lparr>lp_token_balance := 0\<rparr>, funded_ledger)"
proof -
  let ?m = "(new_market_maker ''market_maker_0'' ''0xM0'' 1)\<lparr>lp_token_balance := 0\<rparr>"
  have lp: "get_lp_balance ledger_web3 ?m funded_ledger = (0, ?m)"
    by (simp add: get_lp_balance_def ledger_web3_def new_market_maker_def funded_ledger_def)
  have bal: "get_token_balance ledger_web3 ?m (token_a_address ?m) funded_ledger = 1000"
            "get_token_balance ledger_web3 ?m (token_b_address ?m) funded_ledger = 1000"
    by (simp_all add: get_token_balance_def ledger_web3_def new_market_maker_def funded_ledger_def)
  have tr: "target_ratio ?m = 1" by (simp add: new_market_maker_def)
  have opt: "calculate_optimal_liquidity_amounts ledger_web3 ?m 1000 1000 funded_ledger
               = Inl (ZeroDivisionError ''float division by zero'')"
    unfolding calculate_optimal_liquidity_amounts_empty[OF funded_ledger_reserves] tr by simp
  show ?thesis
    unfolding market_maker_step_def Let_def bal lp
    by (simp add: opt market_maker_report_def)
qed

lemma market_maker_should_act_unit_ratio:
  "market_maker_should_act ledger_web3 (new_market_maker ''market_maker_0'' ''0xM0'' 1) md
     funded_ledger
   = (True, (new_market_maker ''market_maker_0'' ''0xM0'' 1)\<lparr>lp_token_balance := 0\<rparr>)"
  by (simp add: market_maker_should_act_def get_token_balance_def get_lp_balance_def ledger_web3_def
      funded_ledger_def new_market_maker_def)


lemma negative_lookback_run_step:
  "\<exists>res r'.
     run_step ledger_web3 (simulator_agents ledger_web3)
       (reserves_externals :: (unit, ledger, nat \<times> nat, nat, nat) externals)
       (new_runner
          [MarketMakerAgent (new_market_maker ''market_maker_0'' ''0xM0'' 1),
           MomentumTraderAgent
             ((new_momentum_trader ''momentum_trader_1'' ''0xT1'' [])\<lparr>lookback_periods := - 1\<rparr>)]
          funded_ledger 5) = (Inr res, r') \<and>
     result_agent_actions res
       = [(market_maker_report (new_market_maker ''market_maker_0'' ''0xM0'' 1) [])
            \<lparr>report_error := Some ''float division by zero''\<rparr>] \<and>
     error_log r' = [(''momentum_trader_1'', IndexError ''list index out of range'')]"
proof -
  let ?ext = "reserves_externals :: (unit, ledger, nat \<times> nat, nat, nat) externals"
  let ?sim = "simulator_agents ledger_web3 :: (agent, ledger, nat \<times> nat) agent_methods"
  let ?m = "new_market_maker ''market_maker_0'' ''0xM0'' 1"
  let ?neg = "(new_momentum_trader ''momentum_trader_1'' ''0xT1'' [])\<lparr>lookback_periods := - 1\<rparr>"
  let ?neg' = "(new_momentum_trader ''momentum_trader_1'' ''0xT1'' [])
                 \<lparr>lookback_periods := - 1, price_history := []\<rparr>"
  let ?rep = "(market_maker_report ?m [])\<lparr>report_error := Some ''float division by zero''\<rparr>"
  let ?run = "new_runner [MarketMakerAgent ?m, MomentumTraderAgent ?neg] funded_ledger 5
                :: (unit, agent, ledger, nat \<times> nat, nat) simulation_runner"
  have ms: "get_current_market_state ?ext (world ?run) = Inr (0, 0)"
    by (simp add: reserves_externals_def new_runner_def funded_ledger_def)
  have ra: "run_agents ?sim (0, 0) (agents ?run) (world ?run)
              = (None, [MarketMakerAgent (?m\<lparr>lp_token_balance := 0\<rparr>), MomentumTraderAgent ?neg'],
                 funded_ledger, [?rep],
                 [(''momentum_trader_1'', IndexError ''list index out of range'')])"
  proof -
    have s1: "should_act ?sim (MarketMakerAgent ?m) (0, 0) funded_ledger
                = (Inr True, MarketMakerAgent (?m\<lparr>lp_token_balance := 0\<rparr>), funded_ledger)"
      by (simp add: simulator_agents_def market_maker_should_act_unit_ratio)
    have st1: "step ?sim (MarketMakerAgent (?m\<lparr>lp_token_balance := 0\<rparr>)) (0, 0) funded_ledger
                = (Inr ?rep, MarketMakerAgent (?m\<lparr>lp_token_balance := 0\<rparr>), funded_ledger)"
      by (simp add: simulator_agents_def market_maker_step_unit_ratio)
    have s2: "should_act ?sim (MomentumTraderAgent ?neg) (0, 0) funded_ledger
                = (Inl (Exc (IndexError ''list index out of range'')), MomentumTraderAgent ?neg',
                   funded_ledger)"
      by (simp add: simulator_agents_def momentum_should_act_negative_lookback lift_exn_def)
    have id2: "agent_id_of ?sim (MomentumTraderAgent ?neg') = ''momentum_trader_1''"
      by (simp add: simulator_agents_def new_momentum_trader_def)
    show ?thesis
      by (simp add: new_runner_def s1 st1 s2 id2)
  qed
  have sm: "\<And>acts. \<exists>metrics.
              calculate_step_metrics ?ext (current_step ?run) acts (0, 0) funded_ledger = Inr metrics"
    by (simp add: reserves_externals_def)
  obtain perf ags2 where cp:
    "collect_performance ?sim
       [MarketMakerAgent (?m\<lparr>lp_token_balance := 0\<rparr>), MomentumTraderAgent ?neg'] funded_ledger
     = (Inr perf, ags2)"
    using collect_performance_encodable[of ?sim
        "[MarketMakerAgent (?m\<lparr>lp_token_balance := 0\<rparr>), MomentumTraderAgent ?neg']" funded_ledger]
      simulator_agents_performance by blast
  have bn: "block_number ledger_web3 funded_ledger = Inr 0"
    by (simp add: ledger_web3_def funded_ledger_def)
  show ?thesis
    using run_step_record[OF ms ra sm cp bn] by (auto simp: new_runner_def)
qed


section \<open>Momentum\<close>

text \<open>
  C6, as stated, fails: with the history \<open>[1.0, 1.0, 1.0, 1.0, 1.3]\<close> and a lookback of 5,
  \<open>calculate_momentum()\<close> is not equal to the float \<open>0.3\<close>. The double nearest to 1.3 minus
  1.0 is \<open>0.30000000000000004\<close>, one unit in the last place above the double nearest
  to 0.3.
\<close>

theorem calculate_momentum_counterexample:
  "calculate_momentum (new_momentum_trader ''momentum_trader_0'' ''0xA1'' [1, 1, 1, 1, fl (13 / 10)])
     \<noteq> Inr (fl (3 / 10))"
  by (simp add: new_momentum_trader_def calculate_momentum_def slice_from_def fdiv_def fsub_def
      fl_13_10 fl_momentum fl_3_10)

text \<open>
  C6, amended. For a lookback of at least 1, \<open>calculate_momentum\<close> returns 0 when the
  history holds fewer samples than the lookback; otherwise the window is the last
  \<open>lookback_periods\<close> samples and the result is 0 when the oldest sample of the window
  is 0 and \<open>(newest - oldest) / oldest\<close> in float arithmetic when it is not. With the
  history \<open>[1.0, 1.0, 1.0, 1.0, 1.3]\<close> and a lookback of 5 the result is
  \<open>5404319552844596 / 2^54\<close> (\<open>0.30000000000000004\<close>), within \<open>1e-15\<close> of 0.3; and with a
  threshold of 0.02 \<open>should_act\<close> returns true whenever the pool price it reads is 1.3,
  both when that read completes the history above and when the history above is what
  the agent held before the read, whatever the random draw.
\<close>

theorem calculate_momentum_amended:
  assumes "0 < lookback_periods t"
  shows "(int (length (price_history t)) < lookback_periods t \<longrightarrow> calculate_momentum t = Inr 0) \<and>
     (lookback_periods t \<le> int (length (price_history t)) \<longrightarrow>
        (let window = drop (length (price_history t) - nat (lookback_periods t)) (price_history t)
         in int (length window) = lookback_periods t \<and>
            calculate_momentum t =
              (if hd window = 0 then Inr 0
               else Inr (fl (fl (last window - hd window) / hd window))))) \<and>
     calculate_momentum (t\<lparr>price_history := [1, 1, 1, 1, fl (13 / 10)], lookback_periods := 5\<rparr>)
       = Inr (5404319552844596 / 2 ^ 54) \<and>
     \<bar>5404319552844596 / 2 ^ 54 - 3 / 10\<bar> < (1 / 10 ^ 15 :: real) \<and>
     (get_pool_price env t w = fl (13 / 10) \<longrightarrow>
        fst (momentum_should_act env
               (t\<lparr>price_history := [1, 1, 1, 1], lookback_periods := 5,
                  momentum_threshold := fl (2 / 100)\<rparr>) md w) = Inr True \<and>
        fst (momentum_should_act env
               (t\<lparr>price_history := [1, 1, 1, 1, fl (13 / 10)], lookback_periods := 5,
                  momentum_threshold := fl (2 / 100)\<rparr>) md w) = Inr True)"
proof (intro conjI impI)
  assume "int (length (price_history t)) < lookback_periods t"
  then show "calculate_momentum t = Inr 0" by (simp add: calculate_momentum_def)
next
  assume le: "lookback_periods t \<le> int (length (price_history t))"
  define window where
    "window = drop (length (price_history t) - nat (lookback_periods t)) (price_history t)"
  have len: "int (length window) = lookback_periods t"
    using assms le by (simp add: window_def)
  then obtain oldest rest where w: "window = oldest # rest"
    using assms by (cases window) auto
  have sl: "slice_from (price_history t) (- lookback_periods t) = window"
    using slice_from_window[OF assms le] by (simp add: window_def)
  have "calculate_momentum t =
          (if hd window = 0 then Inr 0
           else Inr (fl (fl (last window - hd window) / hd window)))"
    using le sl w by (simp add: calculate_momentum_def fdiv_def fsub_def)
  with len show "let window = drop (length (price_history t) - nat (lookback_periods t)) (price_history t)
         in int (length window) = lookback_periods t \<and>
            calculate_momentum t =
              (if hd window = 0 then Inr 0
               else Inr (fl (fl (last window - hd window) / hd window)))"
    unfolding Let_def window_def by blast
next
  show "calculate_momentum (t\<lparr>price_history := [1, 1, 1, 1, fl (13 / 10)], lookback_periods := 5\<rparr>)
       = Inr (5404319552844596 / 2 ^ 54)"
    by (simp add: calculate_momentum_scenario)
next
  show "\<bar>5404319552844596 / 2 ^ 54 - 3 / 10\<bar> < (1 / 10 ^ 15 :: real)" by simp
next
  assume "get_pool_price env t w = fl (13 / 10)"
  then show "fst (momentum_should_act env
               (t\<lparr>price_history := [1, 1, 1, 1], lookback_periods := 5,
                  momentum_threshold := fl (2 / 100)\<rparr>) md w) = Inr True"
    by (rule momentum_should_act_scenario) simp
next
  assume "get_pool_price env t w = fl (13 / 10)"
  then show "fst (momentum_should_act env
               (t\<lparr>price_history := [1, 1, 1, 1, fl (13 / 10)], lookback_periods := 5,
                  momentum_threshold := fl (2 / 100)\<rparr>) md w) = Inr True"
    by (rule momentum_should_act_scenario) simp
qed

text \<open>The amended C6 at the scenario's trader, on a pool whose reserves are (13, 10).\<close>

theorem calculate_momentum_amended_witness:
  "0 < lookback_periods (new_momentum_trader ''momentum_trader_0'' ''0xA1'' [1, 1, 1, 1, fl (13 / 10)]) \<and>
   calculate_momentum (new_momentum_trader ''momentum_trader_0'' ''0xA1'' [1, 1, 1, 1, fl (13 / 10)])
     = Inr (5404319552844596 / 2 ^ 54) \<and>
   calculate_momentum (new_momentum_trader ''momentum_trader_0'' ''0xA1'' [1, 1, 1, fl (13 / 10)])
     = Inr 0 \<and>
   calculate_momentum (new_momentum_trader ''momentum_trader_0'' ''0xA1'' [0, 1, 1, 1, fl (13 / 10)])
     = Inr 0 \<and>
   get_pool_price ledger_web3 (new_momentum_trader ''momentum_trader_0'' ''0xA1'' [1, 1, 1, 1])
     \<lparr>pool_reserves = (13, 10), balances = (\<lambda>k. 0), blocks = 0\<rparr> = fl (13 / 10) \<and>
   fst (momentum_should_act ledger_web3
          (new_momentum_trader ''momentum_trader_0'' ''0xA1'' [1, 1, 1, 1]) ()
          \<lparr>pool_reserves = (13, 10), balances = (\<lambda>k. 0), blocks = 0\<rparr>) = Inr True"
proof -
  let ?w = "\<lparr>pool_reserves = (13, 10), balances = (\<lambda>k. 0), blocks = 0\<rparr>"
  have pos: "0 < lookback_periods (new_momentum_trader ''momentum_trader_0'' ''0xA1'' h)" for h
    by (simp add: new_momentum_trader_def)
  have upd: "(new_momentum_trader n a h)
               \<lparr>price_history := h', lookback_periods := 5, momentum_threshold := fl (2 / 100)\<rparr>
             = new_momentum_trader n a h'" for n a h h'
    by (simp add: new_momentum_trader_def)
  have upd2: "(new_momentum_trader n a h)\<lparr>price_history := h', lookback_periods := 5\<rparr>
             = new_momentum_trader n a h'" for n a h h'
    by (simp add: new_momentum_trader_def)
  have price: "get_pool_price ledger_web3
                 (new_momentum_trader ''momentum_trader_0'' ''0xA1'' [1, 1, 1, 1]) ?w = fl (13 / 10)"
    by (rule ledger_pool_price)
  have full: "calculate_momentum
                (new_momentum_trader ''momentum_trader_0'' ''0xA1'' [1, 1, 1, 1, fl (13 / 10)])
              = Inr (5404319552844596 / 2 ^ 54)"
    using calculate_momentum_amended[OF pos, of "[1, 1, 1, 1]", THEN conjunct2, THEN conjunct2,
        THEN conjunct1]
    unfolding upd2 .
  have short: "calculate_momentum
                 (new_momentum_trader ''momentum_trader_0'' ''0xA1'' [1, 1, 1, fl (13 / 10)]) = Inr 0"
  proof (rule calculate_momentum_amended[OF pos, THEN conjunct1, rule_format])
    show "int (length (price_history
                 (new_momentum_trader ''momentum_trader_0'' ''0xA1'' [1, 1, 1, fl (13 / 10)])))
          < lookback_periods
              (new_momentum_trader ''momentum_trader_0'' ''0xA1'' [1, 1, 1, fl (13 / 10)])"
      by (simp add: new_momentum_trader_def)
  qed
  have zero: "calculate_momentum
                 (new_momentum_trader ''momentum_trader_0'' ''0xA1'' [0, 1, 1, 1, fl (13 / 10)]) = Inr 0"
  proof -
    have le: "lookback_periods
                (new_momentum_trader ''momentum_trader_0'' ''0xA1'' [0, 1, 1, 1, fl (13 / 10)])
              \<le> int (length (price_history
                 (new_momentum_trader ''momentum_trader_0'' ''0xA1'' [0, 1, 1, 1, fl (13 / 10)])))"
      by (simp add: new_momentum_trader_def)
    have hd0: "hd (drop (length (price_history
                 (new_momentum_trader ''momentum_trader_0'' ''0xA1'' [0, 1, 1, 1, fl (13 / 10)]))
               - nat (lookback_periods
                 (new_momentum_trader ''momentum_trader_0'' ''0xA1'' [0, 1, 1, 1, fl (13 / 10)])))
              (price_history
                 (new_momentum_trader ''momentum_trader_0'' ''0xA1'' [0, 1, 1, 1, fl (13 / 10)]))) = 0"
      by (simp add: new_momentum_trader_def)
    show ?thesis
      using calculate_momentum_amended[OF pos, THEN conjunct2, THEN conjunct1, rule_format, OF le]
      unfolding Let_def hd0 by simp
  qed
  have act: "fst (momentum_should_act ledger_web3
          (new_momentum_trader ''momentum_trader_0'' ''0xA1'' [1, 1, 1, 1]) () ?w) = Inr True"
    using calculate_momentum_amended[OF pos, of "[1, 1, 1, 1]" ledger_web3 ?w "()",
        THEN conjunct2, THEN conjunct2, THEN conjunct2, THEN conjunct2, rule_format, OF price,
        THEN conjunct1]
    unfolding upd .
  from pos full short zero price act show ?thesis by blast
qed


section \<open>Impermanent loss\<close>

text \<open>
  C7. \<open>calculate_impermanent_loss\<close> never raises. It returns 0 when no initial reserves
  are stored, when any of the four reserves is zero (a failed read of the reserves
  counts as zero reserves) or when the initial ratio is zero, and otherwise
  \<open>2 * sqrt r / (1 + r) - 1\<close> for \<open>r = (current_a / current_b) / (initial_a / initial_b)\<close>,
  every operation rounded as a float operation is. When the current reserves are the
  initial reserves the result is exactly 0.
\<close>

theorem calculate_impermanent_loss_value:
  "fst (calculate_impermanent_loss env m w) =
     (case initial_reserves m of
        None \<Rightarrow> Inr 0
      | Some (initial_a, initial_b) \<Rightarrow>
          (case get_pool_reserves env m w of
             (current_a, current_b) \<Rightarrow>
               if initial_a = 0 \<or> initial_b = 0 \<or> current_a = 0 \<or> current_b = 0
                  \<or> fl (real initial_a / real initial_b) = 0
               then Inr 0
               else
                 let r = fl (fl (real current_a / real current_b) / fl (real initial_a / real initial_b))
                 in Inr (fl (fl (fl (2 * fl (sqrt r)) / fl (1 + r)) - 1)))) \<and>
   (initial_reserves m = Some (get_pool_reserves env m w) \<longrightarrow>
      fst (calculate_impermanent_loss env m w) = Inr 0)"
  using calculate_impermanent_loss_formula[of env m w] calculate_impermanent_loss_same[of m env w]
  by blast

text \<open>
  C7 on the test ledger: a market maker that stored the reserves (900, 900), read again
  from a pool that still holds (900, 900).
\<close>

theorem calculate_impermanent_loss_value_witness:
  "initial_reserves ((new_market_maker ''market_maker_0'' ''0xM0'' (fl (5 / 10)))
                       \<lparr>initial_reserves := Some (900, 900)\<rparr>)
     = Some (get_pool_reserves ledger_web3
               ((new_market_maker ''market_maker_0'' ''0xM0'' (fl (5 / 10)))
                  \<lparr>initial_reserves := Some (900, 900)\<rparr>)
               \<lparr>pool_reserves = (900, 900), balances = (\<lambda>k. 0), blocks = 0\<rparr>) \<and>
   fst (calculate_impermanent_loss ledger_web3
          ((new_market_maker ''market_maker_0'' ''0xM0'' (fl (5 / 10)))
             \<lparr>initial_reserves := Some (900, 900)\<rparr>)
          \<lparr>pool_reserves = (900, 900), balances = (\<lambda>k. 0), blocks = 0\<rparr>) = Inr 0"
proof -
  let ?m = "(new_market_maker ''market_maker_0'' ''0xM0'' (fl (5 / 10)))
              \<lparr>initial_reserves := Some (900, 900)\<rparr>"
  let ?w = "\<lparr>pool_reserves = (900, 900), balances = (\<lambda>k. 0), blocks = 0\<rparr>"
  have same: "initial_reserves ?m = Some (get_pool_reserves ledger_web3 ?m ?w)"
    by (simp add: get_pool_reserves_def ledger_web3_def new_market_maker_def)
  from calculate_impermanent_loss_value[of ledger_web3 ?m ?w, THEN conjunct2, rule_format, OF same]
    same
  show ?thesis by blast
qed

section \<open>Optimal liquidity amounts on an empty pool\<close>

text \<open>
  C8, as stated, fails at the two ends of the range of the target ratio. On an empty
  pool a target ratio of 1 divides by \<open>1 - target_ratio\<close> and a target ratio of 0 by
  \<open>target_ratio\<close>; the function has no \<open>try\<close>, so it raises and returns no amounts.
\<close>

theorem calculate_optimal_liquidity_amounts_empty_pool_counterexample:
  "calculate_optimal_liquidity_amounts ledger_web3
     (new_market_maker ''market_maker_0'' ''0xM0'' 1) 1000 1000 funded_ledger
     = Inl (ZeroDivisionError ''float division by zero'') \<and>
   calculate_optimal_liquidity_amounts ledger_web3
     (new_market_maker ''market_maker_0'' ''0xM0'' 0) 1000 1000 funded_ledger
     = Inl (ZeroDivisionError ''float division by zero'')"
proof -
  have tr: "target_ratio (new_market_maker ''market_maker_0'' ''0xM0'' x) = x" for x
    by (simp add: new_market_maker_def)
  show ?thesis
    unfolding calculate_optimal_liquidity_amounts_empty[OF funded_ledger_reserves] tr by simp
qed

text \<open>
  C8, amended. When a reserve is zero and the target ratio lies strictly between 0 and 1,
  \<open>calculate_optimal_liquidity_amounts\<close> returns the amounts below: the value of both
  balances in token A at the target ratio, times the target ratio and the maximum
  liquidity ratio, truncated, for A; that amount converted back at the target ratio,
  truncated, for B; each clamped to the available balance. The balances are unsigned
  256-bit amounts and the maximum liquidity ratio lies between 0 and 1 (the constructor
  sets 0.9), which keeps every float of the computation in range. For 1000 and 1000
  available, a target ratio of 0.5 and a maximum liquidity ratio of 0.9 the result is
  (900, 900), whose quotient is exactly 1.0.
\<close>

theorem calculate_optimal_liquidity_amounts_empty_pool:
  assumes "fst (get_pool_reserves env m w) = 0 \<or> snd (get_pool_reserves env m w) = 0"
    and "0 < target_ratio m" and "target_ratio m < 1"
    and "0 \<le> max_liquidity_ratio m" and "max_liquidity_ratio m \<le> 1"
    and "available_a < 2 ^ 256" and "available_b < 2 ^ 256"
  shows "(\<exists>amount_a amount_b.
            calculate_optimal_liquidity_amounts env m available_a available_b w
              = Inr (amount_a, amount_b) \<and>
            amount_a \<le> int available_a \<and> amount_b \<le> int available_b \<and>
            amount_a =
              min (int_of_float
                     (fmul (fmul (fadd (float_of_int (int available_a))
                                       (fl (fmul (float_of_int (int available_b)) (target_ratio m)
                                            / fsub 1 (target_ratio m))))
                                 (target_ratio m))
                           (max_liquidity_ratio m)))
                  (int available_a) \<and>
            amount_b =
              min (int_of_float
                     (fl (fmul (float_of_int
                                  (int_of_float
                                     (fmul (fmul (fadd (float_of_int (int available_a))
                                                       (fl (fmul (float_of_int (int available_b))
                                                                 (target_ratio m)
                                                            / fsub 1 (target_ratio m))))
                                                 (target_ratio m))
                                           (max_liquidity_ratio m))))
                               (fsub 1 (target_ratio m))
                          / target_ratio m)))
                  (int available_b)) \<and>
         (target_ratio m = fl (5 / 10) \<and> max_liquidity_ratio m = fl (9 / 10) \<longrightarrow>
            calculate_optimal_liquidity_amounts env m 1000 1000 w = Inr (900, 900) \<and>
            int_truediv 900 900 = Inr 1)"
proof (intro conjI impI)
  show "\<exists>amount_a amount_b.
            calculate_optimal_liquidity_amounts env m available_a available_b w
              = Inr (amount_a, amount_b) \<and>
            amount_a \<le> int available_a \<and> amount_b \<le> int available_b \<and>
            amount_a =
              min (int_of_float
                     (fmul (fmul (fadd (float_of_int (int available_a))
                                       (fl (fmul (float_of_int (int available_b)) (target_ratio m)
                                            / fsub 1 (target_ratio m))))
                                 (target_ratio m))
                           (max_liquidity_ratio m)))
                  (int available_a) \<and>
            amount_b =
              min (int_of_float
                     (fl (fmul (float_of_int
                                  (int_of_float
                                     (fmul (fmul (fadd (float_of_int (int available_a))
                                                       (fl (fmul (float_of_int (int available_b))
                                                                 (target_ratio m)
                                                            / fsub 1 (target_ratio m))))
                                                 (target_ratio m))
                                           (max_liquidity_ratio m))))
                               (fsub 1 (target_ratio m))
                          / target_ratio m)))
                  (int available_b)"
    using assms(2,3)
    by (simp add: calculate_optimal_liquidity_amounts_empty[OF assms(1)] Let_def
        fmul_def fadd_def fsub_def float_of_int_def)
next
  assume "target_ratio m = fl (5 / 10) \<and> max_liquidity_ratio m = fl (9 / 10)"
  then show "calculate_optimal_liquidity_amounts env m 1000 1000 w = Inr (900, 900)"
    using calculate_optimal_liquidity_amounts_scenario[OF assms(1)] by blast
next
  show "int_truediv 900 900 = Inr 1" by (simp add: int_truediv_def)
qed

text \<open>
  The amended C8 on the test ledger with an empty pool: the market maker of the scenario.
\<close>

theorem calculate_optimal_liquidity_amounts_empty_pool_witness:
  "(fst (get_pool_reserves ledger_web3 (new_market_maker ''market_maker_0'' ''0xM0'' (fl (5 / 10)))
           funded_ledger) = 0 \<or>
    snd (get_pool_reserves ledger_web3 (new_market_maker ''market_maker_0'' ''0xM0'' (fl (5 / 10)))
           funded_ledger) = 0) \<and>
   target_ratio (new_market_maker ''market_maker_0'' ''0xM0'' (fl (5 / 10))) = fl (5 / 10) \<and>
   max_liquidity_ratio (new_market_maker ''market_maker_0'' ''0xM0'' (fl (5 / 10))) = fl (9 / 10) \<and>
   0 < fl (5 / 10) \<and> fl (5 / 10) < 1 \<and> 0 \<le> fl (9 / 10) \<and> fl (9 / 10) \<le> 1 \<and>
   (1000 :: nat) < 2 ^ 256 \<and>
   calculate_optimal_liquidity_amounts ledger_web3
     (new_market_maker ''market_maker_0'' ''0xM0'' (fl (5 / 10))) 1000 1000 funded_ledger
     = Inr (900, 900) \<and>
   (900::int) \<le> 1000 \<and> int_truediv 900 900 = Inr 1"
proof -
  let ?m = "new_market_maker ''market_maker_0'' ''0xM0'' (fl (5 / 10))"
  have empty: "fst (get_pool_reserves ledger_web3 ?m funded_ledger) = 0 \<or>
               snd (get_pool_reserves ledger_web3 ?m funded_ledger) = 0"
    by (rule funded_ledger_reserves)
  have tr: "target_ratio ?m = fl (5 / 10)" and mlr: "max_liquidity_ratio ?m = fl (9 / 10)"
    by (simp_all add: new_market_maker_def)
  have r: "0 < target_ratio ?m" "target_ratio ?m < 1"
    by (simp_all add: new_market_maker_def)
  have l: "0 \<le> max_liquidity_ratio ?m" "max_liquidity_ratio ?m \<le> 1"
    by (simp_all add: new_market_maker_def fl_9_10)
  have a: "(1000 :: nat) < 2 ^ 256" by simp
  have n: "0 < fl (5 / 10) \<and> fl (5 / 10) < 1 \<and> 0 \<le> fl (9 / 10) \<and> fl (9 / 10) \<le> 1"
    by (simp add: fl_9_10)
  from calculate_optimal_liquidity_amounts_empty_pool[OF empty r l a a, THEN conjunct2, rule_format,
      OF conjI[OF tr mlr]] empty tr mlr n a
  show ?thesis by simp
qed

text \<open>
  C10. With a zero reserve, \<open>calculate_optimal_liquidity_amounts\<close> raises
  \<open>ZeroDivisionError\<close> exactly when the target ratio is 0 or 1: at 1 in the first
  division, by \<open>1 - target_ratio\<close>, at 0 in the second, by \<open>target_ratio\<close>. So for a
  ratio in \<open>[0, 1]\<close> the clamped amounts are returned exactly when
  \<open>0 < target_ratio < 1\<close>.
\<close>

theorem calculate_optimal_liquidity_amounts_zero_division:
  assumes "fst (get_pool_reserves env m w) = 0 \<or> snd (get_pool_reserves env m w) = 0"
  shows "((\<exists>msg. calculate_optimal_liquidity_amounts env m available_a available_b w
                   = Inl (ZeroDivisionError msg))
            \<longleftrightarrow> target_ratio m = 0 \<or> target_ratio m = 1) \<and>
         (0 \<le> target_ratio m \<and> target_ratio m \<le> 1 \<longrightarrow>
            ((\<exists>amount_a amount_b.
                 calculate_optimal_liquidity_amounts env m available_a available_b w
                   = Inr (amount_a, amount_b) \<and>
                 amount_a \<le> int available_a \<and> amount_b \<le> int available_b)
               \<longleftrightarrow> 0 < target_ratio m \<and> target_ratio m < 1))"
  by (auto simp: calculate_optimal_liquidity_amounts_empty[OF assms] Let_def)

text \<open>
  C10 on the test ledger with an empty pool: target ratios 1 and 0 raise, 0.5 returns
  (900, 900).
\<close>

theorem calculate_optimal_liquidity_amounts_zero_division_witness:
  "(fst (get_pool_reserves ledger_web3 (new_market_maker ''market_maker_0'' ''0xM0'' 1)
           \<lparr>pool_reserves = (0, 0), balances = (\<lambda>k. 0), blocks = 0\<rparr>) = 0 \<or>
    snd (get_pool_reserves ledger_web3 (new_market_maker ''market_maker_0'' ''0xM0'' 1)
           \<lparr>pool_reserves = (0, 0), balances = (\<lambda>k. 0), blocks = 0\<rparr>) = 0) \<and>
   (\<exists>msg. calculate_optimal_liquidity_amounts ledger_web3
            (new_market_maker ''market_maker_0'' ''0xM0'' 1) 1000 1000
            \<lparr>pool_reserves = (0, 0), balances = (\<lambda>k. 0), blocks = 0\<rparr>
          = Inl (ZeroDivisionError msg)) \<and>
   (\<exists>msg. calculate_optimal_liquidity_amounts ledger_web3
            (new_market_maker ''market_maker_0'' ''0xM0'' 0) 1000 1000
            \<lparr>pool_reserves = (0, 0), balances = (\<lambda>k. 0), blocks = 0\<rparr>
          = Inl (ZeroDivisionError msg)) \<and>
   (\<exists>amount_a amount_b. calculate_optimal_liquidity_amounts ledger_web3
            (new_market_maker ''market_maker_0'' ''0xM0'' (1 / 2)) 1000 1000
            \<lparr>pool_reserves = (0, 0), balances = (\<lambda>k. 0), blocks = 0\<rparr>
          = Inr (amount_a, amount_b) \<and> amount_a \<le> 1000 \<and> amount_b \<le> 1000)"
proof -
  let ?w = "\<lparr>pool_reserves = (0, 0), balances = (\<lambda>k. 0), blocks = 0\<rparr>"
  have empty: "fst (get_pool_reserves ledger_web3 (new_market_maker ''market_maker_0'' ''0xM0'' r) ?w) = 0 \<or>
               snd (get_pool_reserves ledger_web3 (new_market_maker ''market_maker_0'' ''0xM0'' r) ?w) = 0"
    for r
    by (simp add: get_pool_reserves_def ledger_web3_def)
  have tr: "target_ratio (new_market_maker ''market_maker_0'' ''0xM0'' r) = r" for r
    by (simp add: new_market_maker_def)
  have one: "\<exists>msg. calculate_optimal_liquidity_amounts ledger_web3
            (new_market_maker ''market_maker_0'' ''0xM0'' 1) 1000 1000 ?w = Inl (ZeroDivisionError msg)"
    using calculate_optimal_liquidity_amounts_zero_division[OF empty, of 1 1000 1000, THEN conjunct1]
    by (simp add: tr)
  have zero: "\<exists>msg. calculate_optimal_liquidity_amounts ledger_web3
            (new_market_maker ''market_maker_0'' ''0xM0'' 0) 1000 1000 ?w = Inl (ZeroDivisionError msg)"
    using calculate_optimal_liquidity_amounts_zero_division[OF empty, of 0 1000 1000, THEN conjunct1]
    by (simp add: tr)
  have half: "\<exists>amount_a amount_b. calculate_optimal_liquidity_amounts ledger_web3
            (new_market_maker ''market_maker_0'' ''0xM0'' (1 / 2)) 1000 1000 ?w
          = Inr (amount_a, amount_b) \<and> amount_a \<le> 1000 \<and> amount_b \<le> 1000"
    using calculate_optimal_liquidity_amounts_zero_division[OF empty, of "1 / 2" 1000 1000,
        THEN conjunct2]
    by (simp add: tr)
  from empty[of 1] one zero half show ?thesis by blast
qed

section \<open>Transaction accounting\<close>

text \<open>
  C9. When \<open>send_transaction\<close> returns a hash, the transaction was sent, its receipt
  arrived with a status other than 0, and the agent differs from before only in
  \<open>nonce\<close> and \<open>transaction_count\<close>, one higher each, and \<open>total_gas_used\<close>, higher by
  the receipt's \<open>gasUsed\<close>. When it raises, the agent is unchanged. A failed
  submission, a failed wait for the receipt and a receipt with status 0 each make it
  raise.
\<close>

theorem send_transaction_accounting:
  "(\<forall>tx_hash a' w'. send_transaction env a transaction w = (Inr tx_hash, a', w') \<longrightarrow>
      (\<exists>cid w1 receipt.
         chain_id env w = Inr cid \<and>
         send_raw_transaction env
           (transaction\<lparr>tx_from := address a, tx_nonce := nonce a, tx_gas := gas_limit a,
                        tx_gasPrice := gas_price a, tx_chainId := cid\<rparr>) w = (Inr tx_hash, w1) \<and>
         wait_for_transaction_receipt env tx_hash w1 = (Inr receipt, w') \<and>
         status receipt \<noteq> 0 \<and>
         a' = a\<lparr>nonce := nonce a + 1, transaction_count := transaction_count a + 1,
                total_gas_used := total_gas_used a + gasUsed receipt\<rparr>)) \<and>
   (\<forall>e a' w'. send_transaction env a transaction w = (Inl e, a', w') \<longrightarrow>
      a' = a \<and> nonce a' = nonce a \<and> transaction_count a' = transaction_count a \<and>
      total_gas_used a' = total_gas_used a) \<and>
   (\<forall>cid e w1. chain_id env w = Inr cid \<and>
      send_raw_transaction env
        (transaction\<lparr>tx_from := address a, tx_nonce := nonce a, tx_gas := gas_limit a,
                     tx_gasPrice := gas_price a, tx_chainId := cid\<rparr>) w = (Inl e, w1) \<longrightarrow>
      send_transaction env a transaction w = (Inl e, a, w1)) \<and>
   (\<forall>cid tx_hash w1 e w2. chain_id env w = Inr cid \<and>
      send_raw_transaction env
        (transaction\<lparr>tx_from := address a, tx_nonce := nonce a, tx_gas := gas_limit a,
                     tx_gasPrice := gas_price a, tx_chainId := cid\<rparr>) w = (Inr tx_hash, w1) \<and>
      wait_for_transaction_receipt env tx_hash w1 = (Inl e, w2) \<longrightarrow>
      send_transaction env a transaction w = (Inl e, a, w2)) \<and>
   (\<forall>cid tx_hash w1 receipt w2. chain_id env w = Inr cid \<and>
      send_raw_transaction env
        (transaction\<lparr>tx_from := address a, tx_nonce := nonce a, tx_gas := gas_limit a,
                     tx_gasPrice := gas_price a, tx_chainId := cid\<rparr>) w = (Inr tx_hash, w1) \<and>
      wait_for_transaction_receipt env tx_hash w1 = (Inr receipt, w2) \<and> status receipt = 0 \<longrightarrow>
      send_transaction env a transaction w = (Inl (Exception ''Transaction failed''), a, w2))"
  by (auto simp: send_transaction_def Let_def split: sum.splits prod.splits if_splits)



text \<open>
  C9 on the test ledger: an approval that is mined, and the same approval on the ledger
  whose receipts report failure.
\<close>

theorem send_transaction_accounting_witness:
  "send_transaction ledger_web3 (new_market_maker ''market_maker_0'' ''0xM0'' (1 / 2))
     \<lparr>tx_call = Approve ''0xTEST'' ''0xAMM'' 900, tx_from = [], tx_nonce = 0, tx_gas = 0,
      tx_gasPrice = 0, tx_chainId = 0\<rparr>
     \<lparr>pool_reserves = (0, 0), balances = (\<lambda>k. 1000), blocks = 0\<rparr>
   = (Inr ''0x01'',
      (new_market_maker ''market_maker_0'' ''0xM0'' (1 / 2))
        \<lparr>nonce := 1, transaction_count := 1, total_gas_used := 21000\<rparr>,
      \<lparr>pool_reserves = (0, 0), balances = (\<lambda>k. 1000), blocks = 1\<rparr>) \<and>
   send_transaction failing_receipt_web3 (new_market_maker ''market_maker_0'' ''0xM0'' (1 / 2))
     \<lparr>tx_call = Approve ''0xTEST'' ''0xAMM'' 900, tx_from = [], tx_nonce = 0, tx_gas = 0,
      tx_gasPrice = 0, tx_chainId = 0\<rparr>
     \<lparr>pool_reserves = (0, 0), balances = (\<lambda>k. 1000), blocks = 0\<rparr>
   = (Inl (Exception ''Transaction failed''),
      new_market_maker ''market_maker_0'' ''0xM0'' (1 / 2),
      \<lparr>pool_reserves = (0, 0), balances = (\<lambda>k. 1000), blocks = 1\<rparr>)"
proof -
  let ?a = "new_market_maker ''market_maker_0'' ''0xM0'' (1 / 2)"
  let ?tx = "\<lparr>tx_call = Approve ''0xTEST'' ''0xAMM'' 900, tx_from = [], tx_nonce = 0, tx_gas = 0,
      tx_gasPrice = 0, tx_chainId = 0\<rparr>"
  let ?tx' = "?tx\<lparr>tx_from := address ?a, tx_nonce := nonce ?a, tx_gas := gas_limit ?a,
                   tx_gasPrice := gas_price ?a, tx_chainId := 1337\<rparr>"
  let ?w = "\<lparr>pool_reserves = (0, 0), balances = (\<lambda>k. 1000), blocks = 0\<rparr>"
  let ?w1 = "\<lparr>pool_reserves = (0, 0), balances = (\<lambda>k. 1000), blocks = 1\<rparr>"
  have ok: "send_transaction ledger_web3 ?a ?tx ?w
              = (Inr ''0x01'', ?a\<lparr>nonce := 1, transaction_count := 1, total_gas_used := 21000\<rparr>, ?w1)"
  proof -
    obtain h a' w' where r: "send_transaction ledger_web3 ?a ?tx ?w = (h, a', w')"
      by (cases "send_transaction ledger_web3 ?a ?tx ?w")
    have h: "h = Inr ''0x01''" and w': "w' = ?w1"
      using r by (simp_all add: send_transaction_def ledger_web3_def ledger_apply_def Let_def)
    from send_transaction_accounting[of ledger_web3 ?a ?tx ?w, THEN conjunct1, rule_format,
        OF r[unfolded h]]
    have "a' = ?a\<lparr>nonce := 1, transaction_count := 1, total_gas_used := 21000\<rparr>"
      by (auto simp: ledger_web3_def new_market_maker_def)
    with r h w' show ?thesis by simp
  qed
  have c: "chain_id failing_receipt_web3 ?w = Inr 1337"
    by (simp add: failing_receipt_web3_def ledger_web3_def)
  have s: "send_raw_transaction failing_receipt_web3 ?tx' ?w = (Inr ''0x01'', ?w1)"
    by (simp add: failing_receipt_web3_def ledger_web3_def ledger_apply_def)
  have t: "wait_for_transaction_receipt failing_receipt_web3 ''0x01'' ?w1
             = (Inr \<lparr>status = 0, gasUsed = 21000\<rparr>, ?w1)"
    by (simp add: failing_receipt_web3_def)
  have bad: "send_transaction failing_receipt_web3 ?a ?tx ?w
               = (Inl (Exception ''Transaction failed''), ?a, ?w1)"
    using send_transaction_accounting[of failing_receipt_web3 ?a ?tx ?w, THEN conjunct2,
        THEN conjunct2, THEN conjunct2, THEN conjunct2, rule_format, of 1337 "''0x01''" ?w1
        "\<lparr>status = 0, gasUsed = 21000\<rparr>" ?w1] c s t
    by simp
  from ok bad show ?thesis by blast
qed


section \<open>Swap quote\<close>

text \<open>
  C4. \<open>quoteOut\<close> fails with \<open>InvalidReserves\<close> when a reserve is zero. For positive
  reserves it returns the constant-product output for the input net of the fee, rounded
  down: the product of the reserves does not fall (the fee-scaled input reserve times
  the output reserve), the output is strictly below the output reserve, and a larger
  input never gives a smaller output.
\<close>

theorem quoteOut_properties:
  "(reserve_in = 0 \<or> reserve_out = 0 \<longrightarrow>
      quoteOut fee_bps amount_in reserve_in reserve_out = Inl InvalidReserves) \<and>
   (0 < reserve_in \<and> 0 < reserve_out \<longrightarrow>
      (\<exists>out. quoteOut fee_bps amount_in reserve_in reserve_out = Inr out \<and>
         out = amount_in * (10000 - fee_bps) * reserve_out
                 div (reserve_in * 10000 + amount_in * (10000 - fee_bps)) \<and>
         out < reserve_out \<and>
         reserve_in * 10000 * reserve_out
           \<le> (reserve_in * 10000 + amount_in * (10000 - fee_bps)) * (reserve_out - out) \<and>
         (\<forall>amount_in' out'. amount_in \<le> amount_in' \<and>
              quoteOut fee_bps amount_in' reserve_in reserve_out = Inr out' \<longrightarrow> out \<le> out')))"
proof (intro conjI impI)
  assume "reserve_in = 0 \<or> reserve_out = 0"
  then show "quoteOut fee_bps amount_in reserve_in reserve_out = Inl InvalidReserves"
    by (auto simp: quoteOut_def)
next
  assume pos: "0 < reserve_in \<and> 0 < reserve_out"
  let ?y = "amount_in * (10000 - fee_bps)"
  let ?out = "?y * reserve_out div (reserve_in * 10000 + ?y)"
  have d: "0 < reserve_in * 10000" using pos by simp
  have 1: "quoteOut fee_bps amount_in reserve_in reserve_out = Inr ?out"
    using pos by (simp add: quoteOut_def Let_def)
  have 2: "?out < reserve_out" using pos by (simp add: quote_lt)
  have 3: "reserve_in * 10000 * reserve_out \<le> (reserve_in * 10000 + ?y) * (reserve_out - ?out)"
    using quote_product[OF d] by simp
  have 4: "\<forall>amount_in' out'. amount_in \<le> amount_in' \<and>
              quoteOut fee_bps amount_in' reserve_in reserve_out = Inr out' \<longrightarrow> ?out \<le> out'"
  proof (intro allI impI)
    fix amount_in' out'
    assume a: "amount_in \<le> amount_in' \<and> quoteOut fee_bps amount_in' reserve_in reserve_out = Inr out'"
    then have "out' = amount_in' * (10000 - fee_bps) * reserve_out
                       div (reserve_in * 10000 + amount_in' * (10000 - fee_bps))"
      using pos by (simp add: quoteOut_def Let_def)
    moreover have "?y \<le> amount_in' * (10000 - fee_bps)" using a by simp
    ultimately show "?out \<le> out'" using quote_mono[OF _ d] by simp
  qed
  from 1 2 3 4 show "\<exists>out. quoteOut fee_bps amount_in reserve_in reserve_out = Inr out \<and>
         out = amount_in * (10000 - fee_bps) * reserve_out
                 div (reserve_in * 10000 + amount_in * (10000 - fee_bps)) \<and>
         out < reserve_out \<and>
         reserve_in * 10000 * reserve_out
           \<le> (reserve_in * 10000 + amount_in * (10000 - fee_bps)) * (reserve_out - out) \<and>
         (\<forall>amount_in' out'. amount_in \<le> amount_in' \<and>
              quoteOut fee_bps amount_in' reserve_in reserve_out = Inr out' \<longrightarrow> out \<le> out')"
    by blast
qed

text \<open>C4 at a pool of (1000, 1000) with a fee of 30 basis points.\<close>

theorem quoteOut_properties_witness:
  "quoteOut 30 100 0 1000 = Inl InvalidReserves \<and>
   quoteOut 30 100 1000 0 = Inl InvalidReserves \<and>
   quoteOut 30 100 1000 1000 = Inr 90 \<and> (90::nat) < 1000 \<and>
   quoteOut 30 200 1000 1000 = Inr 166 \<and> (90::nat) \<le> 166"
proof -
  have a: "quoteOut 30 100 0 1000 = Inl InvalidReserves"
    using quoteOut_properties[of 0 1000 30 100] by simp
  have b: "quoteOut 30 100 1000 0 = Inl InvalidReserves"
    using quoteOut_properties[of 1000 0 30 100] by simp
  have c: "quoteOut 30 100 1000 1000 = Inr 90"
    using quoteOut_properties[of 1000 1000 30 100] by simp
  have d: "quoteOut 30 200 1000 1000 = Inr 166"
    using quoteOut_properties[of 1000 1000 30 200] by simp
  have e: "(90::nat) \<le> 166"
    using quoteOut_properties[of 1000 1000 30 100, THEN conjunct2] c d by auto
  from a b c d e show ?thesis by simp
qed


section \<open>Fault isolation\<close>

text \<open>
  C1, as stated, fails in \<open>run_step\<close>: when \<open>step\<close> of an agent raises, the handler of
  the agent loop writes a log line and appends nothing. \<open>AgentBase.step\<close> is abstract
  and the loop runs over \<open>AgentBase\<close> objects; in the first tick below, of two agents of
  a subclass, the step of \<open>faulty_0\<close> raises. The step result holds the report of
  \<open>steady_1\<close> and no report for \<open>faulty_0\<close>, whose failure is in the log only. The same
  handler covers \<open>should_act\<close>: in the second tick, of the repository's own agents, the
  momentum trader has a lookback of -1, its \<open>should_act\<close> raises, and the step result
  holds the market maker's report alone.
\<close>

theorem run_step_fault_isolation_counterexample:
  "map_sum id result_agent_actions
     (fst (run_step ledger_web3 faulty_agents reserves_externals
             (new_runner [''faulty_0'', ''steady_1''] funded_ledger 5)))
     = Inr [trader_report ''steady_1''] \<and>
   report_agent_id (trader_report ''steady_1'') = ''steady_1'' \<and>
   error_log (snd (run_step ledger_web3 faulty_agents reserves_externals
                     (new_runner [''faulty_0'', ''steady_1''] funded_ledger 5)))
     = [(''faulty_0'', Exception ''boom'')] \<and>
   map_sum id (map report_agent_id \<circ> result_agent_actions)
     (fst (run_step ledger_web3 (simulator_agents ledger_web3) reserves_externals
             (new_runner
                [MarketMakerAgent (new_market_maker ''market_maker_0'' ''0xM0'' 1),
                 MomentumTraderAgent
                   ((new_momentum_trader ''momentum_trader_1'' ''0xT1'' [])
                      \<lparr>lookback_periods := - 1\<rparr>)]
                funded_ledger 5)))
     = Inr [''market_maker_0''] \<and>
   error_log
     (snd (run_step ledger_web3 (simulator_agents ledger_web3) reserves_externals
             (new_runner
                [MarketMakerAgent (new_market_maker ''market_maker_0'' ''0xM0'' 1),
                 MomentumTraderAgent
                   ((new_momentum_trader ''momentum_trader_1'' ''0xT1'' [])
                      \<lparr>lookback_periods := - 1\<rparr>)]
                funded_ledger 5)))
     = [(''momentum_trader_1'', IndexError ''list index out of range'')]"
proof -
  have first: "map_sum id result_agent_actions
     (fst (run_step ledger_web3 faulty_agents reserves_externals
             (new_runner [''faulty_0'', ''steady_1''] funded_ledger 5)))
     = Inr [trader_report ''steady_1''] \<and>
   report_agent_id (trader_report ''steady_1'') = ''steady_1'' \<and>
   error_log (snd (run_step ledger_web3 faulty_agents reserves_externals
                     (new_runner [''faulty_0'', ''steady_1''] funded_ledger 5)))
     = [(''faulty_0'', Exception ''boom'')]"
    by (simp add: run_step_def new_runner_def reserves_externals_def faulty_agents_def
        ledger_web3_def trader_report_def Let_def)
  obtain res r' where tick:
    "run_step ledger_web3 (simulator_agents ledger_web3)
       (reserves_externals :: (unit, ledger, nat \<times> nat, nat, nat) externals)
       (new_runner
          [MarketMakerAgent (new_market_maker ''market_maker_0'' ''0xM0'' 1),
           MomentumTraderAgent
             ((new_momentum_trader ''momentum_trader_1'' ''0xT1'' [])\<lparr>lookback_periods := - 1\<rparr>)]
          funded_ledger 5) = (Inr res, r')"
    "result_agent_actions res
       = [(market_maker_report (new_market_maker ''market_maker_0'' ''0xM0'' 1) [])
            \<lparr>report_error := Some ''float division by zero''\<rparr>]"
    "error_log r' = [(''momentum_trader_1'', IndexError ''list index out of range'')]"
    using negative_lookback_run_step by blast
  have second: "map_sum id (map report_agent_id \<circ> result_agent_actions)
     (fst (run_step ledger_web3 (simulator_agents ledger_web3) reserves_externals
             (new_runner
                [MarketMakerAgent (new_market_maker ''market_maker_0'' ''0xM0'' 1),
                 MomentumTraderAgent
                   ((new_momentum_trader ''momentum_trader_1'' ''0xT1'' [])
                      \<lparr>lookback_periods := - 1\<rparr>)]
                funded_ledger 5)))
     = Inr [''market_maker_0''] \<and>
   error_log
     (snd (run_step ledger_web3 (simulator_agents ledger_web3) reserves_externals
             (new_runner
                [MarketMakerAgent (new_market_maker ''market_maker_0'' ''0xM0'' 1),
                 MomentumTraderAgent
                   ((new_momentum_trader ''momentum_trader_1'' ''0xT1'' [])
                      \<lparr>lookback_periods := - 1\<rparr>)]
                funded_ledger 5)))
     = [(''momentum_trader_1'', IndexError ''list index out of range'')]"
    unfolding tick(1) by (simp add: tick(2,3) market_maker_report_def new_market_maker_def)
  from first second show ?thesis by blast
qed

text \<open>
  C1, amended. Take a tick in which the market state is read, the agents before \<open>a\<close>
  and after \<open>a\<close> are run without a \<open>KeyboardInterrupt\<close>, and the runner's calls after the
  loop succeed (the step metrics, \<open>get_performance_stats\<close> of every agent, the block
  number). Then \<open>run_step\<close> returns the step result and appends it to the history, and
  the result holds the reports of all other agents that acted, in registration order:
  when \<open>step\<close> of \<open>a\<close> raises an exception, or its \<open>should_act\<close> does, there is no
  report for \<open>a\<close> and the log gains a line with the agent's id and the exception; when
  \<open>step\<close> returns a report, the report stands between those of the agents before and
  after. \<open>MarketMaker.step\<close> and \<open>MomentumTrader.step\<close> never raise an exception to
  the scheduler: each returns a report under the agent's id, whose error is \<open>str(e)\<close>
  exactly when, for the market maker (its target ratio and maximum liquidity ratio
  between 0 and 1), the agent holds tokens and no LP position and
  \<open>calculate_optimal_liquidity_amounts\<close> raises \<open>e\<close>, and for the momentum trader,
  \<open>calculate_momentum\<close> raises \<open>e\<close>.
\<close>

theorem run_step_fault_isolation:
  fixes m :: market_maker and t :: momentum_trader
  assumes ms: "get_current_market_state ext (world r) = Inr md"
    and ags: "agents r = before @ a # after"
    and b: "run_agents cls md before (world r) = (None, before', w1, actions1, log1)"
    and af: "run_agents cls md after w3 = (None, after', w', actions2, log2)"
    and sm: "\<And>acts. \<exists>metrics. calculate_step_metrics ext (current_step r) acts md w' = Inr metrics"
    and cp: "collect_performance cls (before' @ a2 # after') w' = (Inr perf, ags2)"
    and bn: "block_number env w' = Inr n"
  shows "(should_act cls a md w1 = (Inr True, a1, w2) \<and> step cls a1 md w2 = (Inl (Exc e), a2, w3) \<longrightarrow>
            (\<exists>res r'. run_step env cls ext r = (Inr res, r') \<and>
               result_agent_actions res = actions1 @ actions2 \<and>
               result_agent_performance res = perf \<and>
               error_log r' = error_log r @ log1 @ (agent_id_of cls a2, e) # log2 \<and>
               step_results r' = step_results r @ [res])) \<and>
         (should_act cls a md w1 = (Inl (Exc e), a2, w3) \<longrightarrow>
            (\<exists>res r'. run_step env cls ext r = (Inr res, r') \<and>
               result_agent_actions res = actions1 @ actions2 \<and>
               result_agent_performance res = perf \<and>
               error_log r' = error_log r @ log1 @ (agent_id_of cls a2, e) # log2 \<and>
               step_results r' = step_results r @ [res])) \<and>
         (should_act cls a md w1 = (Inr True, a1, w2) \<and> step cls a1 md w2 = (Inr report, a2, w3) \<longrightarrow>
            (\<exists>res r'. run_step env cls ext r = (Inr res, r') \<and>
               result_agent_actions res = actions1 @ report # actions2 \<and>
               result_agent_performance res = perf \<and>
               error_log r' = error_log r @ log1 @ log2 \<and>
               step_results r' = step_results r @ [res])) \<and>
         (\<exists>mm_report m1 wm.
            step (simulator_agents chain) (MarketMakerAgent m) market_data wm0
              = (Inr mm_report, MarketMakerAgent m1, wm) \<and>
            report_agent_id mm_report = agent_id m \<and>
            (0 \<le> target_ratio m \<and> target_ratio m \<le> 1 \<and>
             0 \<le> max_liquidity_ratio m \<and> max_liquidity_ratio m \<le> 1 \<longrightarrow>
             report_error mm_report =
               (case get_lp_balance chain m wm0 of
                  (lp_balance, m0) \<Rightarrow>
                    if lp_balance = 0 \<and>
                       (get_token_balance chain m (token_a_address m) wm0 > 0 \<or>
                        get_token_balance chain m (token_b_address m) wm0 > 0)
                    then (case calculate_optimal_liquidity_amounts chain m0
                                 (get_token_balance chain m (token_a_address m) wm0)
                                 (get_token_balance chain m (token_b_address m) wm0) wm0 of
                            Inl e \<Rightarrow> Some (str_exn e)
                          | Inr amounts \<Rightarrow> None)
                    else None))) \<and>
         (\<exists>mt_report t1 wt.
            step (simulator_agents chain) (MomentumTraderAgent t) market_data wt0
              = (Inr mt_report, MomentumTraderAgent t1, wt) \<and>
            report_agent_id mt_report = agent_id t \<and>
            report_error mt_report =
              (case calculate_momentum t of Inl e \<Rightarrow> Some (str_exn e) | Inr x \<Rightarrow> None))"
proof (intro conjI impI)
  assume "should_act cls a md w1 = (Inr True, a1, w2) \<and> step cls a1 md w2 = (Inl (Exc e), a2, w3)"
  then have "run_agents cls md (a # after) w1
               = (None, a2 # after', w', actions2, (agent_id_of cls a2, e) # log2)"
    using af by simp
  then have "run_agents cls md (agents r) (world r)
               = (None, before' @ a2 # after', w', actions1 @ actions2,
                  log1 @ (agent_id_of cls a2, e) # log2)"
    using b ags by (simp add: run_agents_append)
  from run_step_record[OF ms this sm cp bn]
  show "\<exists>res r'. run_step env cls ext r = (Inr res, r') \<and>
               result_agent_actions res = actions1 @ actions2 \<and>
               result_agent_performance res = perf \<and>
               error_log r' = error_log r @ log1 @ (agent_id_of cls a2, e) # log2 \<and>
               step_results r' = step_results r @ [res]"
    by blast
next
  assume "should_act cls a md w1 = (Inl (Exc e), a2, w3)"
  then have "run_agents cls md (a # after) w1
               = (None, a2 # after', w', actions2, (agent_id_of cls a2, e) # log2)"
    using af by simp
  then have "run_agents cls md (agents r) (world r)
               = (None, before' @ a2 # after', w', actions1 @ actions2,
                  log1 @ (agent_id_of cls a2, e) # log2)"
    using b ags by (simp add: run_agents_append)
  from run_step_record[OF ms this sm cp bn]
  show "\<exists>res r'. run_step env cls ext r = (Inr res, r') \<and>
               result_agent_actions res = actions1 @ actions2 \<and>
               result_agent_performance res = perf \<and>
               error_log r' = error_log r @ log1 @ (agent_id_of cls a2, e) # log2 \<and>
               step_results r' = step_results r @ [res]"
    by blast
next
  assume "should_act cls a md w1 = (Inr True, a1, w2) \<and> step cls a1 md w2 = (Inr report, a2, w3)"
  then have "run_agents cls md (a # after) w1
               = (None, a2 # after', w', report # actions2, log2)"
    using af by simp
  then have "run_agents cls md (agents r) (world r)
               = (None, before' @ a2 # after', w', actions1 @ report # actions2, log1 @ log2)"
    using b ags by (simp add: run_agents_append)
  from run_step_record[OF ms this sm cp bn]
  show "\<exists>res r'. run_step env cls ext r = (Inr res, r') \<and>
               result_agent_actions res = actions1 @ report # actions2 \<and>
               result_agent_performance res = perf \<and>
               error_log r' = error_log r @ log1 @ log2 \<and>
               step_results r' = step_results r @ [res]"
    by blast
next
  obtain mm_report m1 wm where st: "market_maker_step chain m market_data wm0 = (mm_report, m1, wm)"
    by (cases "market_maker_step chain m market_data wm0")
  have "step (simulator_agents chain) (MarketMakerAgent m) market_data wm0
          = (Inr mm_report, MarketMakerAgent m1, wm)"
    using st by (simp add: simulator_agents_def)
  moreover have "report_agent_id mm_report = agent_id m"
    using market_maker_step_report[of chain m market_data wm0] st by simp
  moreover have "report_error mm_report =
              (case get_lp_balance chain m wm0 of
                 (lp_balance, m0) \<Rightarrow>
                   if lp_balance = 0 \<and>
                      (get_token_balance chain m (token_a_address m) wm0 > 0 \<or>
                       get_token_balance chain m (token_b_address m) wm0 > 0)
                   then (case calculate_optimal_liquidity_amounts chain m0
                                (get_token_balance chain m (token_a_address m) wm0)
                                (get_token_balance chain m (token_b_address m) wm0) wm0 of
                           Inl e \<Rightarrow> Some (str_exn e)
                         | Inr amounts \<Rightarrow> None)
                   else None)"
    using market_maker_step_report[of chain m market_data wm0] st by simp
  ultimately show "\<exists>mm_report m1 wm.
            step (simulator_agents chain) (MarketMakerAgent m) market_data wm0
              = (Inr mm_report, MarketMakerAgent m1, wm) \<and>
            report_agent_id mm_report = agent_id m \<and>
            (0 \<le> target_ratio m \<and> target_ratio m \<le> 1 \<and>
             0 \<le> max_liquidity_ratio m \<and> max_liquidity_ratio m \<le> 1 \<longrightarrow>
             report_error mm_report =
               (case get_lp_balance chain m wm0 of
                  (lp_balance, m0) \<Rightarrow>
                    if lp_balance = 0 \<and>
                       (get_token_balance chain m (token_a_address m) wm0 > 0 \<or>
                        get_token_balance chain m (token_b_address m) wm0 > 0)
                    then (case calculate_optimal_liquidity_amounts chain m0
                                 (get_token_balance chain m (token_a_address m) wm0)
                                 (get_token_balance chain m (token_b_address m) wm0) wm0 of
                            Inl e \<Rightarrow> Some (str_exn e)
                          | Inr amounts \<Rightarrow> None)
                    else None))"
    by blast
next
  obtain mt_report t1 wt where st: "momentum_step chain t market_data wt0 = (mt_report, t1, wt)"
    by (cases "momentum_step chain t market_data wt0")
  have "step (simulator_agents chain) (MomentumTraderAgent t) market_data wt0
          = (Inr mt_report, MomentumTraderAgent t1, wt)"
    using st by (simp add: simulator_agents_def)
  moreover have "report_agent_id mt_report = agent_id t"
    using momentum_step_report[of chain t market_data wt0] st by simp
  moreover have "report_error mt_report =
              (case calculate_momentum t of Inl e \<Rightarrow> Some (str_exn e) | Inr x \<Rightarrow> None)"
    using momentum_step_report[of chain t market_data wt0] st by simp
  ultimately show "\<exists>mt_report t1 wt.
            step (simulator_agents chain) (MomentumTraderAgent t) market_data wt0
              = (Inr mt_report, MomentumTraderAgent t1, wt) \<and>
            report_agent_id mt_report = agent_id t \<and>
            report_error mt_report =
              (case calculate_momentum t of Inl e \<Rightarrow> Some (str_exn e) | Inr x \<Rightarrow> None)"
    by blast
qed

text \<open>
  The amended C1 on the test ledger. A tick of three agents of which the second raises
  in \<open>step\<close>. A tick of the repository's agents: a market maker with target ratio 1
  facing an empty pool, whose report carries the division by zero and is recorded, and a
  momentum trader with a lookback of -1, whose \<open>should_act\<close> raises the index error,
  which is logged. The same momentum trader's \<open>step\<close>, whose report carries the index
  error.
\<close>

theorem run_step_fault_isolation_witness:
  "(\<exists>res r'.
      run_step ledger_web3 faulty_agents
        (reserves_externals :: (unit, ledger, nat \<times> nat, nat, nat) externals)
        (new_runner [''steady_0'', ''faulty_1'', ''steady_2''] funded_ledger 5) = (Inr res, r') \<and>
      step faulty_agents ''faulty_1'' (0::nat, 0::nat) funded_ledger
        = (Inl (Exc (Exception ''boom'')), ''faulty_1'', funded_ledger) \<and>
      result_agent_actions res = [trader_report ''steady_0'', trader_report ''steady_2''] \<and>
      error_log r' = [(''faulty_1'', Exception ''boom'')] \<and>
      step_results r' = [res]) \<and>
   (\<exists>res r'.
      run_step ledger_web3 (simulator_agents ledger_web3)
        (reserves_externals :: (unit, ledger, nat \<times> nat, nat, nat) externals)
        (new_runner
           [MarketMakerAgent (new_market_maker ''market_maker_0'' ''0xM0'' 1),
            MomentumTraderAgent
              ((new_momentum_trader ''momentum_trader_1'' ''0xT1'' [])\<lparr>lookback_periods := - 1\<rparr>)]
           funded_ledger 5) = (Inr res, r') \<and>
      result_agent_actions res
        = [(market_maker_report (new_market_maker ''market_maker_0'' ''0xM0'' 1) [])
             \<lparr>report_error := Some ''float division by zero''\<rparr>] \<and>
      error_log r' = [(''momentum_trader_1'', IndexError ''list index out of range'')] \<and>
      step_results r' = [res]) \<and>
   0 \<le> target_ratio (new_market_maker ''market_maker_0'' ''0xM0'' 1) \<and>
   target_ratio (new_market_maker ''market_maker_0'' ''0xM0'' 1) \<le> 1 \<and>
   0 \<le> max_liquidity_ratio (new_market_maker ''market_maker_0'' ''0xM0'' 1) \<and>
   max_liquidity_ratio (new_market_maker ''market_maker_0'' ''0xM0'' 1) \<le> 1 \<and>
   (\<exists>mm_report m1 wm.
      step (simulator_agents ledger_web3)
        (MarketMakerAgent (new_market_maker ''market_maker_0'' ''0xM0'' 1)) () funded_ledger
        = (Inr mm_report, MarketMakerAgent m1, wm) \<and>
      report_agent_id mm_report = ''market_maker_0'' \<and>
      report_error mm_report = Some ''float division by zero'') \<and>
   (\<exists>mt_report t1 wt.
      step (simulator_agents ledger_web3)
        (MomentumTraderAgent
           ((new_momentum_trader ''momentum_trader_1'' ''0xT1'' [1])\<lparr>lookback_periods := - 1\<rparr>))
        () funded_ledger
        = (Inr mt_report, MomentumTraderAgent t1, wt) \<and>
      report_agent_id mt_report = ''momentum_trader_1'' \<and>
      report_error mt_report = Some ''list index out of range'')"
proof -
  let ?ext = "reserves_externals :: (unit, ledger, nat \<times> nat, nat, nat) externals"
  let ?m = "new_market_maker ''market_maker_0'' ''0xM0'' 1"
  let ?t = "(new_momentum_trader ''momentum_trader_1'' ''0xT1'' [1])\<lparr>lookback_periods := - 1\<rparr>"
  have bn: "block_number ledger_web3 funded_ledger = Inr 0"
    by (simp add: ledger_web3_def funded_ledger_def)
  have sm: "\<And>acts. \<exists>metrics.
              calculate_step_metrics ?ext (current_step run) acts (0, 0) funded_ledger = Inr metrics"
    for run :: "(unit, 'x, ledger, nat \<times> nat, nat) simulation_runner"
    by (simp add: reserves_externals_def)
  have mom: "calculate_momentum ?t = Inl (IndexError ''list index out of range'')"
    by (simp add: calculate_momentum_def new_momentum_trader_def slice_from_def)
  have idt: "agent_id ?t = ''momentum_trader_1''" by (simp add: new_momentum_trader_def)

  let ?cls = "faulty_agents :: (string, ledger, nat \<times> nat) agent_methods"
  let ?run = "new_runner [''steady_0'', ''faulty_1'', ''steady_2''] funded_ledger 5
                :: (unit, string, ledger, nat \<times> nat, nat) simulation_runner"
  have ms: "get_current_market_state ?ext (world ?run) = Inr (0, 0)"
    by (simp add: reserves_externals_def new_runner_def funded_ledger_def)
  have ags: "agents ?run = [''steady_0''] @ ''faulty_1'' # [''steady_2'']"
    by (simp add: new_runner_def)
  have b: "run_agents ?cls (0, 0) [''steady_0''] (world ?run)
             = (None, [''steady_0''], funded_ledger, [trader_report ''steady_0''], [])"
    by (simp add: faulty_agents_def new_runner_def)
  have af: "run_agents ?cls (0, 0) [''steady_2''] funded_ledger
             = (None, [''steady_2''], funded_ledger, [trader_report ''steady_2''], [])"
    by (simp add: faulty_agents_def)
  have cp: "collect_performance ?cls ([''steady_0''] @ ''faulty_1'' # [''steady_2'']) funded_ledger
              = (Inr [(''steady_0'', idle_stats ''steady_0''), (''faulty_1'', idle_stats ''faulty_1''),
                      (''steady_2'', idle_stats ''steady_2'')],
                 [''steady_0'', ''faulty_1'', ''steady_2''])"
    by (simp add: faulty_agents_def)
  have s: "should_act ?cls ''faulty_1'' (0, 0) funded_ledger = (Inr True, ''faulty_1'', funded_ledger)"
    by (simp add: faulty_agents_def)
  have st: "step ?cls ''faulty_1'' (0, 0) funded_ledger
              = (Inl (Exc (Exception ''boom'')), ''faulty_1'', funded_ledger)"
    by (simp add: faulty_agents_def)
  note th = run_step_fault_isolation[OF ms ags b af sm cp bn,
      of "''faulty_1''" funded_ledger "Exception ''boom''" _ ledger_web3 ?m "()" funded_ledger ?t
      funded_ledger]
  have tick: "\<exists>res r'.
      run_step ledger_web3 ?cls ?ext ?run = (Inr res, r') \<and>
      step ?cls ''faulty_1'' (0, 0) funded_ledger
        = (Inl (Exc (Exception ''boom'')), ''faulty_1'', funded_ledger) \<and>
      result_agent_actions res = [trader_report ''steady_0'', trader_report ''steady_2''] \<and>
      error_log r' = [(''faulty_1'', Exception ''boom'')] \<and>
      step_results r' = [res]"
    using th[THEN conjunct1, rule_format, OF conjI[OF s st]] st
    by (auto simp: faulty_agents_def new_runner_def)
  have bounds: "0 \<le> target_ratio ?m \<and> target_ratio ?m \<le> 1 \<and>
                0 \<le> max_liquidity_ratio ?m \<and> max_liquidity_ratio ?m \<le> 1"
    by (simp add: new_market_maker_def fl_9_10)
  have lp: "get_lp_balance ledger_web3 ?m funded_ledger = (0, ?m\<lparr>lp_token_balance := 0\<rparr>)"
    by (simp add: get_lp_balance_def ledger_web3_def new_market_maker_def funded_ledger_def)
  have bal: "get_token_balance ledger_web3 ?m (token_a_address ?m) funded_ledger = 1000"
            "get_token_balance ledger_web3 ?m (token_b_address ?m) funded_ledger = 1000"
    by (simp_all add: get_token_balance_def ledger_web3_def new_market_maker_def funded_ledger_def)
  have opt: "calculate_optimal_liquidity_amounts ledger_web3 (?m\<lparr>lp_token_balance := 0\<rparr>)
               1000 1000 funded_ledger
               = Inl (ZeroDivisionError ''float division by zero'')"
  proof -
    have tr: "target_ratio (?m\<lparr>lp_token_balance := 0\<rparr>) = 1"
      by (simp add: new_market_maker_def)
    show ?thesis
      unfolding calculate_optimal_liquidity_amounts_empty[OF funded_ledger_reserves] tr by simp
  qed
  have idm: "agent_id ?m = ''market_maker_0''" by (simp add: new_market_maker_def)
  obtain mm_report m1 wm where mmr:
    "step (simulator_agents ledger_web3) (MarketMakerAgent ?m) () funded_ledger
       = (Inr mm_report, MarketMakerAgent m1, wm)"
    "report_agent_id mm_report = agent_id ?m"
    "0 \<le> target_ratio ?m \<and> target_ratio ?m \<le> 1 \<and>
     0 \<le> max_liquidity_ratio ?m \<and> max_liquidity_ratio ?m \<le> 1 \<longrightarrow>
     report_error mm_report =
       (case get_lp_balance ledger_web3 ?m funded_ledger of
          (lp_balance, m0) \<Rightarrow>
            if lp_balance = 0 \<and>
               (get_token_balance ledger_web3 ?m (token_a_address ?m) funded_ledger > 0 \<or>
                get_token_balance ledger_web3 ?m (token_b_address ?m) funded_ledger > 0)
            then (case calculate_optimal_liquidity_amounts ledger_web3 m0
                         (get_token_balance ledger_web3 ?m (token_a_address ?m) funded_ledger)
                         (get_token_balance ledger_web3 ?m (token_b_address ?m) funded_ledger)
                         funded_ledger of
                    Inl e \<Rightarrow> Some (str_exn e)
                  | Inr amounts \<Rightarrow> None)
            else None)"
    using th[THEN conjunct2, THEN conjunct2, THEN conjunct2, THEN conjunct1] by blast
  have "report_error mm_report = Some ''float division by zero''"
    using mmr(3)[THEN mp, OF bounds] unfolding lp bal by (simp add: opt)
  then have mm: "\<exists>mm_report m1 wm.
      step (simulator_agents ledger_web3) (MarketMakerAgent ?m) () funded_ledger
        = (Inr mm_report, MarketMakerAgent m1, wm) \<and>
      report_agent_id mm_report = ''market_maker_0'' \<and>
      report_error mm_report = Some ''float division by zero''"
    using mmr(1,2) idm by auto
  have mt: "\<exists>mt_report t1 wt.
      step (simulator_agents ledger_web3) (MomentumTraderAgent ?t) () funded_ledger
        = (Inr mt_report, MomentumTraderAgent t1, wt) \<and>
      report_agent_id mt_report = ''momentum_trader_1'' \<and>
      report_error mt_report = Some ''list index out of range''"
    using th[THEN conjunct2, THEN conjunct2, THEN conjunct2, THEN conjunct2] unfolding mom idt
    by auto

  let ?sim = "simulator_agents ledger_web3 :: (agent, ledger, nat \<times> nat) agent_methods"
  let ?neg = "(new_momentum_trader ''momentum_trader_1'' ''0xT1'' [])\<lparr>lookback_periods := - 1\<rparr>"
  let ?neg' = "(new_momentum_trader ''momentum_trader_1'' ''0xT1'' [])
                 \<lparr>lookback_periods := - 1, price_history := []\<rparr>"
  let ?rep = "(market_maker_report ?m [])\<lparr>report_error := Some ''float division by zero''\<rparr>"
  let ?run2 = "new_runner [MarketMakerAgent ?m, MomentumTraderAgent ?neg] funded_ledger 5
                :: (unit, agent, ledger, nat \<times> nat, nat) simulation_runner"
  have ms2: "get_current_market_state ?ext (world ?run2) = Inr (0, 0)"
    by (simp add: reserves_externals_def new_runner_def funded_ledger_def)
  have ags2: "agents ?run2 = [MarketMakerAgent ?m] @ MomentumTraderAgent ?neg # []"
    by (simp add: new_runner_def)
  have b2: "run_agents ?sim (0, 0) [MarketMakerAgent ?m] (world ?run2)
              = (None, [MarketMakerAgent (?m\<lparr>lp_token_balance := 0\<rparr>)], funded_ledger, [?rep], [])"
    by (simp add: new_runner_def simulator_agents_def market_maker_should_act_unit_ratio
        market_maker_step_unit_ratio)
  have af2: "run_agents ?sim (0, 0) [] funded_ledger = (None, [], funded_ledger, [], [])"
    by simp
  have s2: "should_act ?sim (MomentumTraderAgent ?neg) (0, 0) funded_ledger
              = (Inl (Exc (IndexError ''list index out of range'')), MomentumTraderAgent ?neg',
                 funded_ledger)"
    by (simp add: simulator_agents_def momentum_should_act_negative_lookback lift_exn_def)
  obtain perf after_perf where cp2:
    "collect_performance ?sim
       ([MarketMakerAgent (?m\<lparr>lp_token_balance := 0\<rparr>)] @ MomentumTraderAgent ?neg' # [])
       funded_ledger = (Inr perf, after_perf)"
    using collect_performance_encodable[of ?sim
        "[MarketMakerAgent (?m\<lparr>lp_token_balance := 0\<rparr>)] @ MomentumTraderAgent ?neg' # []"
        funded_ledger]
      simulator_agents_performance by blast
  have id2: "agent_id_of ?sim (MomentumTraderAgent ?neg') = ''momentum_trader_1''"
    by (simp add: simulator_agents_def new_momentum_trader_def)
  note th2 = run_step_fault_isolation[OF ms2 ags2 b2 af2 sm cp2 bn,
      of _ _ "IndexError ''list index out of range''" _ ledger_web3 ?m "()" funded_ledger ?t
      funded_ledger]
  have tick2: "\<exists>res r'.
      run_step ledger_web3 ?sim ?ext ?run2 = (Inr res, r') \<and>
      result_agent_actions res = [?rep] \<and>
      error_log r' = [(''momentum_trader_1'', IndexError ''list index out of range'')] \<and>
      step_results r' = [res]"
    using th2[THEN conjunct2, THEN conjunct1, rule_format, OF s2] unfolding id2
    by (auto simp: new_runner_def)
  from tick tick2 bounds mm mt show ?thesis by blast
qed


section \<open>Snapshot and live reads\<close>

text \<open>
  C2, as stated, fails: an agent's decision logic sees what the agents before it did to
  the pool in the same tick. The tick starts on an empty pool, which is what the
  snapshot records (reserves (0, 0), where the pool price reads 0). The market maker
  adds liquidity; the momentum trader's \<open>should_act\<close> then reads the price 1.0 of the
  pool as the market maker left it, and keeps it in its history.
\<close>

theorem run_step_snapshot_counterexample:
  "\<exists>res r' m t.
     run_step ledger_web3 (simulator_agents ledger_web3) reserves_externals
       (new_runner
          [MarketMakerAgent (new_market_maker ''market_maker_0'' ''0xM0'' (1 / 2)),
           MomentumTraderAgent (new_momentum_trader ''momentum_trader_1'' ''0xT1'' [])]
          funded_ledger 5)
       = (Inr res, r') \<and>
     result_market_data res = (0, 0) \<and>
     agents r' = [MarketMakerAgent m, MomentumTraderAgent t] \<and>
     price_history t = [1] \<and>
     get_pool_price ledger_web3 (new_momentum_trader ''momentum_trader_1'' ''0xT1'' [])
       funded_ledger = 0"
  by (rule funded_run_step)

text \<open>
  C2, amended. \<open>run_step\<close> reads the market state once and passes that one value to
  every agent and into the step result. The decision logic does not use it:
  \<open>should_act\<close> and \<open>step\<close> of the market maker and of the momentum trader return the
  same for any two snapshots, since they read balances and reserves from the ledger at
  the moment they run; the price the momentum trader appends is the pool price of the
  ledger state it is called in.
\<close>

theorem run_step_snapshot_amended:
  "market_maker_should_act env m md w = market_maker_should_act env m md' w \<and>
   market_maker_step env m md w = market_maker_step env m md' w \<and>
   momentum_should_act env t md w = momentum_should_act env t md' w \<and>
   momentum_step env t md w = momentum_step env t md' w \<and>
   (get_current_market_state ext (world r) = Inr snapshot \<and>
    run_step env2 cls ext r = (Inr res, r') \<longrightarrow>
      result_market_data res = snapshot \<and>
      (\<exists>ags wa lg. run_agents cls snapshot (agents r) (world r)
                      = (None, ags, wa, result_agent_actions res, lg))) \<and>
   (0 < lookback_periods t \<longrightarrow>
      last (price_history (snd (momentum_should_act env t md w))) = get_pool_price env t w)"
proof (intro conjI impI)
  show "market_maker_should_act env m md w = market_maker_should_act env m md' w"
    unfolding market_maker_should_act_def should_rebalance_def ..
  show "market_maker_step env m md w = market_maker_step env m md' w"
    unfolding market_maker_step_def should_rebalance_def ..
  show "momentum_should_act env t md w = momentum_should_act env t md' w"
    unfolding momentum_should_act_def ..
  show "momentum_step env t md w = momentum_step env t md' w"
    unfolding momentum_step_def ..
next
  assume a: "get_current_market_state ext (world r) = Inr snapshot \<and>
    run_step env2 cls ext r = (Inr res, r')"
  then show "result_market_data res = snapshot"
    by (auto simp: run_step_def Let_def split: prod.splits sum.splits option.splits)
  from a show "\<exists>ags wa lg. run_agents cls snapshot (agents r) (world r)
                      = (None, ags, wa, result_agent_actions res, lg)"
    by (auto simp: run_step_def Let_def split: prod.splits sum.splits option.splits)
next
  assume "0 < lookback_periods t"
  then show "last (price_history (snd (momentum_should_act env t md w))) = get_pool_price env t w"
    by (rule momentum_should_act_last)
qed


text \<open>
  The amended C2 on the tick above: the snapshot of the step result is the one read at
  the start, and the momentum trader called after the market maker's addition
  observes the price 1.
\<close>

theorem run_step_snapshot_amended_witness:
  "get_current_market_state
     (reserves_externals :: (unit, ledger, nat \<times> nat, nat, nat) externals)
     (world (new_runner
          [MarketMakerAgent (new_market_maker ''market_maker_0'' ''0xM0'' (1 / 2)),
           MomentumTraderAgent (new_momentum_trader ''momentum_trader_1'' ''0xT1'' [])]
          funded_ledger 5 :: (unit, agent, ledger, nat \<times> nat, nat) simulation_runner))
     = Inr (0, 0) \<and>
   (\<exists>res r'.
      run_step ledger_web3 (simulator_agents ledger_web3) reserves_externals
       (new_runner
          [MarketMakerAgent (new_market_maker ''market_maker_0'' ''0xM0'' (1 / 2)),
           MomentumTraderAgent (new_momentum_trader ''momentum_trader_1'' ''0xT1'' [])]
          funded_ledger 5) = (Inr res, r') \<and>
      result_market_data res = (0, 0)) \<and>
   0 < lookback_periods (new_momentum_trader ''momentum_trader_1'' ''0xT1'' []) \<and>
   get_pool_price ledger_web3 (new_momentum_trader ''momentum_trader_1'' ''0xT1'' []) traded_ledger = 1 \<and>
   last (price_history (snd (momentum_should_act ledger_web3
           (new_momentum_trader ''momentum_trader_1'' ''0xT1'' []) () traded_ledger))) = 1"
proof -
  let ?r = "new_runner
          [MarketMakerAgent (new_market_maker ''market_maker_0'' ''0xM0'' (1 / 2)),
           MomentumTraderAgent (new_momentum_trader ''momentum_trader_1'' ''0xT1'' [])]
          funded_ledger 5 :: (unit, agent, ledger, nat \<times> nat, nat) simulation_runner"
  let ?t = "new_momentum_trader ''momentum_trader_1'' ''0xT1'' []"
  have ms: "get_current_market_state
              (reserves_externals :: (unit, ledger, nat \<times> nat, nat, nat) externals) (world ?r)
            = Inr (0, 0)"
    by (simp add: reserves_externals_def new_runner_def funded_ledger_def)
  obtain res r' where rs:
    "run_step ledger_web3 (simulator_agents ledger_web3)
       (reserves_externals :: (unit, ledger, nat \<times> nat, nat, nat) externals) ?r = (Inr res, r')"
    using funded_run_step by blast
  have md: "result_market_data res = (0, 0)"
    using run_step_snapshot_amended[of _ _ _ _ _ _ reserves_externals ?r "(0, 0)" ledger_web3
        "simulator_agents ledger_web3" res r', THEN conjunct2, THEN conjunct2, THEN conjunct2,
        THEN conjunct2, THEN conjunct1] ms rs
    by blast
  have lb: "0 < lookback_periods ?t" by (simp add: new_momentum_trader_def)
  have price: "get_pool_price ledger_web3 ?t traded_ledger = 1"
    by (simp add: get_pool_price_def ledger_web3_def traded_ledger_def int_truediv_def)
  have obs: "last (price_history (snd (momentum_should_act ledger_web3 ?t () traded_ledger))) = 1"
    using run_step_snapshot_amended[of ledger_web3 _ "()" traded_ledger _ ?t, THEN conjunct2,
        THEN conjunct2, THEN conjunct2, THEN conjunct2, THEN conjunct2, rule_format, OF lb] price
    by simp
  from ms rs md lb price obs show ?thesis by blast
qed


section \<open>The final report\<close>




text \<open>
  Outside the amended statement: a non-zero ETH balance. \<open>from_wei\<close> returns it as a
  \<open>Decimal\<close>, every entry of \<open>get_performance_stats\<close> then holds one, and \<open>json.dump\<close>
  raises \<open>TypeError\<close> in \<open>_save_results\<close>, after the report has been assembled and before
  it is returned. On the test ledger with 1000 ether on every account, a run of no
  ticks at all ends that way, where \<open>test_full_simulation\<close> expects the report.
\<close>

lemma run_simulation_decimal_balance:
  "fst (run_simulation ether_web3 (simulator_agents ether_web3) reserves_externals
          ''0xD0'' ''0xTEST'' ''0xUSDC''
          (new_runner [MarketMakerAgent (new_market_maker ''market_maker_0'' ''0xM0'' (1 / 2))]
             funded_ledger 0))
     = Inl (Exc (TypeError ''Object of type Decimal is not JSON serializable''))"
  by (simp add: run_simulation_def generate_final_report_def reserves_externals_def
      simulator_agents_def lift_exn_def get_performance_stats_def calculate_pnl_def
      get_all_balances_def get_eth_balance_def from_wei_ether_def ether_web3_def ledger_web3_def
      new_market_maker_def new_runner_def save_results_def json_dump_def json_stats_def
      json_number_def Let_def)

section \<open>Agent registration\<close>

lemma setup_agents_from_known:
  assumes "\<forall>c \<in> set cs. strategy_of c \<noteq> None"
  shows "length (setup_agents_from seed i cs) = length cs \<and>
         (\<forall>k < length cs.
            setup_random_seed (setup_agents_from seed i cs ! k) = seed + int (i + k) \<and>
            setup_private_key (setup_agents_from seed i cs ! k) = (i + k) mod 10 \<and>
            setup_agent_id (setup_agents_from seed i cs ! k)
              = cfg_type (cs ! k) @ ''_'' @ string_of_nat (i + k))"
  using assms
proof (induction cs arbitrary: i)
  case Nil
  then show ?case by simp
next
  case (Cons c cs)
  then obtain st where st: "strategy_of c = Some st" by auto
  have ih: "length (setup_agents_from seed (i + 1) cs) = length cs \<and>
         (\<forall>k < length cs.
            setup_random_seed (setup_agents_from seed (i + 1) cs ! k) = seed + int (i + 1 + k) \<and>
            setup_private_key (setup_agents_from seed (i + 1) cs ! k) = (i + 1 + k) mod 10 \<and>
            setup_agent_id (setup_agents_from seed (i + 1) cs ! k)
              = cfg_type (cs ! k) @ ''_'' @ string_of_nat (i + 1 + k))"
    using Cons.IH[of "i + 1"] Cons.prems by simp
  show ?case
  proof (intro conjI allI impI)
    show "length (setup_agents_from seed i (c # cs)) = length (c # cs)"
      using st ih by simp
  next
    fix k assume k: "k < length (c # cs)"
    show "setup_random_seed (setup_agents_from seed i (c # cs) ! k) = seed + int (i + k)"
      using st ih k by (cases k) auto
    show "setup_private_key (setup_agents_from seed i (c # cs) ! k) = (i + k) mod 10"
      using st ih k by (cases k) auto
    show "setup_agent_id (setup_agents_from seed i (c # cs) ! k)
              = cfg_type ((c # cs) ! k) @ ''_'' @ string_of_nat (i + k)"
      using st ih k by (cases k) auto
  qed
qed

lemma setup_agents_from_seeds:
  "sorted_wrt (<) (map setup_random_seed (setup_agents_from seed i cs)) \<and>
   (\<forall>s \<in> set (setup_agents_from seed i cs). seed + int i \<le> setup_random_seed s)"
proof (induction cs arbitrary: i)
  case Nil
  then show ?case by simp
next
  case (Cons c cs)
  have ih1: "sorted_wrt (<) (map setup_random_seed (setup_agents_from seed (i + 1) cs))"
    and ih2: "\<forall>s \<in> set (setup_agents_from seed (i + 1) cs). seed + int (i + 1) \<le> setup_random_seed s"
    using Cons[of "i + 1"] by blast+
  show ?case
  proof (cases "strategy_of c")
    case None
    have "\<forall>s \<in> set (setup_agents_from seed (i + 1) cs). seed + int i \<le> setup_random_seed s"
    proof
      fix s assume "s \<in> set (setup_agents_from seed (i + 1) cs)"
      then have "seed + int (i + 1) \<le> setup_random_seed s" using ih2 by blast
      then show "seed + int i \<le> setup_random_seed s" by simp
    qed
    then show ?thesis using None ih1 by simp
  next
    case (Some st)
    have lt: "\<forall>s \<in> set (setup_agents_from seed (i + 1) cs). seed + int i < setup_random_seed s"
    proof
      fix s assume "s \<in> set (setup_agents_from seed (i + 1) cs)"
      then have "seed + int (i + 1) \<le> setup_random_seed s" using ih2 by blast
      then show "seed + int i < setup_random_seed s" by simp
    qed
    then have le: "\<forall>s \<in> set (setup_agents_from seed (i + 1) cs). seed + int i \<le> setup_random_seed s"
      using order_less_imp_le by blast
    define r where "r = \<lparr>setup_agent_id = cfg_type c @ ''_'' @ string_of_nat i,
           setup_private_key = i mod 10,
           setup_strategy = st,
           setup_initial_balance = cfg_initial_balance c,
           setup_random_seed = seed + int i\<rparr>"
    define rest where "rest = setup_agents_from seed (i + 1) cs"
    have eq: "setup_agents_from seed i (c # cs) = r # rest"
      using Some by (simp add: r_def rest_def)
    have first: "setup_random_seed r = seed + int i" by (simp add: r_def)
    show ?thesis
      unfolding eq
    proof (intro conjI ballI)
      show "sorted_wrt (<) (map setup_random_seed (r # rest))"
        unfolding list.map sorted_wrt.simps first
      proof (intro conjI ballI)
        fix y assume "y \<in> set (map setup_random_seed rest)"
        then obtain s where "s \<in> set rest" "y = setup_random_seed s" by auto
        then show "seed + int i < y" using lt unfolding rest_def by blast
      next
        show "sorted_wrt (<) (map setup_random_seed rest)" unfolding rest_def by (rule ih1)
      qed
    next
      fix s assume "s \<in> set (r # rest)"
      then consider "s = r" | "s \<in> set rest" by auto
      then show "seed + int i \<le> setup_random_seed s"
      proof cases
        case 1
        then show ?thesis using first by simp
      next
        case 2
        then show ?thesis using le unfolding rest_def by blast
      qed
    qed
  qed
qed

lemma string_of_nat_digits: "string_of_nat 0 = ''0''" "string_of_nat 1 = ''1''" "string_of_nat 2 = ''2''"
  by (subst string_of_nat.simps, simp)+

text \<open>
  \<open>_setup_agents\<close> registers the agents in the order of the configuration. The seeds
  it hands to the agents' generators increase strictly along the list (an entry of unknown
  type is skipped but still counted). When every entry has a known type, the agent at
  position \<open>k\<close> has the seed \<open>random_seed + k\<close> (42 when the configuration gives none),
  the key number \<open>k mod 10\<close> and the identifier \<open>type_k\<close>.
\<close>

theorem setup_agents_registration_order:
  "sorted_wrt (<) (map setup_random_seed (setup_agents cfg)) \<and>
   ((\<forall>c \<in> set (cfg_agents cfg). strategy_of c \<noteq> None) \<longrightarrow>
      length (setup_agents cfg) = length (cfg_agents cfg) \<and>
      (\<forall>k < length (cfg_agents cfg).
         setup_random_seed (setup_agents cfg ! k) = get_or (cfg_random_seed cfg) 42 + int k \<and>
         setup_private_key (setup_agents cfg ! k) = k mod 10 \<and>
         setup_agent_id (setup_agents cfg ! k)
           = cfg_type (cfg_agents cfg ! k) @ ''_'' @ string_of_nat k))"
  using setup_agents_from_seeds[of "get_or (cfg_random_seed cfg) 42" 0 "cfg_agents cfg"]
    setup_agents_from_known[of "cfg_agents cfg" "get_or (cfg_random_seed cfg) 42" 0]
  by (simp add: setup_agents_def)

text \<open>
  On the default configuration: three agents, \<open>market_maker_0\<close>, \<open>random_trader_1\<close>
  and \<open>momentum_trader_2\<close>, seeded 42, 43 and 44.
\<close>

theorem setup_agents_registration_order_witness:
  "(\<forall>c \<in> set (cfg_agents default_config). strategy_of c \<noteq> None) \<and>
   length (setup_agents default_config) = 3 \<and>
   setup_agent_id (setup_agents default_config ! 0) = ''market_maker_0'' \<and>
   setup_agent_id (setup_agents default_config ! 1) = ''random_trader_1'' \<and>
   setup_agent_id (setup_agents default_config ! 2) = ''momentum_trader_2'' \<and>
   setup_random_seed (setup_agents default_config ! 0) = 42 \<and>
   setup_random_seed (setup_agents default_config ! 1) = 43 \<and>
   setup_random_seed (setup_agents default_config ! 2) = 44"
proof -
  have known: "\<forall>c \<in> set (cfg_agents default_config). strategy_of c \<noteq> None"
    by (simp add: default_config_def strategy_of_def)
  have len: "length (cfg_agents default_config) = 3" by (simp add: default_config_def)
  have seed: "get_or (cfg_random_seed default_config) 42 = 42"
    by (simp add: default_config_def get_or_def)
  have types: "cfg_type (cfg_agents default_config ! 0) = ''market_maker''"
    "cfg_type (cfg_agents default_config ! Suc 0) = ''random_trader''"
    "cfg_type (cfg_agents default_config ! 2) = ''momentum_trader''"
    by (simp_all add: default_config_def)
  note th = setup_agents_registration_order[of default_config, THEN conjunct2, THEN mp, OF known,
      unfolded len seed]
  have l: "length (setup_agents default_config) = 3" using th by blast
  have k0: "setup_random_seed (setup_agents default_config ! 0) = 42"
    "setup_agent_id (setup_agents default_config ! 0) = ''market_maker_0''"
    using th[THEN conjunct2, rule_format, of 0] by (simp_all add: types string_of_nat_digits)
  have k1: "setup_random_seed (setup_agents default_config ! 1) = 43"
    "setup_agent_id (setup_agents default_config ! 1) = ''random_trader_1''"
    using th[THEN conjunct2, rule_format, of 1] by (simp_all add: types string_of_nat_digits)
  have k2: "setup_random_seed (setup_agents default_config ! 2) = 44"
    "setup_agent_id (setup_agents default_config ! 2) = ''momentum_trader_2''"
    using th[THEN conjunct2, rule_format, of 2] by (simp_all add: types string_of_nat_digits)
  from known l k0 k1 k2 show ?thesis by blast
qed

end
